theory Spec2Isabelle
  imports Complex_Main "HOL-Library.Word" "HOL-Library.Multiset"
begin

section \<open>Values shared by the scene manager, the shader manager and the fragment shader\<close>

text \<open>
  The renderer computes with 32-bit floats (\<^verbatim>\<open>float\<close>, \<^verbatim>\<open>glm::vec3\<close>, \<^verbatim>\<open>glm::mat4\<close>).
  The float type is the type variable \<open>'f\<close> and the matrix type is \<open>'m\<close>; every
  arithmetic operation on them is a field of an operations record that the functions
  take as their first argument, so each result below holds for whatever the hardware
  computes, rounding included.
\<close>

datatype 'f vec2 = Vec2 (vu: 'f) (vv: 'f)
datatype 'f vec3 = Vec3 (vx: 'f) (vy: 'f) (vz: 'f)
datatype 'f vec4 = Vec4 (cr: 'f) (cg: 'f) (cb: 'f) (ca: 'f)

type_synonym GLuint = "32 word"

subsection \<open>Material registry\<close>

text \<open>\<^verbatim>\<open>OBJECT_MATERIAL\<close>: the fields \<^verbatim>\<open>FindMaterial\<close> and \<^verbatim>\<open>PrepareScene\<close> use.\<close>

record 'f OBJECT_MATERIAL =
  mat_tag :: string
  ambientColor :: "'f vec3"
  ambientStrength :: 'f
  diffuseColor :: "'f vec3"
  specularColor :: "'f vec3"
  shininess :: 'f

text \<open>
  The loop of \<^verbatim>\<open>FindMaterial\<close>: \<^verbatim>\<open>while ((index < size) && (bFound == false))\<close>. On a
  match it sets \<^verbatim>\<open>bFound\<close> and copies five fields (not the tag) into the output
  parameter; otherwise it advances \<^verbatim>\<open>index\<close>. The result is the final \<^verbatim>\<open>bFound\<close> and
  the output parameter.
\<close>

function FindMaterial_loop ::
  "'f OBJECT_MATERIAL list \<Rightarrow> string \<Rightarrow> nat \<Rightarrow> bool \<Rightarrow> 'f OBJECT_MATERIAL
     \<Rightarrow> bool \<times> 'f OBJECT_MATERIAL" where
  "FindMaterial_loop ms tag index bFound material =
     (if index < length ms \<and> bFound = False then
        (if mat_tag (ms ! index) = tag then
           FindMaterial_loop ms tag index True
             (material\<lparr>ambientColor := ambientColor (ms ! index),
                       ambientStrength := ambientStrength (ms ! index),
                       diffuseColor := diffuseColor (ms ! index),
                       specularColor := specularColor (ms ! index),
                       shininess := shininess (ms ! index)\<rparr>)
         else FindMaterial_loop ms tag (index + 1) bFound material)
      else (bFound, material))"
  by pat_completeness auto
termination
  by (relation "measure (\<lambda>(ms, tag, index, bFound, material).
        2 * (length ms - index) + (if bFound then 0 else 1))") auto

text \<open>
  \<^verbatim>\<open>FindMaterial(tag, material)\<close>: \<^verbatim>\<open>false\<close> on an empty collection; otherwise it runs
  the loop and ends with \<^verbatim>\<open>return(true)\<close>, whatever \<^verbatim>\<open>bFound\<close> is.
\<close>

definition FindMaterial ::
  "'f OBJECT_MATERIAL list \<Rightarrow> string \<Rightarrow> 'f OBJECT_MATERIAL \<Rightarrow> bool \<times> 'f OBJECT_MATERIAL" where
  "FindMaterial m_objectMaterials tag material =
     (if length m_objectMaterials = 0 then (False, material)
      else (True, snd (FindMaterial_loop m_objectMaterials tag 0 False material)))"


section \<open>The graphics context and the objects of the program\<close>

subsection \<open>Float and matrix operations\<close>

text \<open>
  The operations of the C++ compiler and of GLM that the scene manager uses. GLM is
  not part of the repository, so its functions are parameters: \<open>lit\<close> reads a float
  literal as the source writes it (\<^verbatim>\<open>38.0f\<close> is \<open>lit ops ''38.0f''\<close>), \<open>of_int_f\<close> is the
  conversion of an \<^verbatim>\<open>int\<close> operand, \<open>mmul\<close> is \<^verbatim>\<open>operator*\<close> on \<^verbatim>\<open>glm::mat4\<close>.
\<close>

record ('f, 'm) glm =
  lit :: "string \<Rightarrow> 'f"
  of_int_f :: "int \<Rightarrow> 'f"
  fadd :: "'f \<Rightarrow> 'f \<Rightarrow> 'f"
  fmul :: "'f \<Rightarrow> 'f \<Rightarrow> 'f"
  fdiv :: "'f \<Rightarrow> 'f \<Rightarrow> 'f"
  glm_radians :: "'f \<Rightarrow> 'f"
  glm_cos :: "'f \<Rightarrow> 'f"
  glm_scale :: "'f vec3 \<Rightarrow> 'm"
  glm_rotate :: "'f \<Rightarrow> 'f vec3 \<Rightarrow> 'm"
  glm_translate :: "'f vec3 \<Rightarrow> 'm"
  mmul :: "'m \<Rightarrow> 'm \<Rightarrow> 'm"

subsection \<open>The OpenGL context\<close>

datatype ('f, 'm) uval =
    IntValue int
  | FloatValue 'f
  | Vec2Value "'f vec2"
  | Vec3Value "'f vec3"
  | Vec4Value "'f vec4"
  | Mat4Value 'm
  | Sampler2DValue int

datatype mesh_kind = PlaneMesh | CylinderMesh | TorusMesh | BoxMesh | ConeMesh

text \<open>The commands sent to the context, each with the arguments that identify it.\<close>

datatype ('f, 'm) gl_call =
    ActiveTexture int
  | BindTexture GLuint
  | GenTextures GLuint
  | TexParameter string string
  | TexImage2D string int int
  | GenerateMipmap
  | GenFramebuffers GLuint
  | BindFramebuffer GLuint
  | FramebufferTexture2D GLuint
  | DrawBuffer string
  | ReadBuffer string
  | CheckFramebufferStatus
  | Viewport int int int int
  | Clear string
  | Enable string
  | Disable string
  | CullFace string
  | CreateShader string GLuint
  | ShaderSource GLuint string
  | CompileShader GLuint
  | CreateProgram GLuint
  | AttachShader GLuint GLuint
  | LinkProgram GLuint
  | DetachShader GLuint GLuint
  | DeleteShader GLuint
  | UseProgram GLuint
  | Uniform GLuint string "('f, 'm) uval"
  | DrawMesh mesh_kind

text \<open>
  One rasterised object: the mesh, the program in use when it is drawn, and the value
  that program's \<^verbatim>\<open>model\<close> uniform has at that moment.
\<close>

record ('f, 'm) draw =
  mesh :: mesh_kind
  program :: GLuint
  model :: "('f, 'm) uval option"

text \<open>
  The context: the log of commands, the state the claims read (program in use, uniforms
  of each program, active texture unit, the 2D texture bound to each unit, the bound
  framebuffer) and what the driver answers (the object names it hands out, in order;
  whether a framebuffer is complete; whether a shader source compiles).
\<close>

record ('f, 'm) gl_state =
  calls :: "('f, 'm) gl_call list"
  draws :: "('f, 'm) draw list"
  currentProgram :: GLuint
  uniforms :: "GLuint \<Rightarrow> string \<Rightarrow> ('f, 'm) uval option"
  activeTexture :: int
  boundTexture :: "int \<Rightarrow> GLuint"
  boundFramebuffer :: GLuint
  names :: "nat \<Rightarrow> GLuint"
  issued :: nat
  framebufferComplete :: "GLuint \<Rightarrow> bool"
  compiles :: "string \<Rightarrow> bool"

definition gl_log :: "('f, 'm) gl_call \<Rightarrow> ('f, 'm) gl_state \<Rightarrow> ('f, 'm) gl_state" where
  "gl_log c g = g\<lparr>calls := calls g @ [c]\<rparr>"

definition gl_gen :: "(GLuint \<Rightarrow> ('f, 'm) gl_call) \<Rightarrow> ('f, 'm) gl_state \<Rightarrow> GLuint \<times> ('f, 'm) gl_state" where
  "gl_gen c g = (names g (issued g), gl_log (c (names g (issued g))) (g\<lparr>issued := issued g + 1\<rparr>))"

definition glActiveTexture :: "int \<Rightarrow> ('f, 'm) gl_state \<Rightarrow> ('f, 'm) gl_state" where
  "glActiveTexture unit g = gl_log (ActiveTexture unit) (g\<lparr>activeTexture := unit\<rparr>)"

definition glBindTexture :: "GLuint \<Rightarrow> ('f, 'm) gl_state \<Rightarrow> ('f, 'm) gl_state" where
  "glBindTexture t g =
     gl_log (BindTexture t) (g\<lparr>boundTexture := (boundTexture g)(activeTexture g := t)\<rparr>)"

definition glBindFramebuffer :: "GLuint \<Rightarrow> ('f, 'm) gl_state \<Rightarrow> ('f, 'm) gl_state" where
  "glBindFramebuffer fb g = gl_log (BindFramebuffer fb) (g\<lparr>boundFramebuffer := fb\<rparr>)"

text \<open>\<^verbatim>\<open>glCheckFramebufferStatus(GL_FRAMEBUFFER) == GL_FRAMEBUFFER_COMPLETE\<close>: the status of
  the framebuffer that is bound when the call is made.\<close>

definition glCheckFramebufferStatus :: "('f, 'm) gl_state \<Rightarrow> bool \<times> ('f, 'm) gl_state" where
  "glCheckFramebufferStatus g =
     (framebufferComplete g (boundFramebuffer g), gl_log CheckFramebufferStatus g)"

definition glUseProgram :: "GLuint \<Rightarrow> ('f, 'm) gl_state \<Rightarrow> ('f, 'm) gl_state" where
  "glUseProgram p g = gl_log (UseProgram p) (g\<lparr>currentProgram := p\<rparr>)"

subsection \<open>Shader manager\<close>

record ShaderManager =
  m_programID :: GLuint

text \<open>
  Modelled from the spec: the typed uniform setters of \<^verbatim>\<open>ShaderManager\<close>
  (\<^verbatim>\<open>setIntValue\<close>, \<^verbatim>\<open>setFloatValue\<close>, \<^verbatim>\<open>setVec2Value\<close>, \<^verbatim>\<open>setVec3Value\<close>, \<^verbatim>\<open>setVec4Value\<close>,
  \<^verbatim>\<open>setMat4Value\<close>, \<^verbatim>\<open>setSampler2DValue\<close>) and \<^verbatim>\<open>use\<close> are declared in ShaderManager.h,
  which is not among the sources. The spec gives \<^verbatim>\<open>use(programHandle)\<close> and
  \<^verbatim>\<open>setUniform(name, value)\<close>, keyed by uniform name, and has a uniform write act on the
  currently bound program: a setter stores the value under the name in the uniforms of
  the program in use, whichever manager the call goes through, and \<^verbatim>\<open>use\<close> makes the
  manager's program the program in use. The context keeps one set of uniforms for each
  program name, the name 0 (no program) included.
\<close>

definition setUniform ::
  "ShaderManager \<Rightarrow> string \<Rightarrow> ('f, 'm) uval \<Rightarrow> ('f, 'm) gl_state \<Rightarrow> ('f, 'm) gl_state" where
  "setUniform sh name v g =
     gl_log (Uniform (currentProgram g) name v)
       (g\<lparr>uniforms := (uniforms g)(currentProgram g := (uniforms g (currentProgram g))(name \<mapsto> v))\<rparr>)"

definition use :: "ShaderManager \<Rightarrow> ('f, 'm) gl_state \<Rightarrow> ('f, 'm) gl_state" where
  "use sh g = glUseProgram (m_programID sh) g"

text \<open>
  Modelled from the spec: the mesh provider (\<^verbatim>\<open>ShapeMeshes\<close>) is not among the sources;
  the spec gives "draw mesh kind K" with no further parameter. A draw rasterises the
  mesh with the program in use and that program's current uniforms.
\<close>

definition DrawMesh_gl :: "mesh_kind \<Rightarrow> ('f, 'm) gl_state \<Rightarrow> ('f, 'm) gl_state" where
  "DrawMesh_gl k g =
     gl_log (DrawMesh k)
       (g\<lparr>draws := draws g @
          [\<lparr>mesh = k, program = currentProgram g, model = uniforms g (currentProgram g) ''model''\<rparr>]\<rparr>)"

subsection \<open>Scene manager\<close>

text \<open>\<^verbatim>\<open>TEXTURE_INFO\<close>: a tag and the texture name; the constructor stores \<^verbatim>\<open>-1\<close> as the name
  of an empty slot, and \<^verbatim>\<open>CreateGLTexture\<close> stores a \<^verbatim>\<open>GLuint\<close>.\<close>

record TEXTURE_INFO =
  tex_tag :: string
  ID :: GLuint

datatype error = NullPointer | OutOfBounds

text \<open>
  The members of \<^verbatim>\<open>SceneManager\<close> together with the context and the diagnostic stream
  \<^verbatim>\<open>std::cerr\<close>. A pointer member is \<open>None\<close> when null. Progress messages on
  \<^verbatim>\<open>std::cout\<close> are not part of the state.
\<close>

record ('f, 'm) state =
  m_pShaderManager :: "ShaderManager option"
  m_pDepthShaderManager :: "ShaderManager option"
  m_textureIDs :: "TEXTURE_INFO list"
  m_loadedTextures :: int
  m_objectMaterials :: "'f OBJECT_MATERIAL list"
  m_shadowMapFBO :: GLuint
  m_shadowMap :: GLuint
  gl :: "('f, 'm) gl_state"
  cerr :: "string list"

definition on_gl :: "(('f, 'm) gl_state \<Rightarrow> ('f, 'm) gl_state) \<Rightarrow> ('f, 'm) state \<Rightarrow> error + ('f, 'm) state" where
  "on_gl f st = Inr (st\<lparr>gl := f (gl st)\<rparr>)"

text \<open>Statements in sequence; the first error ends the run.\<close>

fun steps :: "('s \<Rightarrow> error + 's) list \<Rightarrow> 's \<Rightarrow> error + 's" where
  "steps [] s = Inr s"
| "steps (f # fs) s = (case f s of Inl e \<Rightarrow> Inl e | Inr s' \<Rightarrow> steps fs s')"

text \<open>A call through \<^verbatim>\<open>m_pShaderManager\<close> or \<^verbatim>\<open>m_pDepthShaderManager\<close> with no null check.\<close>

definition deref_main ::
  "(ShaderManager \<Rightarrow> ('f, 'm) gl_state \<Rightarrow> ('f, 'm) gl_state) \<Rightarrow> ('f, 'm) state \<Rightarrow> error + ('f, 'm) state" where
  "deref_main f st =
     (case m_pShaderManager st of None \<Rightarrow> Inl NullPointer | Some sh \<Rightarrow> on_gl (f sh) st)"

definition deref_depth ::
  "(ShaderManager \<Rightarrow> ('f, 'm) gl_state \<Rightarrow> ('f, 'm) gl_state) \<Rightarrow> ('f, 'm) state \<Rightarrow> error + ('f, 'm) state" where
  "deref_depth f st =
     (case m_pDepthShaderManager st of None \<Rightarrow> Inl NullPointer | Some sh \<Rightarrow> on_gl (f sh) st)"

text \<open>The constructor: sixteen empty slots (tag \<^verbatim>\<open>"/0"\<close>, name \<^verbatim>\<open>-1\<close>), no texture loaded;
  the members it does not assign keep what they held.\<close>

definition SceneManager_init ::
  "ShaderManager option \<Rightarrow> ('f, 'm) state \<Rightarrow> ('f, 'm) state" where
  "SceneManager_init pShaderManager st =
     st\<lparr>m_pShaderManager := pShaderManager,
        m_textureIDs := replicate 16 \<lparr>tex_tag = ''/0'', ID = - 1\<rparr>,
        m_loadedTextures := 0\<rparr>"


section \<open>Texture registry\<close>

text \<open>
  What \<^verbatim>\<open>stbi_load\<close> reports for a decoded image. The decoder is an external library: the
  functions below take it as the parameter \<open>stbi_load\<close>, \<open>None\<close> when it returns a null
  pointer.
\<close>

record image =
  width :: int
  height :: int
  colorChannels :: int

text \<open>
  The tail of \<^verbatim>\<open>CreateGLTexture\<close> after the image upload: mipmaps, unbind, then the
  stores into \<^verbatim>\<open>m_textureIDs[m_loadedTextures]\<close>. The array has a fixed number of
  entries and the source does not check the index.
\<close>

definition store_texture :: "GLuint \<Rightarrow> string \<Rightarrow> ('f, 'm) state \<Rightarrow> error + (bool \<times> ('f, 'm) state)" where
  "store_texture textureID tag st =
     (let st1 = st\<lparr>gl := glBindTexture 0 (gl_log GenerateMipmap (gl st))\<rparr>;
          n = m_loadedTextures st1
      in if 0 \<le> n \<and> n < int (length (m_textureIDs st1)) then
           Inr (True, st1\<lparr>m_textureIDs := (m_textureIDs st1)[nat n := \<lparr>tex_tag = tag, ID = textureID\<rparr>],
                          m_loadedTextures := n + 1\<rparr>)
         else Inl OutOfBounds)"

definition CreateGLTexture ::
  "(string \<Rightarrow> image option) \<Rightarrow> string \<Rightarrow> string \<Rightarrow> ('f, 'm) state \<Rightarrow> error + (bool \<times> ('f, 'm) state)" where
  "CreateGLTexture stbi_load filename tag st =
     (case stbi_load filename of
        Some img \<Rightarrow>
          (let (textureID, g1) = gl_gen GenTextures (gl st);
               g2 = glBindTexture textureID g1;
               g3 = gl_log (TexParameter ''GL_TEXTURE_WRAP_S'' ''GL_REPEAT'') g2;
               g4 = gl_log (TexParameter ''GL_TEXTURE_WRAP_T'' ''GL_REPEAT'') g3;
               g5 = gl_log (TexParameter ''GL_TEXTURE_MIN_FILTER'' ''GL_LINEAR'') g4;
               g6 = gl_log (TexParameter ''GL_TEXTURE_MAG_FILTER'' ''GL_LINEAR'') g5
           in if colorChannels img = 3 then
                store_texture textureID tag
                  (st\<lparr>gl := gl_log (TexImage2D ''GL_RGB8'' (width img) (height img)) g6\<rparr>)
              else if colorChannels img = 4 then
                store_texture textureID tag
                  (st\<lparr>gl := gl_log (TexImage2D ''GL_RGBA8'' (width img) (height img)) g6\<rparr>)
              else Inr (False, st\<lparr>gl := g6\<rparr>))
      | None \<Rightarrow> Inr (False, st))"

text \<open>\<^verbatim>\<open>BindGLTextures\<close>: unit \<open>i\<close> gets the texture of slot \<open>i\<close>, for the loaded slots.\<close>

fun BindGLTextures_loop :: "TEXTURE_INFO list \<Rightarrow> nat list \<Rightarrow> ('f, 'm) gl_state \<Rightarrow> error + ('f, 'm) gl_state" where
  "BindGLTextures_loop tbl [] g = Inr g"
| "BindGLTextures_loop tbl (i # is) g =
     (if i < length tbl
      then BindGLTextures_loop tbl is (glBindTexture (ID (tbl ! i)) (glActiveTexture (int i) g))
      else Inl OutOfBounds)"

definition BindGLTextures :: "('f, 'm) state \<Rightarrow> error + ('f, 'm) state" where
  "BindGLTextures st =
     (case BindGLTextures_loop (m_textureIDs st) [0 ..< nat (m_loadedTextures st)] (gl st) of
        Inl e \<Rightarrow> Inl e
      | Inr g \<Rightarrow> Inr (st\<lparr>gl := g\<rparr>))"

text \<open>
  The loop of \<^verbatim>\<open>FindTextureSlot\<close>: \<^verbatim>\<open>while ((index < m_loadedTextures) && (bFound == false))\<close>.
  It ends at the first slot whose tag compares equal, with that index; with \<^verbatim>\<open>-1\<close> when
  \<^verbatim>\<open>index\<close> reaches \<^verbatim>\<open>m_loadedTextures\<close>.
\<close>

function FindTextureSlot_loop :: "TEXTURE_INFO list \<Rightarrow> int \<Rightarrow> string \<Rightarrow> int \<Rightarrow> error + int" where
  "FindTextureSlot_loop tbl n tag index =
     (if index < n then
        (if index < 0 \<or> int (length tbl) \<le> index then Inl OutOfBounds
         else if tex_tag (tbl ! nat index) = tag then Inr index
         else FindTextureSlot_loop tbl n tag (index + 1))
      else Inr (- 1))"
  by pat_completeness auto
termination
  by (relation "measure (\<lambda>(tbl, n, tag, index). nat (n - index))") auto

definition FindTextureSlot :: "('f, 'm) state \<Rightarrow> string \<Rightarrow> error + int" where
  "FindTextureSlot st tag = FindTextureSlot_loop (m_textureIDs st) (m_loadedTextures st) tag 0"

text \<open>\<^verbatim>\<open>FindTextureID\<close>: the same scan; the result is the stored name converted to \<^verbatim>\<open>int\<close>.\<close>

function FindTextureID_loop :: "TEXTURE_INFO list \<Rightarrow> int \<Rightarrow> string \<Rightarrow> int \<Rightarrow> error + int" where
  "FindTextureID_loop tbl n tag index =
     (if index < n then
        (if index < 0 \<or> int (length tbl) \<le> index then Inl OutOfBounds
         else if tex_tag (tbl ! nat index) = tag then Inr (sint (ID (tbl ! nat index)))
         else FindTextureID_loop tbl n tag (index + 1))
      else Inr (- 1))"
  by pat_completeness auto
termination
  by (relation "measure (\<lambda>(tbl, n, tag, index). nat (n - index))") auto

definition FindTextureID :: "('f, 'm) state \<Rightarrow> string \<Rightarrow> error + int" where
  "FindTextureID st tag = FindTextureID_loop (m_textureIDs st) (m_loadedTextures st) tag 0"

text \<open>
  A run of \<^verbatim>\<open>CreateGLTexture\<close> calls, one per (file, tag) pair. The log has one entry
  per call: its tag, its result, and the name \<^verbatim>\<open>glGenTextures\<close> hands out in that call.
\<close>

fun load_all ::
  "(string \<Rightarrow> image option) \<Rightarrow> (string \<times> string) list \<Rightarrow> ('f, 'm) state
     \<Rightarrow> error + ((string \<times> bool \<times> GLuint) list \<times> ('f, 'm) state)" where
  "load_all stbi_load [] st = Inr ([], st)"
| "load_all stbi_load ((filename, tag) # cs) st =
     (case CreateGLTexture stbi_load filename tag st of
        Inl e \<Rightarrow> Inl e
      | Inr (b, st1) \<Rightarrow>
          (case load_all stbi_load cs st1 of
             Inl e \<Rightarrow> Inl e
           | Inr (lg, st2) \<Rightarrow> Inr ((tag, b, names (gl st) (issued (gl st))) # lg, st2)))"

section \<open>Transform and uniform dispatcher\<close>

text \<open>The product both \<^verbatim>\<open>SetTransformations\<close> and \<^verbatim>\<open>SetModelMatrix\<close> build:
  \<^verbatim>\<open>translation * rotationX * rotationY * rotationZ * scale\<close>, which C++ groups from the left.\<close>

definition modelView :: "('f, 'm) glm \<Rightarrow> 'f vec3 \<Rightarrow> 'f \<Rightarrow> 'f \<Rightarrow> 'f \<Rightarrow> 'f vec3 \<Rightarrow> 'm" where
  "modelView ops scaleXYZ XrotationDegrees YrotationDegrees ZrotationDegrees positionXYZ =
     (let scale = glm_scale ops scaleXYZ;
          rotationX = glm_rotate ops (glm_radians ops XrotationDegrees)
                        (Vec3 (lit ops ''1.0f'') (lit ops ''0.0f'') (lit ops ''0.0f''));
          rotationY = glm_rotate ops (glm_radians ops YrotationDegrees)
                        (Vec3 (lit ops ''0.0f'') (lit ops ''1.0f'') (lit ops ''0.0f''));
          rotationZ = glm_rotate ops (glm_radians ops ZrotationDegrees)
                        (Vec3 (lit ops ''0.0f'') (lit ops ''0.0f'') (lit ops ''1.0f''));
          translation = glm_translate ops positionXYZ
      in mmul ops (mmul ops (mmul ops (mmul ops translation rotationX) rotationY) rotationZ) scale)"

definition SetTransformations ::
  "('f, 'm) glm \<Rightarrow> 'f vec3 \<Rightarrow> 'f \<Rightarrow> 'f \<Rightarrow> 'f \<Rightarrow> 'f vec3 \<Rightarrow> ('f, 'm) state \<Rightarrow> error + ('f, 'm) state" where
  "SetTransformations ops scaleXYZ XrotationDegrees YrotationDegrees ZrotationDegrees positionXYZ st =
     (case m_pShaderManager st of
        Some sh \<Rightarrow>
          on_gl (setUniform sh ''model''
            (Mat4Value (modelView ops scaleXYZ XrotationDegrees YrotationDegrees ZrotationDegrees positionXYZ))) st
      | None \<Rightarrow> Inr st)"

definition SetShaderColor :: "'f \<Rightarrow> 'f \<Rightarrow> 'f \<Rightarrow> 'f \<Rightarrow> ('f, 'm) state \<Rightarrow> error + ('f, 'm) state" where
  "SetShaderColor redColorValue greenColorValue blueColorValue alphaValue st =
     (case m_pShaderManager st of
        Some sh \<Rightarrow>
          steps [on_gl (setUniform sh ''bUseTexture'' (IntValue 0)),
                 on_gl (setUniform sh ''objectColor''
                   (Vec4Value (Vec4 redColorValue greenColorValue blueColorValue alphaValue)))] st
      | None \<Rightarrow> Inr st)"

definition SetShaderTexture :: "string \<Rightarrow> ('f, 'm) state \<Rightarrow> error + ('f, 'm) state" where
  "SetShaderTexture textureTag st =
     (case m_pShaderManager st of
        Some sh \<Rightarrow>
          steps [on_gl (setUniform sh ''bUseTexture'' (IntValue 1)),
                 (\<lambda>st1. case FindTextureSlot st1 textureTag of
                    Inl e \<Rightarrow> Inl e
                  | Inr slot \<Rightarrow>
                      if slot \<ge> 0 then
                        steps [on_gl (glActiveTexture slot),
                               on_gl (glBindTexture (ID (m_textureIDs st1 ! nat slot))),
                               on_gl (setUniform sh ''objectTexture'' (Sampler2DValue slot))] st1
                      else Inr st1)] st
      | None \<Rightarrow> Inr st)"

definition SetTextureUVScale :: "'f \<Rightarrow> 'f \<Rightarrow> ('f, 'm) state \<Rightarrow> error + ('f, 'm) state" where
  "SetTextureUVScale u v st =
     (case m_pShaderManager st of
        Some sh \<Rightarrow> on_gl (setUniform sh ''UVscale'' (Vec2Value (Vec2 u v))) st
      | None \<Rightarrow> Inr st)"

text \<open>\<^verbatim>\<open>SetModelMatrix\<close>: the same product, sent through the main shader manager and
  through the depth shader manager, each under its own null check.\<close>

definition SetModelMatrix ::
  "('f, 'm) glm \<Rightarrow> 'f vec3 \<Rightarrow> 'f \<Rightarrow> 'f \<Rightarrow> 'f \<Rightarrow> 'f vec3 \<Rightarrow> ('f, 'm) state \<Rightarrow> error + ('f, 'm) state" where
  "SetModelMatrix ops scaleXYZ Xrot Yrot Zrot positionXYZ st =
     (let model = modelView ops scaleXYZ Xrot Yrot Zrot positionXYZ
      in steps
           [(\<lambda>st. case m_pShaderManager st of
                     Some sh \<Rightarrow> on_gl (setUniform sh ''model'' (Mat4Value model)) st
                   | None \<Rightarrow> Inr st),
            (\<lambda>st. case m_pDepthShaderManager st of
                     Some dsh \<Rightarrow> on_gl (setUniform dsh ''model'' (Mat4Value model)) st
                   | None \<Rightarrow> Inr st)] st)"

text \<open>
  \<^verbatim>\<open>SetShaderMaterial\<close> stores five material uniforms through \<^verbatim>\<open>m_pShaderManager\<close>, with
  no null check; the values depend on the tag.
\<close>

definition material_uniforms ::
  "'f vec3 \<Rightarrow> 'f \<Rightarrow> 'f vec3 \<Rightarrow> 'f vec3 \<Rightarrow> 'f \<Rightarrow> ('f, 'm) state \<Rightarrow> error + ('f, 'm) state" where
  "material_uniforms ambient strength diffuse specular shine =
     steps [deref_main (\<lambda>sh. setUniform sh ''material.ambientColor'' (Vec3Value ambient)),
            deref_main (\<lambda>sh. setUniform sh ''material.ambientStrength'' (FloatValue strength)),
            deref_main (\<lambda>sh. setUniform sh ''material.diffuseColor'' (Vec3Value diffuse)),
            deref_main (\<lambda>sh. setUniform sh ''material.specularColor'' (Vec3Value specular)),
            deref_main (\<lambda>sh. setUniform sh ''material.shininess'' (FloatValue shine))]"

section \<open>Scene constants\<close>

text \<open>
  The constants of namespace \<^verbatim>\<open>SceneConstants\<close> that the two render passes use. A float
  literal is read by \<open>lit\<close> from its source text, sign included.
\<close>

definition vec3_lit :: "('f, 'm) glm \<Rightarrow> string \<Rightarrow> string \<Rightarrow> string \<Rightarrow> 'f vec3" where
  "vec3_lit ops a b c = Vec3 (lit ops a) (lit ops b) (lit ops c)"

definition DESK_TEXTURE :: string where "DESK_TEXTURE = ''deskTexture''"
definition LAPTOP_TEXTURE :: string where "LAPTOP_TEXTURE = ''laptopTex''"
definition SCREEN_TEXTURE :: string where "SCREEN_TEXTURE = ''screenTex''"
definition MUG_TEXTURE :: string where "MUG_TEXTURE = ''mugTex''"
definition HANDLE_TEXTURE :: string where "HANDLE_TEXTURE = ''handleTex''"
definition FLOOR_TEXTURE :: string where "FLOOR_TEXTURE = ''floorTex''"
definition WALL_TEXTURE :: string where "WALL_TEXTURE = ''wallTex''"
definition LAMP_SHADE_TEXTURE :: string where "LAMP_SHADE_TEXTURE = ''lampShadeTex''"
definition LAMP_BASE_TEXTURE :: string where "LAMP_BASE_TEXTURE = ''lampBaseTex''"

definition DRAMATIC_LIGHT_POSITION :: "('f, 'm) glm \<Rightarrow> 'f vec3" where
  "DRAMATIC_LIGHT_POSITION ops = vec3_lit ops ''2.0f'' ''8.0f'' ''-3.0f''"
definition DRAMATIC_LIGHT_DIRECTION :: "('f, 'm) glm \<Rightarrow> 'f vec3" where
  "DRAMATIC_LIGHT_DIRECTION ops = vec3_lit ops ''-0.3f'' ''-1.0f'' ''0.4f''"
definition ACCENT_LIGHT_POSITION :: "('f, 'm) glm \<Rightarrow> 'f vec3" where
  "ACCENT_LIGHT_POSITION ops = vec3_lit ops ''-5.0f'' ''6.0f'' ''8.0f''"
definition ACCENT_LIGHT_AMBIENT :: "('f, 'm) glm \<Rightarrow> 'f vec3" where
  "ACCENT_LIGHT_AMBIENT ops = vec3_lit ops ''0.1f'' ''0.1f'' ''0.3f''"
definition ACCENT_LIGHT_DIFFUSE :: "('f, 'm) glm \<Rightarrow> 'f vec3" where
  "ACCENT_LIGHT_DIFFUSE ops = vec3_lit ops ''0.3f'' ''0.5f'' ''1.0f''"
definition ACCENT_LIGHT_SPECULAR :: "('f, 'm) glm \<Rightarrow> 'f vec3" where
  "ACCENT_LIGHT_SPECULAR ops = vec3_lit ops ''0.5f'' ''0.7f'' ''1.0f''"

definition DESK_SCALE :: "('f, 'm) glm \<Rightarrow> 'f vec3" where
  "DESK_SCALE ops = vec3_lit ops ''38.0f'' ''0.475f'' ''23.75f''"
definition DESK_POSITION :: "('f, 'm) glm \<Rightarrow> 'f vec3" where
  "DESK_POSITION ops = vec3_lit ops ''0.0f'' ''-0.5f'' ''-5.0f''"
definition DESK_ROTATION :: "('f, 'm) glm \<Rightarrow> 'f vec3" where
  "DESK_ROTATION ops = vec3_lit ops ''0.0f'' ''0.0f'' ''0.0f''"

definition MUG_BODY_SCALE :: "('f, 'm) glm \<Rightarrow> 'f vec3" where
  "MUG_BODY_SCALE ops = vec3_lit ops ''0.575f'' ''1.725f'' ''0.575f''"
definition MUG_BODY_POSITION :: "('f, 'm) glm \<Rightarrow> 'f vec3" where
  "MUG_BODY_POSITION ops = vec3_lit ops ''5.0f'' ''0.75f'' ''-2.0f''"
definition MUG_BODY_ROTATION :: "('f, 'm) glm \<Rightarrow> 'f vec3" where
  "MUG_BODY_ROTATION ops = vec3_lit ops ''15.0f'' ''20.0f'' ''0.0f''"

definition MUG_HANDLE_SCALE :: "('f, 'm) glm \<Rightarrow> 'f vec3" where
  "MUG_HANDLE_SCALE ops = vec3_lit ops ''0.36225f'' ''0.36225f'' ''0.36225f''"
definition MUG_HANDLE_POSITION :: "('f, 'm) glm \<Rightarrow> 'f vec3" where
  "MUG_HANDLE_POSITION ops = vec3_lit ops ''5.5f'' ''1.5f'' ''-2.0f''"
definition MUG_HANDLE_ROTATION :: "('f, 'm) glm \<Rightarrow> 'f vec3" where
  "MUG_HANDLE_ROTATION ops = vec3_lit ops ''0.0f'' ''0.0f'' ''90.0f''"

definition LAPTOP_BASE_SCALE :: "('f, 'm) glm \<Rightarrow> 'f vec3" where
  "LAPTOP_BASE_SCALE ops = vec3_lit ops ''6.6f'' ''0.11f'' ''4.4f''"
definition LAPTOP_BASE_POSITION :: "('f, 'm) glm \<Rightarrow> 'f vec3" where
  "LAPTOP_BASE_POSITION ops = vec3_lit ops ''0.0f'' ''0.88f'' ''-0.55f''"
definition LAPTOP_BASE_ROTATION :: "('f, 'm) glm \<Rightarrow> 'f vec3" where
  "LAPTOP_BASE_ROTATION ops = vec3_lit ops ''0.0f'' ''0.0f'' ''0.0f''"

definition LAPTOP_SCREEN_SCALE :: "('f, 'm) glm \<Rightarrow> 'f vec3" where
  "LAPTOP_SCREEN_SCALE ops = vec3_lit ops ''6.6f'' ''3.3f'' ''0.11f''"
definition LAPTOP_SCREEN_POSITION :: "('f, 'm) glm \<Rightarrow> 'f vec3" where
  "LAPTOP_SCREEN_POSITION ops = vec3_lit ops ''0.0f'' ''1.76f'' ''-2.2f''"
definition LAPTOP_SCREEN_ROTATION :: "('f, 'm) glm \<Rightarrow> 'f vec3" where
  "LAPTOP_SCREEN_ROTATION ops = vec3_lit ops ''-45.0f'' ''0.0f'' ''0.0f''"

definition DISPLAY_PANEL_SCALE :: "('f, 'm) glm \<Rightarrow> 'f vec3" where
  "DISPLAY_PANEL_SCALE ops = vec3_lit ops ''6.05f'' ''3.08f'' ''0.055f''"
definition DISPLAY_PANEL_POSITION :: "('f, 'm) glm \<Rightarrow> 'f vec3" where
  "DISPLAY_PANEL_POSITION ops = vec3_lit ops ''0.0f'' ''1.76f'' ''-2.145f''"
definition DISPLAY_PANEL_ROTATION :: "('f, 'm) glm \<Rightarrow> 'f vec3" where
  "DISPLAY_PANEL_ROTATION ops = vec3_lit ops ''-45.0f'' ''0.0f'' ''0.0f''"

definition LAMP_BASE_SCALE :: "('f, 'm) glm \<Rightarrow> 'f vec3" where
  "LAMP_BASE_SCALE ops = vec3_lit ops ''1.0f'' ''0.4f'' ''1.0f''"
definition LAMP_BASE_POSITION :: "('f, 'm) glm \<Rightarrow> 'f vec3" where
  "LAMP_BASE_POSITION ops = vec3_lit ops ''-6.0f'' ''0.2f'' ''2.0f''"
definition LAMP_BASE_ROTATION :: "('f, 'm) glm \<Rightarrow> 'f vec3" where
  "LAMP_BASE_ROTATION ops = vec3_lit ops ''0.0f'' ''0.0f'' ''0.0f''"

definition LAMP_SHADE_SCALE :: "('f, 'm) glm \<Rightarrow> 'f vec3" where
  "LAMP_SHADE_SCALE ops = vec3_lit ops ''1.4f'' ''1.2f'' ''1.4f''"
definition LAMP_SHADE_POSITION :: "('f, 'm) glm \<Rightarrow> 'f vec3" where
  "LAMP_SHADE_POSITION ops = vec3_lit ops ''-6.0f'' ''2.5f'' ''2.0f''"
definition LAMP_SHADE_ROTATION :: "('f, 'm) glm \<Rightarrow> 'f vec3" where
  "LAMP_SHADE_ROTATION ops = vec3_lit ops ''0.0f'' ''0.0f'' ''0.0f''"

definition LAMP_STEM_SCALE :: "('f, 'm) glm \<Rightarrow> 'f vec3" where
  "LAMP_STEM_SCALE ops = vec3_lit ops ''0.12f'' ''2.8f'' ''0.12f''"
definition LAMP_STEM_POSITION :: "('f, 'm) glm \<Rightarrow> 'f vec3" where
  "LAMP_STEM_POSITION ops = vec3_lit ops ''-6.0f'' ''0.5f'' ''2.0f''"
definition LAMP_STEM_ROTATION :: "('f, 'm) glm \<Rightarrow> 'f vec3" where
  "LAMP_STEM_ROTATION ops = vec3_lit ops ''0.0f'' ''0.0f'' ''0.0f''"

definition FLOOR_SCALE :: "('f, 'm) glm \<Rightarrow> 'f vec3" where
  "FLOOR_SCALE ops = vec3_lit ops ''62.4f'' ''0.13f'' ''32.5f''"
definition FLOOR_POSITION :: "('f, 'm) glm \<Rightarrow> 'f vec3" where
  "FLOOR_POSITION ops = vec3_lit ops ''0.0f'' ''-5.0f'' ''-5.0f''"
definition FLOOR_ROTATION :: "('f, 'm) glm \<Rightarrow> 'f vec3" where
  "FLOOR_ROTATION ops = vec3_lit ops ''0.0f'' ''0.0f'' ''0.0f''"

definition WALL_SCALE :: "('f, 'm) glm \<Rightarrow> 'f vec3" where
  "WALL_SCALE ops = vec3_lit ops ''62.4f'' ''26.0f'' ''0.65f''"
definition WALL_POSITION_OFFSET :: "('f, 'm) glm \<Rightarrow> 'f vec3" where
  "WALL_POSITION_OFFSET ops = vec3_lit ops ''0.0f'' ''0.0f'' ''-21.25f''"
definition WALL_ROTATION :: "('f, 'm) glm \<Rightarrow> 'f vec3" where
  "WALL_ROTATION ops = vec3_lit ops ''0.0f'' ''0.0f'' ''0.0f''"

definition KEY_WIDTH :: "('f, 'm) glm \<Rightarrow> 'f" where "KEY_WIDTH ops = lit ops ''0.385f''"
definition KEY_HEIGHT :: "('f, 'm) glm \<Rightarrow> 'f" where "KEY_HEIGHT ops = lit ops ''0.11f''"
definition KEY_DEPTH :: "('f, 'm) glm \<Rightarrow> 'f" where "KEY_DEPTH ops = lit ops ''0.33f''"
definition KEY_ROWS :: int where "KEY_ROWS = 5"
definition KEY_COLS :: int where "KEY_COLS = 12"
definition KEY_SPACING :: "('f, 'm) glm \<Rightarrow> 'f" where "KEY_SPACING ops = lit ops ''0.055f''"
definition KEY_START_X :: "('f, 'm) glm \<Rightarrow> 'f" where "KEY_START_X ops = lit ops ''-2.31f''"
definition KEY_Y :: "('f, 'm) glm \<Rightarrow> 'f" where "KEY_Y ops = lit ops ''0.902f''"
definition KEY_START_Z :: "('f, 'm) glm \<Rightarrow> 'f" where "KEY_START_Z ops = lit ops ''-1.1f''"
definition KEY_COLOR :: "('f, 'm) glm \<Rightarrow> 'f vec3" where
  "KEY_COLOR ops = vec3_lit ops ''0.15f'' ''0.15f'' ''0.15f''"

definition DRAMATIC_AMBIENT_STRENGTH :: "('f, 'm) glm \<Rightarrow> 'f" where
  "DRAMATIC_AMBIENT_STRENGTH ops = lit ops ''0.05f''"
definition METAL_AMBIENT_STRENGTH :: "('f, 'm) glm \<Rightarrow> 'f" where
  "METAL_AMBIENT_STRENGTH ops = lit ops ''0.03f''"
definition STANDARD_AMBIENT_STRENGTH :: "('f, 'm) glm \<Rightarrow> 'f" where
  "STANDARD_AMBIENT_STRENGTH ops = lit ops ''0.05f''"
definition WOOD_SHININESS :: "('f, 'm) glm \<Rightarrow> 'f" where "WOOD_SHININESS ops = lit ops ''32.0f''"
definition CERAMIC_SHININESS :: "('f, 'm) glm \<Rightarrow> 'f" where "CERAMIC_SHININESS ops = lit ops ''128.0f''"
definition METAL_SHININESS :: "('f, 'm) glm \<Rightarrow> 'f" where "METAL_SHININESS ops = lit ops ''256.0f''"
definition STONE_SHININESS :: "('f, 'm) glm \<Rightarrow> 'f" where "STONE_SHININESS ops = lit ops ''64.0f''"

definition WOOD_AMBIENT_COLOR :: "('f, 'm) glm \<Rightarrow> 'f vec3" where
  "WOOD_AMBIENT_COLOR ops = vec3_lit ops ''1.0f'' ''0.9f'' ''0.7f''"
definition WOOD_DIFFUSE_COLOR :: "('f, 'm) glm \<Rightarrow> 'f vec3" where
  "WOOD_DIFFUSE_COLOR ops = vec3_lit ops ''1.0f'' ''0.9f'' ''0.6f''"
definition WOOD_SPECULAR_COLOR :: "('f, 'm) glm \<Rightarrow> 'f vec3" where
  "WOOD_SPECULAR_COLOR ops = vec3_lit ops ''0.5f'' ''0.5f'' ''0.5f''"
definition CERAMIC_AMBIENT_COLOR :: "('f, 'm) glm \<Rightarrow> 'f vec3" where
  "CERAMIC_AMBIENT_COLOR ops = vec3_lit ops ''0.9f'' ''0.9f'' ''1.0f''"
definition CERAMIC_DIFFUSE_COLOR :: "('f, 'm) glm \<Rightarrow> 'f vec3" where
  "CERAMIC_DIFFUSE_COLOR ops = vec3_lit ops ''0.8f'' ''0.8f'' ''0.9f''"
definition CERAMIC_SPECULAR_COLOR :: "('f, 'm) glm \<Rightarrow> 'f vec3" where
  "CERAMIC_SPECULAR_COLOR ops = vec3_lit ops ''1.0f'' ''1.0f'' ''1.0f''"
definition METAL_AMBIENT_COLOR :: "('f, 'm) glm \<Rightarrow> 'f vec3" where
  "METAL_AMBIENT_COLOR ops = vec3_lit ops ''0.3f'' ''0.3f'' ''0.3f''"
definition METAL_DIFFUSE_COLOR :: "('f, 'm) glm \<Rightarrow> 'f vec3" where
  "METAL_DIFFUSE_COLOR ops = vec3_lit ops ''0.4f'' ''0.4f'' ''0.4f''"
definition METAL_SPECULAR_COLOR :: "('f, 'm) glm \<Rightarrow> 'f vec3" where
  "METAL_SPECULAR_COLOR ops = vec3_lit ops ''0.7f'' ''0.7f'' ''0.7f''"
definition STONE_AMBIENT_COLOR :: "('f, 'm) glm \<Rightarrow> 'f vec3" where
  "STONE_AMBIENT_COLOR ops = vec3_lit ops ''0.3f'' ''0.3f'' ''0.3f''"
definition STONE_DIFFUSE_COLOR :: "('f, 'm) glm \<Rightarrow> 'f vec3" where
  "STONE_DIFFUSE_COLOR ops = vec3_lit ops ''0.6f'' ''0.6f'' ''0.6f''"
definition STONE_SPECULAR_COLOR :: "('f, 'm) glm \<Rightarrow> 'f vec3" where
  "STONE_SPECULAR_COLOR ops = vec3_lit ops ''0.3f'' ''0.3f'' ''0.3f''"
definition DEFAULT_COLOR :: "('f, 'm) glm \<Rightarrow> 'f vec3" where
  "DEFAULT_COLOR ops = vec3_lit ops ''1.0f'' ''1.0f'' ''1.0f''"

definition DRAMATIC_LIGHT_INTENSITY :: "('f, 'm) glm \<Rightarrow> 'f" where
  "DRAMATIC_LIGHT_INTENSITY ops = lit ops ''25.0f''"
definition TIGHT_SPOTLIGHT_INNER :: "('f, 'm) glm \<Rightarrow> 'f" where
  "TIGHT_SPOTLIGHT_INNER ops = lit ops ''15.0f''"
definition TIGHT_SPOTLIGHT_OUTER :: "('f, 'm) glm \<Rightarrow> 'f" where
  "TIGHT_SPOTLIGHT_OUTER ops = lit ops ''25.0f''"

definition DEFAULT_UV_SCALE :: "('f, 'm) glm \<Rightarrow> 'f vec2" where
  "DEFAULT_UV_SCALE ops = Vec2 (lit ops ''1.0f'') (lit ops ''1.0f'')"
definition LAPTOP_UV_SCALE :: "('f, 'm) glm \<Rightarrow> 'f vec2" where
  "LAPTOP_UV_SCALE ops = Vec2 (lit ops ''2.0f'') (lit ops ''2.0f'')"
definition WALL_UV_SCALE :: "('f, 'm) glm \<Rightarrow> 'f vec2" where
  "WALL_UV_SCALE ops = Vec2 (lit ops ''2.0f'') (lit ops ''2.0f'')"
definition FLOOR_UV_SCALE :: "('f, 'm) glm \<Rightarrow> 'f vec2" where
  "FLOOR_UV_SCALE ops = Vec2 (lit ops ''4.0f'') (lit ops ''4.0f'')"

definition FLOOR_Y :: "('f, 'm) glm \<Rightarrow> 'f" where "FLOOR_Y ops = lit ops ''-5.0f''"
definition FLOOR_HEIGHT :: "('f, 'm) glm \<Rightarrow> 'f" where "FLOOR_HEIGHT ops = lit ops ''0.13f''"

section \<open>Materials, draw helpers and the two render passes\<close>

definition SetShaderMaterial :: "('f, 'm) glm \<Rightarrow> string \<Rightarrow> ('f, 'm) state \<Rightarrow> error + ('f, 'm) state" where
  "SetShaderMaterial ops materialTag =
     (if materialTag = DESK_TEXTURE then
        material_uniforms (WOOD_AMBIENT_COLOR ops) (DRAMATIC_AMBIENT_STRENGTH ops)
          (WOOD_DIFFUSE_COLOR ops) (WOOD_SPECULAR_COLOR ops) (WOOD_SHININESS ops)
      else if materialTag = MUG_TEXTURE then
        material_uniforms (CERAMIC_AMBIENT_COLOR ops) (DRAMATIC_AMBIENT_STRENGTH ops)
          (CERAMIC_DIFFUSE_COLOR ops) (CERAMIC_SPECULAR_COLOR ops) (CERAMIC_SHININESS ops)
      else if materialTag = LAPTOP_TEXTURE then
        material_uniforms (METAL_AMBIENT_COLOR ops) (METAL_AMBIENT_STRENGTH ops)
          (METAL_DIFFUSE_COLOR ops) (METAL_SPECULAR_COLOR ops) (METAL_SHININESS ops)
      else if materialTag = FLOOR_TEXTURE then
        material_uniforms (STONE_AMBIENT_COLOR ops) (METAL_AMBIENT_STRENGTH ops)
          (STONE_DIFFUSE_COLOR ops) (STONE_SPECULAR_COLOR ops) (STONE_SHININESS ops)
      else if materialTag = WALL_TEXTURE then
        material_uniforms (STONE_AMBIENT_COLOR ops) (METAL_AMBIENT_STRENGTH ops)
          (STONE_DIFFUSE_COLOR ops) (STONE_SPECULAR_COLOR ops) (STONE_SHININESS ops)
      else if materialTag = LAMP_SHADE_TEXTURE then
        material_uniforms (vec3_lit ops ''1.0f'' ''0.8f'' ''0.4f'') (lit ops ''0.3f'')
          (vec3_lit ops ''0.9f'' ''0.7f'' ''0.3f'') (vec3_lit ops ''1.0f'' ''0.9f'' ''0.6f'')
          (METAL_SHININESS ops)
      else if materialTag = LAMP_BASE_TEXTURE then
        material_uniforms (METAL_AMBIENT_COLOR ops) (METAL_AMBIENT_STRENGTH ops)
          (METAL_DIFFUSE_COLOR ops) (METAL_SPECULAR_COLOR ops) (METAL_SHININESS ops)
      else
        material_uniforms (DEFAULT_COLOR ops) (STANDARD_AMBIENT_STRENGTH ops)
          (DEFAULT_COLOR ops) (DEFAULT_COLOR ops) (WOOD_SHININESS ops))"

text \<open>\<^verbatim>\<open>m_basicMeshes->Draw...Mesh()\<close>; the mesh object is allocated by the constructor.\<close>

definition DrawBoxMesh :: "('f, 'm) state \<Rightarrow> error + ('f, 'm) state" where
  "DrawBoxMesh = on_gl (DrawMesh_gl BoxMesh)"
definition DrawCylinderMesh :: "('f, 'm) state \<Rightarrow> error + ('f, 'm) state" where
  "DrawCylinderMesh = on_gl (DrawMesh_gl CylinderMesh)"
definition DrawTorusMesh :: "('f, 'm) state \<Rightarrow> error + ('f, 'm) state" where
  "DrawTorusMesh = on_gl (DrawMesh_gl TorusMesh)"
definition DrawConeMesh :: "('f, 'm) state \<Rightarrow> error + ('f, 'm) state" where
  "DrawConeMesh = on_gl (DrawMesh_gl ConeMesh)"

text \<open>\<^verbatim>\<open>for (int i = 0; i < n; ++i) body\<close>.\<close>

definition for_range :: "int \<Rightarrow> (int \<Rightarrow> 's \<Rightarrow> error + 's) \<Rightarrow> 's \<Rightarrow> error + 's" where
  "for_range n body = steps (map (\<lambda>i. body (int i)) [0 ..< nat n])"

text \<open>The position of the key in row \<open>r\<close>, column \<open>c\<close>; both passes compute \<^verbatim>\<open>x\<close>, \<^verbatim>\<open>y\<close>,
  \<^verbatim>\<open>z\<close> with the same three statements.\<close>

definition key_position :: "('f, 'm) glm \<Rightarrow> int \<Rightarrow> int \<Rightarrow> 'f vec3" where
  "key_position ops r c =
     (let x = fadd ops (KEY_START_X ops) (fmul ops (of_int_f ops c) (fadd ops (KEY_WIDTH ops) (KEY_SPACING ops)));
          y = KEY_Y ops;
          z = fadd ops (KEY_START_Z ops) (fmul ops (of_int_f ops r) (fadd ops (KEY_DEPTH ops) (KEY_SPACING ops)))
      in Vec3 x y z)"

definition RenderDepthPass :: "('f, 'm) glm \<Rightarrow> 'm \<Rightarrow> ('f, 'm) state \<Rightarrow> error + ('f, 'm) state" where
  "RenderDepthPass ops lightSpaceMatrix =
     steps
       [on_gl (gl_log (Viewport 0 0 1024 1024)),
        (\<lambda>st. on_gl (glBindFramebuffer (m_shadowMapFBO st)) st),
        on_gl (gl_log (Clear ''GL_DEPTH_BUFFER_BIT'')),
        on_gl (gl_log (Enable ''GL_CULL_FACE'')),
        on_gl (gl_log (CullFace ''GL_FRONT'')),
        deref_depth use,
        deref_depth (\<lambda>sh. setUniform sh ''lightSpaceMatrix'' (Mat4Value lightSpaceMatrix)),
        SetModelMatrix ops (DESK_SCALE ops)
          (vx (DESK_ROTATION ops)) (vy (DESK_ROTATION ops)) (vz (DESK_ROTATION ops))
          (DESK_POSITION ops),
        DrawBoxMesh,
        SetModelMatrix ops (MUG_BODY_SCALE ops)
          (vx (MUG_BODY_ROTATION ops)) (vy (MUG_BODY_ROTATION ops)) (vz (MUG_BODY_ROTATION ops))
          (MUG_BODY_POSITION ops),
        DrawCylinderMesh,
        SetModelMatrix ops (MUG_HANDLE_SCALE ops)
          (vx (MUG_HANDLE_ROTATION ops)) (vy (MUG_HANDLE_ROTATION ops)) (vz (MUG_HANDLE_ROTATION ops))
          (MUG_HANDLE_POSITION ops),
        DrawTorusMesh,
        SetModelMatrix ops (LAMP_BASE_SCALE ops)
          (vx (LAMP_BASE_ROTATION ops)) (vy (LAMP_BASE_ROTATION ops)) (vz (LAMP_BASE_ROTATION ops))
          (LAMP_BASE_POSITION ops),
        DrawCylinderMesh,
        SetModelMatrix ops (LAMP_STEM_SCALE ops)
          (vx (LAMP_STEM_ROTATION ops)) (vy (LAMP_STEM_ROTATION ops)) (vz (LAMP_STEM_ROTATION ops))
          (LAMP_STEM_POSITION ops),
        DrawCylinderMesh,
        SetModelMatrix ops (LAMP_SHADE_SCALE ops)
          (vx (LAMP_SHADE_ROTATION ops)) (vy (LAMP_SHADE_ROTATION ops)) (vz (LAMP_SHADE_ROTATION ops))
          (LAMP_SHADE_POSITION ops),
        DrawConeMesh,
        SetModelMatrix ops (LAPTOP_BASE_SCALE ops)
          (vx (LAPTOP_BASE_ROTATION ops)) (vy (LAPTOP_BASE_ROTATION ops)) (vz (LAPTOP_BASE_ROTATION ops))
          (LAPTOP_BASE_POSITION ops),
        DrawBoxMesh,
        SetModelMatrix ops (LAPTOP_SCREEN_SCALE ops)
          (vx (LAPTOP_SCREEN_ROTATION ops)) (vy (LAPTOP_SCREEN_ROTATION ops)) (vz (LAPTOP_SCREEN_ROTATION ops))
          (LAPTOP_SCREEN_POSITION ops),
        DrawBoxMesh,
        SetModelMatrix ops (DISPLAY_PANEL_SCALE ops)
          (vx (DISPLAY_PANEL_ROTATION ops)) (vy (DISPLAY_PANEL_ROTATION ops)) (vz (DISPLAY_PANEL_ROTATION ops))
          (DISPLAY_PANEL_POSITION ops),
        DrawBoxMesh,
        for_range KEY_ROWS (\<lambda>r.
          for_range KEY_COLS (\<lambda>c.
            steps
              [SetModelMatrix ops (Vec3 (KEY_WIDTH ops) (KEY_HEIGHT ops) (KEY_DEPTH ops))
                 (lit ops ''0.0f'') (lit ops ''0.0f'') (lit ops ''0.0f'') (key_position ops r c),
               DrawBoxMesh])),
        SetModelMatrix ops (FLOOR_SCALE ops)
          (vx (FLOOR_ROTATION ops)) (vy (FLOOR_ROTATION ops)) (vz (FLOOR_ROTATION ops))
          (FLOOR_POSITION ops),
        DrawBoxMesh,
        (let wallY = fadd ops (fadd ops (FLOOR_Y ops) (fdiv ops (FLOOR_HEIGHT ops) (lit ops ''2.0f'')))
                       (fdiv ops (vy (WALL_SCALE ops)) (lit ops ''2.0f''));
             wallPosition = Vec3 (vx (WALL_POSITION_OFFSET ops)) wallY (vz (WALL_POSITION_OFFSET ops))
         in SetModelMatrix ops (WALL_SCALE ops)
              (vx (WALL_ROTATION ops)) (vy (WALL_ROTATION ops)) (vz (WALL_ROTATION ops))
              wallPosition),
        DrawBoxMesh,
        on_gl (gl_log (CullFace ''GL_BACK'')),
        on_gl (gl_log (Disable ''GL_CULL_FACE'')),
        on_gl (glBindFramebuffer 0)]"

definition DrawDeskSurface :: "('f, 'm) glm \<Rightarrow> ('f, 'm) state \<Rightarrow> error + ('f, 'm) state" where
  "DrawDeskSurface ops =
     steps
       [SetShaderTexture DESK_TEXTURE,
        SetTextureUVScale (vu (DEFAULT_UV_SCALE ops)) (vv (DEFAULT_UV_SCALE ops)),
        SetShaderMaterial ops DESK_TEXTURE,
        deref_main (\<lambda>sh. setUniform sh ''bUseLighting'' (IntValue 1)),
        SetTransformations ops (DESK_SCALE ops)
          (vx (DESK_ROTATION ops)) (vy (DESK_ROTATION ops)) (vz (DESK_ROTATION ops))
          (DESK_POSITION ops),
        DrawBoxMesh]"

definition DrawCoffeeMug :: "('f, 'm) glm \<Rightarrow> ('f, 'm) state \<Rightarrow> error + ('f, 'm) state" where
  "DrawCoffeeMug ops =
     steps
       [SetShaderTexture MUG_TEXTURE,
        SetTextureUVScale (vu (DEFAULT_UV_SCALE ops)) (vv (DEFAULT_UV_SCALE ops)),
        SetShaderMaterial ops MUG_TEXTURE,
        deref_main (\<lambda>sh. setUniform sh ''bUseLighting'' (IntValue 1)),
        SetTransformations ops (MUG_BODY_SCALE ops)
          (vx (MUG_BODY_ROTATION ops)) (vy (MUG_BODY_ROTATION ops)) (vz (MUG_BODY_ROTATION ops))
          (MUG_BODY_POSITION ops),
        DrawCylinderMesh,
        SetShaderTexture HANDLE_TEXTURE,
        SetTextureUVScale (vu (DEFAULT_UV_SCALE ops)) (vv (DEFAULT_UV_SCALE ops)),
        SetShaderMaterial ops MUG_TEXTURE,
        SetTransformations ops (MUG_HANDLE_SCALE ops)
          (vx (MUG_HANDLE_ROTATION ops)) (vy (MUG_HANDLE_ROTATION ops)) (vz (MUG_HANDLE_ROTATION ops))
          (MUG_HANDLE_POSITION ops),
        DrawTorusMesh]"

definition DrawLaptop :: "('f, 'm) glm \<Rightarrow> ('f, 'm) state \<Rightarrow> error + ('f, 'm) state" where
  "DrawLaptop ops =
     steps
       [SetShaderColor (vx (METAL_AMBIENT_COLOR ops)) (vy (METAL_AMBIENT_COLOR ops))
          (vz (METAL_AMBIENT_COLOR ops)) (lit ops ''1.0f''),
        SetShaderTexture LAPTOP_TEXTURE,
        SetTextureUVScale (vu (LAPTOP_UV_SCALE ops)) (vv (LAPTOP_UV_SCALE ops)),
        SetShaderMaterial ops LAPTOP_TEXTURE,
        deref_main (\<lambda>sh. setUniform sh ''bUseLighting'' (IntValue 1)),
        SetTransformations ops (LAPTOP_BASE_SCALE ops)
          (vx (LAPTOP_BASE_ROTATION ops)) (vy (LAPTOP_BASE_ROTATION ops)) (vz (LAPTOP_BASE_ROTATION ops))
          (LAPTOP_BASE_POSITION ops),
        DrawBoxMesh,
        SetShaderTexture LAPTOP_TEXTURE,
        SetShaderMaterial ops LAPTOP_TEXTURE,
        SetTransformations ops (LAPTOP_SCREEN_SCALE ops)
          (vx (LAPTOP_SCREEN_ROTATION ops)) (vy (LAPTOP_SCREEN_ROTATION ops)) (vz (LAPTOP_SCREEN_ROTATION ops))
          (LAPTOP_SCREEN_POSITION ops),
        DrawBoxMesh,
        SetShaderTexture SCREEN_TEXTURE,
        SetTextureUVScale (vu (DEFAULT_UV_SCALE ops)) (vv (DEFAULT_UV_SCALE ops)),
        SetShaderMaterial ops LAPTOP_TEXTURE,
        SetTransformations ops (DISPLAY_PANEL_SCALE ops)
          (vx (DISPLAY_PANEL_ROTATION ops)) (vy (DISPLAY_PANEL_ROTATION ops)) (vz (DISPLAY_PANEL_ROTATION ops))
          (DISPLAY_PANEL_POSITION ops),
        DrawBoxMesh,
        for_range KEY_ROWS (\<lambda>r.
          for_range KEY_COLS (\<lambda>c.
            steps
              [SetTransformations ops (Vec3 (KEY_WIDTH ops) (KEY_HEIGHT ops) (KEY_DEPTH ops))
                 (lit ops ''0.0f'') (lit ops ''0.0f'') (lit ops ''0.0f'') (key_position ops r c),
               SetShaderColor (vx (KEY_COLOR ops)) (vy (KEY_COLOR ops)) (vz (KEY_COLOR ops))
                 (lit ops ''1.0f''),
               deref_main (\<lambda>sh. setUniform sh ''bUseLighting'' (IntValue 1)),
               DrawBoxMesh]))]"

definition DrawFloor :: "('f, 'm) glm \<Rightarrow> ('f, 'm) state \<Rightarrow> error + ('f, 'm) state" where
  "DrawFloor ops =
     steps
       [SetShaderTexture FLOOR_TEXTURE,
        SetTextureUVScale (vu (FLOOR_UV_SCALE ops)) (vv (FLOOR_UV_SCALE ops)),
        deref_main (\<lambda>sh. setUniform sh ''bUseLighting'' (IntValue 1)),
        SetTransformations ops (FLOOR_SCALE ops)
          (vx (FLOOR_ROTATION ops)) (vy (FLOOR_ROTATION ops)) (vz (FLOOR_ROTATION ops))
          (FLOOR_POSITION ops),
        SetShaderMaterial ops FLOOR_TEXTURE,
        DrawBoxMesh]"

definition DrawBackground :: "('f, 'm) glm \<Rightarrow> ('f, 'm) state \<Rightarrow> error + ('f, 'm) state" where
  "DrawBackground ops =
     steps
       [SetShaderTexture WALL_TEXTURE,
        SetTextureUVScale (vu (WALL_UV_SCALE ops)) (vv (WALL_UV_SCALE ops)),
        SetShaderMaterial ops WALL_TEXTURE,
        deref_main (\<lambda>sh. setUniform sh ''bUseLighting'' (IntValue 1)),
        (let wallWidth = lit ops ''62.4f'';
             wallHeight = lit ops ''26.0f'';
             wallThickness = lit ops ''0.65f'';
             wallDepth = lit ops ''-21.25f'';
             floorY = FLOOR_Y ops;
             floorHeight = FLOOR_HEIGHT ops;
             wallY = fadd ops (fadd ops floorY (fdiv ops floorHeight (lit ops ''2.0f'')))
                       (fdiv ops wallHeight (lit ops ''2.0f''))
         in SetTransformations ops (Vec3 wallWidth wallHeight wallThickness)
              (vx (WALL_ROTATION ops)) (vy (WALL_ROTATION ops)) (vz (WALL_ROTATION ops))
              (Vec3 (lit ops ''0.0f'') wallY wallDepth)),
        DrawBoxMesh]"

definition DrawDeskLamp :: "('f, 'm) glm \<Rightarrow> ('f, 'm) state \<Rightarrow> error + ('f, 'm) state" where
  "DrawDeskLamp ops =
     steps
       [SetShaderTexture LAMP_BASE_TEXTURE,
        SetTextureUVScale (vu (DEFAULT_UV_SCALE ops)) (vv (DEFAULT_UV_SCALE ops)),
        SetShaderMaterial ops LAMP_BASE_TEXTURE,
        deref_main (\<lambda>sh. setUniform sh ''bUseLighting'' (IntValue 1)),
        SetTransformations ops (LAMP_BASE_SCALE ops)
          (vx (LAMP_BASE_ROTATION ops)) (vy (LAMP_BASE_ROTATION ops)) (vz (LAMP_BASE_ROTATION ops))
          (LAMP_BASE_POSITION ops),
        DrawCylinderMesh,
        SetTransformations ops (LAMP_STEM_SCALE ops)
          (vx (LAMP_STEM_ROTATION ops)) (vy (LAMP_STEM_ROTATION ops)) (vz (LAMP_STEM_ROTATION ops))
          (LAMP_STEM_POSITION ops),
        DrawCylinderMesh,
        SetShaderTexture LAMP_SHADE_TEXTURE,
        SetTextureUVScale (vu (DEFAULT_UV_SCALE ops)) (vv (DEFAULT_UV_SCALE ops)),
        SetShaderMaterial ops LAMP_SHADE_TEXTURE,
        SetTransformations ops (LAMP_SHADE_SCALE ops)
          (vx (LAMP_SHADE_ROTATION ops)) (vy (LAMP_SHADE_ROTATION ops)) (vz (LAMP_SHADE_ROTATION ops))
          (LAMP_SHADE_POSITION ops),
        DrawConeMesh]"

text \<open>\<^verbatim>\<open>glm::vec3(s)\<close>: the scalar in all three components.\<close>

definition vec3_splat :: "'f \<Rightarrow> 'f vec3" where
  "vec3_splat s = Vec3 s s s"

definition RenderScene :: "('f, 'm) glm \<Rightarrow> 'm \<Rightarrow> ('f, 'm) state \<Rightarrow> error + ('f, 'm) state" where
  "RenderScene ops lightSpaceMatrix =
     steps
       [deref_main use,
        deref_main (\<lambda>sh. setUniform sh ''numActiveLights'' (IntValue 2)),
        deref_main (\<lambda>sh. setUniform sh ''lightSources[0].position''
          (Vec3Value (DRAMATIC_LIGHT_POSITION ops))),
        deref_main (\<lambda>sh. setUniform sh ''lightSources[0].diffuseColor''
          (Vec3Value (vec3_splat (DRAMATIC_LIGHT_INTENSITY ops)))),
        deref_main (\<lambda>sh. setUniform sh ''lightSources[0].spotDirection''
          (Vec3Value (DRAMATIC_LIGHT_DIRECTION ops))),
        deref_main (\<lambda>sh. setUniform sh ''lightSources[0].cutoff''
          (FloatValue (glm_cos ops (glm_radians ops (TIGHT_SPOTLIGHT_INNER ops))))),
        deref_main (\<lambda>sh. setUniform sh ''lightSources[0].outerCutoff''
          (FloatValue (glm_cos ops (glm_radians ops (TIGHT_SPOTLIGHT_OUTER ops))))),
        deref_main (\<lambda>sh. setUniform sh ''lightSources[1].position''
          (Vec3Value (ACCENT_LIGHT_POSITION ops))),
        deref_main (\<lambda>sh. setUniform sh ''lightSources[1].ambientColor''
          (Vec3Value (ACCENT_LIGHT_AMBIENT ops))),
        deref_main (\<lambda>sh. setUniform sh ''lightSources[1].diffuseColor''
          (Vec3Value (ACCENT_LIGHT_DIFFUSE ops))),
        deref_main (\<lambda>sh. setUniform sh ''lightSources[1].specularColor''
          (Vec3Value (ACCENT_LIGHT_SPECULAR ops))),
        deref_main (\<lambda>sh. setUniform sh ''lightSpaceMatrix'' (Mat4Value lightSpaceMatrix)),
        on_gl (glActiveTexture 15),
        (\<lambda>st. on_gl (glBindTexture (m_shadowMap st)) st),
        deref_main (\<lambda>sh. setUniform sh ''shadowMap'' (Sampler2DValue 15)),
        DrawDeskSurface ops,
        DrawCoffeeMug ops,
        DrawLaptop ops,
        DrawDeskLamp ops,
        DrawFloor ops,
        DrawBackground ops]"

text \<open>
  Modelled from the spec: the render loop that calls the two passes is not among the
  sources. The spec's per-frame sequence is the depth pass, then the lit pass, with the
  same light-space matrix.
\<close>

definition RenderFrame :: "('f, 'm) glm \<Rightarrow> 'm \<Rightarrow> ('f, 'm) state \<Rightarrow> error + ('f, 'm) state" where
  "RenderFrame ops lightSpaceMatrix =
     steps [RenderDepthPass ops lightSpaceMatrix, RenderScene ops lightSpaceMatrix]"

text \<open>The objects a pass has rasterised, given the context before and after it: the
  mesh and the \<^verbatim>\<open>model\<close> matrix of each draw the pass added.\<close>

definition pass_objects ::
  "('f, 'm) state \<Rightarrow> ('f, 'm) state \<Rightarrow> (mesh_kind \<times> ('f, 'm) uval option) list" where
  "pass_objects before after =
     map (\<lambda>d. (mesh d, model d)) (drop (length (draws (gl before))) (draws (gl after)))"

section \<open>Shadow map set-up in scene preparation\<close>

text \<open>
  The last block of \<^verbatim>\<open>PrepareScene\<close> before the projection matrix ("Initialize shadow
  mapping framebuffer and depth texture" to "Verify framebuffer completeness"), statement
  by statement. The blocks before it load shaders, meshes, textures, materials and
  lights; none of them binds a framebuffer.
\<close>

definition PrepareScene_shadow_map :: "('f, 'm) state \<Rightarrow> ('f, 'm) state" where
  "PrepareScene_shadow_map st =
     (let (fbo, g1) = gl_gen GenFramebuffers (gl st);
          (tex, g2) = gl_gen GenTextures g1;
          g3 = glBindTexture tex g2;
          g4 = gl_log (TexImage2D ''GL_DEPTH_COMPONENT'' 1024 1024) g3;
          g5 = gl_log (TexParameter ''GL_TEXTURE_MIN_FILTER'' ''GL_NEAREST'') g4;
          g6 = gl_log (TexParameter ''GL_TEXTURE_MAG_FILTER'' ''GL_NEAREST'') g5;
          g7 = gl_log (TexParameter ''GL_TEXTURE_WRAP_S'' ''GL_CLAMP_TO_BORDER'') g6;
          g8 = gl_log (TexParameter ''GL_TEXTURE_WRAP_T'' ''GL_CLAMP_TO_BORDER'') g7;
          g9 = gl_log (TexParameter ''GL_TEXTURE_BORDER_COLOR'' ''1.0f, 1.0f, 1.0f, 1.0f'') g8;
          g10 = glBindFramebuffer fbo g9;
          g11 = gl_log (FramebufferTexture2D tex) g10;
          g12 = gl_log (DrawBuffer ''GL_NONE'') g11;
          g13 = gl_log (ReadBuffer ''GL_NONE'') g12;
          g14 = glBindFramebuffer 0 g13;
          (isComplete, g15) = glCheckFramebufferStatus g14
      in st\<lparr>m_shadowMapFBO := fbo, m_shadowMap := tex, gl := g15,
            cerr := (if \<not> isComplete
                     then cerr st @ [''ERROR: Shadow map framebuffer is not complete!'']
                     else cerr st)\<rparr>)"

section \<open>Shader loading\<close>

text \<open>
  \<^verbatim>\<open>ShaderManager::LoadShaders\<close>. The file system is the parameter \<open>files\<close>: the text of a
  file that can be opened, \<open>None\<close> for one that cannot. The result is the returned
  \<^verbatim>\<open>GLuint\<close>, the shader manager (its \<^verbatim>\<open>m_programID\<close>), the context and \<^verbatim>\<open>std::cerr\<close>.
  The early return waits for a key (\<^verbatim>\<open>getchar\<close>) first; messages on \<^verbatim>\<open>stdout\<close> and the
  driver's info logs are left out.
\<close>

definition LoadShaders ::
  "(string \<Rightarrow> string option) \<Rightarrow> string \<Rightarrow> string \<Rightarrow> ShaderManager \<Rightarrow> ('f, 'm) gl_state \<Rightarrow> string list
     \<Rightarrow> GLuint \<times> ShaderManager \<times> ('f, 'm) gl_state \<times> string list" where
  "LoadShaders files vertex_file_path fragment_file_path this g err =
     (let (VertexShaderID, g1) = gl_gen (CreateShader ''GL_VERTEX_SHADER'') g;
          (FragmentShaderID, g2) = gl_gen (CreateShader ''GL_FRAGMENT_SHADER'') g1;
          err1 = err @ [(if files vertex_file_path = None
                         then ''DEBUG: Shader file NOT found at runtime: ''
                         else ''DEBUG: Shader file FOUND at runtime: '') @ vertex_file_path]
      in case files vertex_file_path of
           None \<Rightarrow> (0, this, g2, err1)
         | Some VertexShaderCode \<Rightarrow>
             (let FragmentShaderCode =
                    (case files fragment_file_path of Some code \<Rightarrow> code | None \<Rightarrow> '''');
                  g3 = gl_log (CompileShader VertexShaderID)
                         (gl_log (ShaderSource VertexShaderID VertexShaderCode) g2);
                  err2 = (if \<not> compiles g3 VertexShaderCode
                          then err1 @ [''ERROR::SHADER_COMPILATION_ERROR of type: VERTEX'']
                          else err1);
                  g4 = gl_log (CompileShader FragmentShaderID)
                         (gl_log (ShaderSource FragmentShaderID FragmentShaderCode) g3);
                  (ProgramID, g5) = gl_gen CreateProgram g4;
                  this1 = this\<lparr>m_programID := ProgramID\<rparr>;
                  g6 = gl_log (AttachShader ProgramID VertexShaderID) g5;
                  g7 = gl_log (AttachShader ProgramID FragmentShaderID) g6;
                  g8 = gl_log (LinkProgram ProgramID) g7;
                  g9 = glUseProgram ProgramID g8;
                  g10 = setUniform this1 ''bUseTexture'' (IntValue 1) g9;
                  g11 = setUniform this1 ''bUseLighting'' (IntValue 0) g10;
                  g12 = gl_log (DetachShader ProgramID VertexShaderID) g11;
                  g13 = gl_log (DetachShader ProgramID FragmentShaderID) g12;
                  g14 = gl_log (DeleteShader VertexShaderID) g13;
                  g15 = gl_log (DeleteShader FragmentShaderID) g14
              in (ProgramID, this1, g15, err2)))"

section \<open>Fragment shader\<close>

text \<open>
  \<^verbatim>\<open>fragmentShader.glsl\<close>. The GLSL built-ins and float operators are the fields of an
  operations record; \<open>g_texture\<close> samples the texture of a sampler (a texture unit) at a
  coordinate. An array \<^verbatim>\<open>lightSources[8]\<close> is a function of the index.
\<close>

record 'f glsl =
  g_lit :: "string \<Rightarrow> 'f"
  g_sub :: "'f \<Rightarrow> 'f \<Rightarrow> 'f"
  g_mul :: "'f \<Rightarrow> 'f \<Rightarrow> 'f"
  g_max :: "'f \<Rightarrow> 'f \<Rightarrow> 'f"
  g_normalize :: "'f vec3 \<Rightarrow> 'f vec3"
  g_dot :: "'f vec3 \<Rightarrow> 'f vec3 \<Rightarrow> 'f"
  g_texture :: "int \<Rightarrow> 'f vec2 \<Rightarrow> 'f vec4"

record 'f Material =
  u_ambientColor :: "'f vec3"
  u_ambientStrength :: 'f
  u_diffuseColor :: "'f vec3"
  u_specularColor :: "'f vec3"
  u_shininess :: 'f

record 'f PointLight =
  position :: "'f vec3"
  l_ambientColor :: "'f vec3"
  l_diffuseColor :: "'f vec3"
  l_specularColor :: "'f vec3"
  focalStrength :: 'f
  specularIntensity :: 'f
  spotDirection :: "'f vec3"
  cutoff :: 'f
  outerCutoff :: 'f

record 'f frag_uniforms =
  bUseTexture :: bool
  bUseLighting :: bool
  objectColor :: "'f vec4"
  objectTexture :: int
  viewPosition :: "'f vec3"
  UVscale :: "'f vec2"
  lightSources :: "nat \<Rightarrow> 'f PointLight"
  material :: "'f Material"
  numActiveLights :: int

record 'f frag_in =
  fragmentPosition :: "'f vec3"
  fragmentVertexNormal :: "'f vec3"
  fragmentTextureCoordinate :: "'f vec2"

definition sub3 :: "'f glsl \<Rightarrow> 'f vec3 \<Rightarrow> 'f vec3 \<Rightarrow> 'f vec3" where
  "sub3 G a b = Vec3 (g_sub G (vx a) (vx b)) (g_sub G (vy a) (vy b)) (g_sub G (vz a) (vz b))"

definition mul3 :: "'f glsl \<Rightarrow> 'f vec3 \<Rightarrow> 'f vec3 \<Rightarrow> 'f vec3" where
  "mul3 G a b = Vec3 (g_mul G (vx a) (vx b)) (g_mul G (vy a) (vy b)) (g_mul G (vz a) (vz b))"

definition mul2 :: "'f glsl \<Rightarrow> 'f vec2 \<Rightarrow> 'f vec2 \<Rightarrow> 'f vec2" where
  "mul2 G a b = Vec2 (g_mul G (vu a) (vu b)) (g_mul G (vv a) (vv b))"

definition rgb :: "'f vec4 \<Rightarrow> 'f vec3" where
  "rgb c = Vec3 (cr c) (cg c) (cb c)"

definition vec4_of :: "'f vec3 \<Rightarrow> 'f \<Rightarrow> 'f vec4" where
  "vec4_of v a = Vec4 (vx v) (vy v) (vz v) a"

text \<open>\<^verbatim>\<open>main\<close>: the value written to \<^verbatim>\<open>outFragmentColor\<close>.\<close>

definition frag_main :: "'f glsl \<Rightarrow> 'f frag_uniforms \<Rightarrow> 'f frag_in \<Rightarrow> 'f vec4" where
  "frag_main G u i =
     (if bUseLighting u \<and> numActiveLights u > 0 then
        (let normal = g_normalize G (fragmentVertexNormal i);
             light = lightSources u 0;
             lightDir = g_normalize G (sub3 G (position light) (fragmentPosition i));
             intensity = g_max G (g_dot G normal lightDir) (g_lit G ''0.0'');
             result = Vec3 intensity (g_mul G intensity (g_lit G ''0.9''))
                        (g_mul G intensity (g_lit G ''0.1''))
         in if bUseTexture u then
              (let texColor = g_texture G (objectTexture u)
                                (mul2 G (fragmentTextureCoordinate i) (UVscale u))
               in vec4_of (mul3 G result (rgb texColor)) (ca texColor))
            else vec4_of (mul3 G result (rgb (objectColor u))) (ca (objectColor u)))
      else
        (if bUseTexture u then
           g_texture G (objectTexture u) (mul2 G (fragmentTextureCoordinate i) (UVscale u))
         else objectColor u))"

section \<open>Concrete inputs\<close>

text \<open>
  The free interpretation of the float and matrix operations: every operation builds
  the expression it stands for. Two results that agree here agree under every other
  interpretation.
\<close>

datatype fexp = FLit string | FOfInt int | FAdd fexp fexp | FMul fexp fexp | FDiv fexp fexp
  | FRadians fexp | FCos fexp

datatype mexp = MScale "fexp vec3" | MRotate fexp "fexp vec3" | MTranslate "fexp vec3"
  | MMul mexp mexp | MLightSpace

definition symbolic :: "(fexp, mexp) glm" where
  "symbolic = \<lparr>lit = FLit, of_int_f = FOfInt, fadd = FAdd, fmul = FMul, fdiv = FDiv,
     glm_radians = FRadians, glm_cos = FCos, glm_scale = MScale, glm_rotate = MRotate,
     glm_translate = MTranslate, mmul = MMul\<rparr>"

text \<open>A context with nothing bound, whose driver hands out the names 1, 2, 3, ...\<close>

definition example_gl :: "('f, 'm) gl_state" where
  "example_gl = \<lparr>calls = [], draws = [], currentProgram = 0, uniforms = (\<lambda>p n. None),
     activeTexture = 0, boundTexture = (\<lambda>u. 0), boundFramebuffer = 0,
     names = (\<lambda>n. of_nat n + 1), issued = 0, framebufferComplete = (\<lambda>fb. True),
     compiles = (\<lambda>src. True)\<rparr>"

text \<open>A scene manager as its constructor leaves it, for a given shader manager pointer.\<close>

definition example_scene :: "ShaderManager option \<Rightarrow> ('f, 'm) state" where
  "example_scene pShaderManager =
     SceneManager_init pShaderManager
       \<lparr>m_pShaderManager = None, m_pDepthShaderManager = None, m_textureIDs = [],
        m_loadedTextures = 0, m_objectMaterials = [], m_shadowMapFBO = 0, m_shadowMap = 0,
        gl = example_gl, cerr = []\<rparr>"

text \<open>The same scene with main shader manager for program 1, that program in use.\<close>

definition example_scene_in_use :: "('f, 'm) state" where
  "example_scene_in_use =
     (example_scene (Some \<lparr>m_programID = 1\<rparr>))\<lparr>gl := use \<lparr>m_programID = 1\<rparr> example_gl\<rparr>"

text \<open>A decoder that finds every file, with the channel count written in the file name's
  first character (\<^verbatim>\<open>3\<close>, \<^verbatim>\<open>4\<close>, anything else is a one-channel image), except the file
  \<^verbatim>\<open>missing.jpg\<close>.\<close>

definition example_stbi_load :: "string \<Rightarrow> image option" where
  "example_stbi_load filename =
     (if filename = ''missing.jpg'' then None
      else Some \<lparr>width = 64, height = 64,
                 colorChannels = (if take 1 filename = ''3'' then 3
                                  else if take 1 filename = ''4'' then 4 else 1)\<rparr>)"

text \<open>Seventeen readable three-channel images under seventeen different tags.\<close>

definition seventeen_textures :: "(string \<times> string) list" where
  "seventeen_textures =
     [(''3desk.jpg'', ''t00''), (''3desk.jpg'', ''t01''), (''3desk.jpg'', ''t02''),
      (''3desk.jpg'', ''t03''), (''3desk.jpg'', ''t04''), (''3desk.jpg'', ''t05''),
      (''3desk.jpg'', ''t06''), (''3desk.jpg'', ''t07''), (''3desk.jpg'', ''t08''),
      (''3desk.jpg'', ''t09''), (''3desk.jpg'', ''t10''), (''3desk.jpg'', ''t11''),
      (''3desk.jpg'', ''t12''), (''3desk.jpg'', ''t13''), (''3desk.jpg'', ''t14''),
      (''3desk.jpg'', ''t15''), (''3desk.jpg'', ''t16'')]"

section \<open>Notions used to state the properties\<close>

text \<open>A file that \<^verbatim>\<open>CreateGLTexture\<close> can turn into a texture: readable, with three or
  four channels.\<close>

definition loadable :: "(string \<Rightarrow> image option) \<Rightarrow> string \<Rightarrow> bool" where
  "loadable stbi_load filename =
     (case stbi_load filename of None \<Rightarrow> False
      | Some img \<Rightarrow> colorChannels img = 3 \<or> colorChannels img = 4)"

text \<open>The successful entries of a load log, in call order.\<close>

definition loaded :: "(string \<times> bool \<times> GLuint) list \<Rightarrow> (string \<times> GLuint) list" where
  "loaded lg = map (\<lambda>(t, b, h). (t, h)) (filter (\<lambda>(t, b, h). b) lg)"

text \<open>
  What holds between the statements of a render pass: both shader managers are there,
  the registry's count is within its table, the program in use is \<open>cur\<close> and its \<^verbatim>\<open>model\<close>
  uniform is \<open>M\<close>.
\<close>

definition pass_inv ::
  "ShaderManager \<Rightarrow> ShaderManager \<Rightarrow> GLuint \<Rightarrow> ('f, 'm) uval option \<Rightarrow> ('f, 'm) state \<Rightarrow> bool" where
  "pass_inv sh dsh cur M st \<longleftrightarrow>
     m_pShaderManager st = Some sh \<and> m_pDepthShaderManager st = Some dsh \<and>
     m_loadedTextures st \<le> int (length (m_textureIDs st)) \<and>
     currentProgram (gl st) = cur \<and> uniforms (gl st) cur ''model'' = M"

text \<open>From a state satisfying \<open>P\<close> the statement \<open>f\<close> ends without error in a state
  satisfying \<open>Q\<close>, having added the draws \<open>ds\<close>.\<close>

definition draws_of ::
  "(('f, 'm) state \<Rightarrow> bool) \<Rightarrow> (('f, 'm) state \<Rightarrow> error + ('f, 'm) state) \<Rightarrow>
   (('f, 'm) state \<Rightarrow> bool) \<Rightarrow> ('f, 'm) draw list \<Rightarrow> bool" where
  "draws_of P f Q ds \<longleftrightarrow>
     (\<forall>st. P st \<longrightarrow> (\<exists>st'. f st = Inr st' \<and> Q st' \<and> draws (gl st') = draws (gl st) @ ds))"

text \<open>
  The scene's objects, as (mesh, \<^verbatim>\<open>model\<close> matrix) pairs built from the scene constants:
  the object drawn with a mesh under scale \<open>S\<close>, rotation angles \<open>rx\<close>, \<open>ry\<close>, \<open>rz\<close> and
  translation \<open>T\<close>.
\<close>

definition object ::
  "('f, 'm) glm \<Rightarrow> mesh_kind \<Rightarrow> 'f vec3 \<Rightarrow> 'f \<Rightarrow> 'f \<Rightarrow> 'f \<Rightarrow> 'f vec3 \<Rightarrow> mesh_kind \<times> ('f, 'm) uval option" where
  "object ops k S rx ry rz T = (k, Some (Mat4Value (modelView ops S rx ry rz T)))"

definition desk_objects :: "('f, 'm) glm \<Rightarrow> (mesh_kind \<times> ('f, 'm) uval option) list" where
  "desk_objects ops =
     [object ops BoxMesh (DESK_SCALE ops)
        (vx (DESK_ROTATION ops)) (vy (DESK_ROTATION ops)) (vz (DESK_ROTATION ops)) (DESK_POSITION ops)]"

definition mug_objects :: "('f, 'm) glm \<Rightarrow> (mesh_kind \<times> ('f, 'm) uval option) list" where
  "mug_objects ops =
     [object ops CylinderMesh (MUG_BODY_SCALE ops)
        (vx (MUG_BODY_ROTATION ops)) (vy (MUG_BODY_ROTATION ops)) (vz (MUG_BODY_ROTATION ops))
        (MUG_BODY_POSITION ops),
      object ops TorusMesh (MUG_HANDLE_SCALE ops)
        (vx (MUG_HANDLE_ROTATION ops)) (vy (MUG_HANDLE_ROTATION ops)) (vz (MUG_HANDLE_ROTATION ops))
        (MUG_HANDLE_POSITION ops)]"

definition key_objects :: "('f, 'm) glm \<Rightarrow> (mesh_kind \<times> ('f, 'm) uval option) list" where
  "key_objects ops =
     concat (map (\<lambda>r. map (\<lambda>c.
         object ops BoxMesh (Vec3 (KEY_WIDTH ops) (KEY_HEIGHT ops) (KEY_DEPTH ops))
           (lit ops ''0.0f'') (lit ops ''0.0f'') (lit ops ''0.0f'') (key_position ops (int r) (int c)))
       [0 ..< nat KEY_COLS]) [0 ..< nat KEY_ROWS])"

definition laptop_objects :: "('f, 'm) glm \<Rightarrow> (mesh_kind \<times> ('f, 'm) uval option) list" where
  "laptop_objects ops =
     [object ops BoxMesh (LAPTOP_BASE_SCALE ops)
        (vx (LAPTOP_BASE_ROTATION ops)) (vy (LAPTOP_BASE_ROTATION ops)) (vz (LAPTOP_BASE_ROTATION ops))
        (LAPTOP_BASE_POSITION ops),
      object ops BoxMesh (LAPTOP_SCREEN_SCALE ops)
        (vx (LAPTOP_SCREEN_ROTATION ops)) (vy (LAPTOP_SCREEN_ROTATION ops)) (vz (LAPTOP_SCREEN_ROTATION ops))
        (LAPTOP_SCREEN_POSITION ops),
      object ops BoxMesh (DISPLAY_PANEL_SCALE ops)
        (vx (DISPLAY_PANEL_ROTATION ops)) (vy (DISPLAY_PANEL_ROTATION ops)) (vz (DISPLAY_PANEL_ROTATION ops))
        (DISPLAY_PANEL_POSITION ops)]
     @ key_objects ops"

definition lamp_objects :: "('f, 'm) glm \<Rightarrow> (mesh_kind \<times> ('f, 'm) uval option) list" where
  "lamp_objects ops =
     [object ops CylinderMesh (LAMP_BASE_SCALE ops)
        (vx (LAMP_BASE_ROTATION ops)) (vy (LAMP_BASE_ROTATION ops)) (vz (LAMP_BASE_ROTATION ops))
        (LAMP_BASE_POSITION ops),
      object ops CylinderMesh (LAMP_STEM_SCALE ops)
        (vx (LAMP_STEM_ROTATION ops)) (vy (LAMP_STEM_ROTATION ops)) (vz (LAMP_STEM_ROTATION ops))
        (LAMP_STEM_POSITION ops),
      object ops ConeMesh (LAMP_SHADE_SCALE ops)
        (vx (LAMP_SHADE_ROTATION ops)) (vy (LAMP_SHADE_ROTATION ops)) (vz (LAMP_SHADE_ROTATION ops))
        (LAMP_SHADE_POSITION ops)]"

definition floor_objects :: "('f, 'm) glm \<Rightarrow> (mesh_kind \<times> ('f, 'm) uval option) list" where
  "floor_objects ops =
     [object ops BoxMesh (FLOOR_SCALE ops)
        (vx (FLOOR_ROTATION ops)) (vy (FLOOR_ROTATION ops)) (vz (FLOOR_ROTATION ops)) (FLOOR_POSITION ops)]"

definition wall_objects :: "('f, 'm) glm \<Rightarrow> (mesh_kind \<times> ('f, 'm) uval option) list" where
  "wall_objects ops =
     [object ops BoxMesh (vec3_lit ops ''62.4f'' ''26.0f'' ''0.65f'')
        (lit ops ''0.0f'') (lit ops ''0.0f'') (lit ops ''0.0f'')
        (Vec3 (lit ops ''0.0f'')
           (fadd ops (fadd ops (lit ops ''-5.0f'') (fdiv ops (lit ops ''0.13f'') (lit ops ''2.0f'')))
              (fdiv ops (lit ops ''26.0f'') (lit ops ''2.0f'')))
           (lit ops ''-21.25f''))]"

text \<open>A draw of an object with program \<open>p\<close> in use.\<close>

definition drawn :: "GLuint \<Rightarrow> mesh_kind \<times> ('f, 'm) uval option \<Rightarrow> ('f, 'm) draw" where
  "drawn p obj = \<lparr>mesh = fst obj, program = p, model = snd obj\<rparr>"

text \<open>A scene with both shader managers: main program 1, depth program 2.\<close>

definition example_frame_scene :: "(fexp, mexp) state" where
  "example_frame_scene =
     (example_scene (Some \<lparr>m_programID = 1\<rparr>))\<lparr>m_pDepthShaderManager := Some \<lparr>m_programID = 2\<rparr>\<rparr>"

section \<open>The matrices of GLM over the reals\<close>

text \<open>
  GLM is a library outside the repository. To say what a model matrix does to a point,
  the functions the scene manager calls are written here from GLM's own definitions
  (\<^verbatim>\<open>glm::scale\<close>, \<^verbatim>\<open>glm::rotate\<close> and \<^verbatim>\<open>glm::translate\<close> of \<^verbatim>\<open>glm/gtx/transform.hpp\<close>,
  \<^verbatim>\<open>glm::radians\<close>, \<^verbatim>\<open>operator*\<close>), with the reals in place of \<^verbatim>\<open>float\<close>: the values the
  program computes, up to rounding. A \<^verbatim>\<open>glm::mat4\<close> is four columns.
\<close>

datatype mat4 = Mat4 "real vec4" "real vec4" "real vec4" "real vec4"

text \<open>\<^verbatim>\<open>operator*\<close> of a matrix and a column vector, and of two matrices (column by column).\<close>

fun mat_vec :: "mat4 \<Rightarrow> real vec4 \<Rightarrow> real vec4" where
  "mat_vec (Mat4 (Vec4 a0 a1 a2 a3) (Vec4 b0 b1 b2 b3) (Vec4 c0 c1 c2 c3) (Vec4 d0 d1 d2 d3))
       (Vec4 x y z w) =
     Vec4 (a0 * x + b0 * y + c0 * z + d0 * w)
          (a1 * x + b1 * y + c1 * z + d1 * w)
          (a2 * x + b2 * y + c2 * z + d2 * w)
          (a3 * x + b3 * y + c3 * z + d3 * w)"

fun mat_mul :: "mat4 \<Rightarrow> mat4 \<Rightarrow> mat4" where
  "mat_mul A (Mat4 b0 b1 b2 b3) = Mat4 (mat_vec A b0) (mat_vec A b1) (mat_vec A b2) (mat_vec A b3)"

text \<open>\<^verbatim>\<open>glm::scale(v)\<close> and \<^verbatim>\<open>glm::translate(v)\<close>, applied to the identity.\<close>

definition scale_matrix :: "real vec3 \<Rightarrow> mat4" where
  "scale_matrix v =
     Mat4 (Vec4 (vx v) 0 0 0) (Vec4 0 (vy v) 0 0) (Vec4 0 0 (vz v) 0) (Vec4 0 0 0 1)"

definition translate_matrix :: "real vec3 \<Rightarrow> mat4" where
  "translate_matrix v =
     Mat4 (Vec4 1 0 0 0) (Vec4 0 1 0 0) (Vec4 0 0 1 0) (Vec4 (vx v) (vy v) (vz v) 1)"

text \<open>\<^verbatim>\<open>glm::rotate(angle, v)\<close>: the axis is normalised; \<open>c\<close>, \<open>s\<close> and \<open>temp = (1 - c) * axis\<close>
  are the locals of GLM's function, and the columns are its \<^verbatim>\<open>Rotate[0]\<close>, \<^verbatim>\<open>Rotate[1]\<close>,
  \<^verbatim>\<open>Rotate[2]\<close>.\<close>

definition rotate_matrix :: "real \<Rightarrow> real vec3 \<Rightarrow> mat4" where
  "rotate_matrix angle v =
     (let c = cos angle;
          s = sin angle;
          len = sqrt (vx v * vx v + vy v * vy v + vz v * vz v);
          ax = vx v / len; ay = vy v / len; az = vz v / len;
          tx = (1 - c) * ax; ty = (1 - c) * ay; tz = (1 - c) * az
      in Mat4 (Vec4 (c + tx * ax) (tx * ay + s * az) (tx * az - s * ay) 0)
              (Vec4 (ty * ax - s * az) (c + ty * ay) (ty * az + s * ax) 0)
              (Vec4 (tz * ax + s * ay) (tz * ay - s * ax) (c + tz * az) 0)
              (Vec4 0 0 0 1))"

text \<open>A float literal of the source as a real: an optional sign, the digits, an optional
  fraction, the suffix \<^verbatim>\<open>f\<close>.\<close>

fun decimal_digits :: "string \<Rightarrow> nat \<Rightarrow> nat" where
  "decimal_digits [] n = n"
| "decimal_digits (c # cs) n = decimal_digits cs (10 * n + (of_char c - 48))"

definition float_literal :: "string \<Rightarrow> real" where
  "float_literal s =
     (let negative = (take 1 s = ''-'');
          body = filter (\<lambda>c. c \<noteq> CHR ''f'') (if negative then drop 1 s else s);
          whole = takeWhile (\<lambda>c. c \<noteq> CHR ''.'') body;
          fraction = drop 1 (dropWhile (\<lambda>c. c \<noteq> CHR ''.'') body);
          v = real (decimal_digits whole 0) + real (decimal_digits fraction 0) / 10 ^ length fraction
      in if negative then - v else v)"

definition exact_glm :: "(real, mat4) glm" where
  "exact_glm = \<lparr>lit = float_literal, of_int_f = real_of_int, fadd = (+), fmul = (*), fdiv = (/),
     glm_radians = (\<lambda>degrees. degrees * (pi / 180)), glm_cos = cos,
     glm_scale = scale_matrix, glm_rotate = rotate_matrix, glm_translate = translate_matrix,
     mmul = mat_mul\<rparr>"

text \<open>The point a model matrix sends a vertex position to: \<open>M * vec4(p, 1)\<close>, as a vertex
  shader applies the \<^verbatim>\<open>model\<close> uniform.\<close>

definition transform_point :: "mat4 \<Rightarrow> real vec3 \<Rightarrow> real vec3" where
  "transform_point M p =
     (case mat_vec M (Vec4 (vx p) (vy p) (vz p) 1) of Vec4 x y z w \<Rightarrow> Vec3 x y z)"

text \<open>The elementary transformations of a point: scaling along the axes, the rotations
  about the X, Y and Z axis by an angle in degrees, and translation.\<close>

definition scale_point :: "real vec3 \<Rightarrow> real vec3 \<Rightarrow> real vec3" where
  "scale_point S p = Vec3 (vx S * vx p) (vy S * vy p) (vz S * vz p)"

definition rotate_x_point :: "real \<Rightarrow> real vec3 \<Rightarrow> real vec3" where
  "rotate_x_point degrees p =
     (let a = degrees * (pi / 180)
      in Vec3 (vx p) (cos a * vy p - sin a * vz p) (sin a * vy p + cos a * vz p))"

definition rotate_y_point :: "real \<Rightarrow> real vec3 \<Rightarrow> real vec3" where
  "rotate_y_point degrees p =
     (let a = degrees * (pi / 180)
      in Vec3 (cos a * vx p + sin a * vz p) (vy p) (cos a * vz p - sin a * vx p))"

definition rotate_z_point :: "real \<Rightarrow> real vec3 \<Rightarrow> real vec3" where
  "rotate_z_point degrees p =
     (let a = degrees * (pi / 180)
      in Vec3 (cos a * vx p - sin a * vy p) (sin a * vx p + cos a * vy p) (vz p))"

definition translate_point :: "real vec3 \<Rightarrow> real vec3 \<Rightarrow> real vec3" where
  "translate_point T p = Vec3 (vx p + vx T) (vy p + vy T) (vz p + vz T)"

section \<open>Material lookup\<close>

text \<open>
  C1. \<^verbatim>\<open>FindMaterial\<close> is claimed to report not-found when no stored material has the
  tag. On a collection holding one material tagged \<^verbatim>\<open>deskTexture\<close>, a lookup of the tag
  \<^verbatim>\<open>missing\<close> returns \<^verbatim>\<open>true\<close> and leaves the output parameter as it was: the function
  ends with \<^verbatim>\<open>return(true)\<close> instead of returning \<^verbatim>\<open>bFound\<close>.
\<close>

theorem FindMaterial_true_without_match:
  "FindMaterial [m\<lparr>mat_tag := ''deskTexture''\<rparr>] ''missing'' out = (True, out)"
  by (simp add: FindMaterial_def)

text \<open>
  The rest of the claim holds. When some stored material has the tag, the result is \<^verbatim>\<open>true\<close>
  and the five fields of the first such material are copied into the output parameter;
  when none has it, the output parameter is untouched and the result is \<^verbatim>\<open>true\<close> for
  every non-empty collection.
\<close>

lemma FindMaterial_loop_first_match:
  "i \<le> k \<Longrightarrow> k < length ms \<Longrightarrow> mat_tag (ms ! k) = tag \<Longrightarrow>
   (\<forall>j. i \<le> j \<and> j < k \<longrightarrow> mat_tag (ms ! j) \<noteq> tag) \<Longrightarrow>
   FindMaterial_loop ms tag i False out =
     (True, out\<lparr>ambientColor := ambientColor (ms ! k),
                ambientStrength := ambientStrength (ms ! k),
                diffuseColor := diffuseColor (ms ! k),
                specularColor := specularColor (ms ! k),
                shininess := shininess (ms ! k)\<rparr>)"
proof (induction "k - i" arbitrary: i)
  case 0
  then have "i = k" by simp
  with 0 show ?case
    by (subst FindMaterial_loop.simps, subst FindMaterial_loop.simps)
       (simp del: FindMaterial_loop.simps)
next
  case (Suc n)
  then have lt: "i < k" and ne: "mat_tag (ms ! i) \<noteq> tag" by auto
  have "FindMaterial_loop ms tag (i + 1) False out =
     (True, out\<lparr>ambientColor := ambientColor (ms ! k),
                ambientStrength := ambientStrength (ms ! k),
                diffuseColor := diffuseColor (ms ! k),
                specularColor := specularColor (ms ! k),
                shininess := shininess (ms ! k)\<rparr>)"
    using Suc.prems Suc.hyps(2) lt by (intro Suc.hyps(1)) auto
  with lt ne Suc.prems show ?case
    by (subst FindMaterial_loop.simps) (simp del: FindMaterial_loop.simps)
qed

lemma FindMaterial_loop_no_match:
  "(\<forall>j. i \<le> j \<and> j < length ms \<longrightarrow> mat_tag (ms ! j) \<noteq> tag) \<Longrightarrow>
   FindMaterial_loop ms tag i False out = (False, out)"
proof (induction "length ms - i" arbitrary: i)
  case 0
  then show ?case
    by (subst FindMaterial_loop.simps) (simp del: FindMaterial_loop.simps)
next
  case (Suc n)
  then have lt: "i < length ms" and ne: "mat_tag (ms ! i) \<noteq> tag" by auto
  have "FindMaterial_loop ms tag (i + 1) False out = (False, out)"
    using Suc.prems Suc.hyps(2) by (intro Suc.hyps(1)) auto
  with lt ne show ?case
    by (subst FindMaterial_loop.simps) (simp del: FindMaterial_loop.simps)
qed

lemma FindMaterial_first_match:
  "k < length ms \<Longrightarrow> mat_tag (ms ! k) = tag \<Longrightarrow> (\<forall>j < k. mat_tag (ms ! j) \<noteq> tag) \<Longrightarrow>
   FindMaterial ms tag out =
     (True, out\<lparr>ambientColor := ambientColor (ms ! k),
                ambientStrength := ambientStrength (ms ! k),
                diffuseColor := diffuseColor (ms ! k),
                specularColor := specularColor (ms ! k),
                shininess := shininess (ms ! k)\<rparr>)"
  using FindMaterial_loop_first_match [of 0 k ms tag out]
  by (auto simp: FindMaterial_def simp del: FindMaterial_loop.simps)

lemma FindMaterial_no_match:
  "(\<forall>j < length ms. mat_tag (ms ! j) \<noteq> tag) \<Longrightarrow>
   FindMaterial ms tag out = (ms \<noteq> [], out)"
  using FindMaterial_loop_no_match [of 0 ms tag out]
  by (auto simp: FindMaterial_def simp del: FindMaterial_loop.simps)

section \<open>Dispatcher with no shader manager\<close>

text \<open>
  C10. When \<^verbatim>\<open>m_pShaderManager\<close> is null, each of \<^verbatim>\<open>SetTransformations\<close>,
  \<^verbatim>\<open>SetShaderColor\<close>, \<^verbatim>\<open>SetShaderTexture\<close> and \<^verbatim>\<open>SetTextureUVScale\<close> returns normally and
  leaves the whole state as it was: no command reaches the context (the command log,
  the uniforms, the active unit and the texture bindings are those of before).
\<close>

theorem null_shader_manager_no_effect:
  "m_pShaderManager st = None \<Longrightarrow>
     SetTransformations ops scaleXYZ rx ry rz positionXYZ st = Inr st \<and>
     SetShaderColor r g b a st = Inr st \<and>
     SetShaderTexture textureTag st = Inr st \<and>
     SetTextureUVScale u v st = Inr st"
  by (simp add: SetTransformations_def SetShaderColor_def SetShaderTexture_def SetTextureUVScale_def)

theorem null_shader_manager_no_effect_witness:
  "m_pShaderManager (example_scene None :: (fexp, mexp) state) = None \<and>
   SetTransformations symbolic (DESK_SCALE symbolic) (FLit ''0.0f'') (FLit ''0.0f'') (FLit ''0.0f'')
       (DESK_POSITION symbolic) (example_scene None) = Inr (example_scene None) \<and>
   SetShaderColor (FLit ''0.15f'') (FLit ''0.15f'') (FLit ''0.15f'') (FLit ''1.0f'')
       (example_scene None :: (fexp, mexp) state) = Inr (example_scene None) \<and>
   SetShaderTexture ''deskTexture'' (example_scene None :: (fexp, mexp) state) = Inr (example_scene None) \<and>
   SetTextureUVScale (FLit ''1.0f'') (FLit ''1.0f'') (example_scene None :: (fexp, mexp) state)
     = Inr (example_scene None)"
proof -
  have h: "m_pShaderManager (example_scene None :: (fexp, mexp) state) = None"
    by (simp add: example_scene_def SceneManager_init_def)
  show ?thesis
    using h null_shader_manager_no_effect [OF h] by simp
qed

section \<open>Transform composition\<close>

lemma float_literal_one_zero:
  "float_literal ''1.0f'' = 1" "float_literal ''0.0f'' = 0"
  by (simp_all add: float_literal_def)

lemma mat_vec_mat_mul: "mat_vec (mat_mul A B) v = mat_vec A (mat_vec B v)"
proof (cases "(A, v)" rule: mat_vec.cases)
  case (1 a0 a1 a2 a3 b0 b1 b2 b3 c0 c1 c2 c3 d0 d1 d2 d3 x y z w)
  then show ?thesis
    by (cases "(B, v)" rule: mat_vec.cases) (simp add: algebra_simps)
qed

text \<open>The rotation matrices about the three coordinate axes.\<close>

lemma rotate_matrix_axes:
  "rotate_matrix a (Vec3 1 0 0) =
     Mat4 (Vec4 1 0 0 0) (Vec4 0 (cos a) (sin a) 0) (Vec4 0 (- sin a) (cos a) 0) (Vec4 0 0 0 1)"
  "rotate_matrix a (Vec3 0 1 0) =
     Mat4 (Vec4 (cos a) 0 (- sin a) 0) (Vec4 0 1 0 0) (Vec4 (sin a) 0 (cos a) 0) (Vec4 0 0 0 1)"
  "rotate_matrix a (Vec3 0 0 1) =
     Mat4 (Vec4 (cos a) (sin a) 0 0) (Vec4 (- sin a) (cos a) 0 0) (Vec4 0 0 1 0) (Vec4 0 0 0 1)"
  by (simp_all add: rotate_matrix_def Let_def)

lemmas point_defs =
  transform_point_def translate_point_def rotate_x_point_def rotate_y_point_def
  rotate_z_point_def scale_point_def scale_matrix_def translate_matrix_def

text \<open>What the product does to a point: the factors act from the right, so the point is
  scaled, then rotated about Z, then about Y, then about X, then translated.\<close>

lemma modelView_point:
  "transform_point (modelView exact_glm S rx ry rz T) p =
     translate_point T (rotate_x_point rx (rotate_y_point ry (rotate_z_point rz (scale_point S p))))"
  by (cases S; cases T; cases p)
     (simp add: modelView_def exact_glm_def float_literal_one_zero rotate_matrix_axes
        mat_vec_mat_mul point_defs Let_def algebra_simps)

lemma SetTransformations_upload:
  "m_pShaderManager st = Some sh \<Longrightarrow>
   SetTransformations ops S rx ry rz T st =
     Inr (st\<lparr>gl := setUniform sh ''model'' (Mat4Value (modelView ops S rx ry rz T)) (gl st)\<rparr>)"
  by (simp add: SetTransformations_def on_gl_def)

text \<open>
  C3, as amended. With a shader manager present, \<^verbatim>\<open>SetTransformations\<close> sends exactly one
  command, the upload of \<open>M = Translate(T) * RotateX(rx) * RotateY(ry) * RotateZ(rz) * Scale(S)\<close>
  (the product grouped from the left, angles converted by \<^verbatim>\<open>glm::radians\<close>) as the \<^verbatim>\<open>model\<close>
  uniform of the program in use, and changes no other uniform; \<^verbatim>\<open>SetModelMatrix\<close> computes
  the same matrix and uploads it the same way, a second time when the depth shader
  manager is present. This holds whatever the float and matrix operations compute. In
  exact arithmetic the matrix sends a point to the one obtained by scaling first, then
  rotating about Z, then about Y, then about X, then translating: the rotations act in
  the order Z, Y, X, not X, Y, Z.
\<close>

theorem model_uniform_is_TRS_product:
  fixes ops :: "('f, 'm) glm" and st :: "('f, 'm) state"
    and S T :: "'f vec3" and rx ry rz :: 'f
    and S' T' p :: "real vec3" and rx' ry' rz' :: real
  defines "M \<equiv>
     mmul ops (mmul ops (mmul ops (mmul ops
       (glm_translate ops T)
       (glm_rotate ops (glm_radians ops rx) (Vec3 (lit ops ''1.0f'') (lit ops ''0.0f'') (lit ops ''0.0f''))))
       (glm_rotate ops (glm_radians ops ry) (Vec3 (lit ops ''0.0f'') (lit ops ''1.0f'') (lit ops ''0.0f''))))
       (glm_rotate ops (glm_radians ops rz) (Vec3 (lit ops ''0.0f'') (lit ops ''0.0f'') (lit ops ''1.0f''))))
       (glm_scale ops S)"
    and "cur \<equiv> currentProgram (gl st)"
  assumes "m_pShaderManager st = Some sh"
  shows "\<exists>st' st''.
     modelView ops S rx ry rz T = M \<and>
     SetTransformations ops S rx ry rz T st = Inr st' \<and>
     calls (gl st') = calls (gl st) @ [Uniform cur ''model'' (Mat4Value M)] \<and>
     uniforms (gl st') = (uniforms (gl st))(cur := (uniforms (gl st) cur)(''model'' \<mapsto> Mat4Value M)) \<and>
     SetModelMatrix ops S rx ry rz T st = Inr st'' \<and>
     uniforms (gl st'') = (uniforms (gl st))(cur := (uniforms (gl st) cur)(''model'' \<mapsto> Mat4Value M)) \<and>
     (case m_pDepthShaderManager st of
        None \<Rightarrow> calls (gl st'') = calls (gl st) @ [Uniform cur ''model'' (Mat4Value M)]
      | Some dsh \<Rightarrow>
          calls (gl st'') = calls (gl st) @
            [Uniform cur ''model'' (Mat4Value M), Uniform cur ''model'' (Mat4Value M)]) \<and>
     transform_point (modelView exact_glm S' rx' ry' rz' T') p =
       translate_point T'
         (rotate_x_point rx' (rotate_y_point ry' (rotate_z_point rz' (scale_point S' p))))"
proof -
  have m: "modelView ops S rx ry rz T = M"
    by (simp add: modelView_def M_def Let_def)
  have a: "SetTransformations ops S rx ry rz T st
      = Inr (st\<lparr>gl := setUniform sh ''model'' (Mat4Value M) (gl st)\<rparr>)"
    using assms(3) by (simp add: SetTransformations_upload m)
  have b: "\<exists>st''. SetModelMatrix ops S rx ry rz T st = Inr st'' \<and>
     uniforms (gl st'') = (uniforms (gl st))(cur := (uniforms (gl st) cur)(''model'' \<mapsto> Mat4Value M)) \<and>
     (case m_pDepthShaderManager st of
        None \<Rightarrow> calls (gl st'') = calls (gl st) @ [Uniform cur ''model'' (Mat4Value M)]
      | Some dsh \<Rightarrow>
          calls (gl st'') = calls (gl st) @
            [Uniform cur ''model'' (Mat4Value M), Uniform cur ''model'' (Mat4Value M)])"
    using assms(3)
    by (auto simp: SetModelMatrix_def m on_gl_def setUniform_def gl_log_def cur_def Let_def
        split: option.splits)
  from b obtain st'' where b': "SetModelMatrix ops S rx ry rz T st = Inr st''"
     "uniforms (gl st'') = (uniforms (gl st))(cur := (uniforms (gl st) cur)(''model'' \<mapsto> Mat4Value M))"
     "(case m_pDepthShaderManager st of
        None \<Rightarrow> calls (gl st'') = calls (gl st) @ [Uniform cur ''model'' (Mat4Value M)]
      | Some dsh \<Rightarrow>
          calls (gl st'') = calls (gl st) @
            [Uniform cur ''model'' (Mat4Value M), Uniform cur ''model'' (Mat4Value M)])"
    by blast
  have c: "calls (gl (st\<lparr>gl := setUniform sh ''model'' (Mat4Value M) (gl st)\<rparr>))
      = calls (gl st) @ [Uniform cur ''model'' (Mat4Value M)]"
    by (simp add: setUniform_def gl_log_def cur_def)
  have d: "uniforms (gl (st\<lparr>gl := setUniform sh ''model'' (Mat4Value M) (gl st)\<rparr>))
      = (uniforms (gl st))(cur := (uniforms (gl st) cur)(''model'' \<mapsto> Mat4Value M))"
    by (simp add: setUniform_def gl_log_def cur_def)
  show ?thesis
    by (intro exI [of _ "st\<lparr>gl := setUniform sh ''model'' (Mat4Value M) (gl st)\<rparr>"] exI [of _ st'']
        conjI m a b' c d modelView_point)
qed

theorem model_uniform_is_TRS_product_witness:
  "m_pShaderManager (example_scene_in_use :: (real, mat4) state) = Some \<lparr>m_programID = 1\<rparr> \<and>
   (\<exists>st'. SetTransformations exact_glm (Vec3 2 1 1) 90 0 90 (Vec3 0 0 5) example_scene_in_use = Inr st' \<and>
      uniforms (gl st') 1 ''model'' =
        Some (Mat4Value (modelView exact_glm (Vec3 2 1 1) 90 0 90 (Vec3 0 0 5)))) \<and>
   transform_point (modelView exact_glm (Vec3 2 1 1) 90 0 90 (Vec3 0 0 5)) (Vec3 1 0 0) = Vec3 0 0 7"
proof -
  have h: "m_pShaderManager (example_scene_in_use :: (real, mat4) state) = Some \<lparr>m_programID = 1\<rparr>"
    by (simp add: example_scene_in_use_def example_scene_def SceneManager_init_def)
  have cur: "currentProgram (gl (example_scene_in_use :: (real, mat4) state)) = 1"
    by (simp add: example_scene_in_use_def use_def glUseProgram_def gl_log_def)
  from model_uniform_is_TRS_product [OF h, of exact_glm "Vec3 2 1 1" 90 0 90 "Vec3 0 0 5"
      "Vec3 2 1 1" 90 0 90 "Vec3 0 0 5" "Vec3 1 0 0"]
  obtain st' where r:
    "SetTransformations exact_glm (Vec3 2 1 1) 90 0 90 (Vec3 0 0 5) example_scene_in_use = Inr st'"
    "uniforms (gl st') 1 ''model'' =
       Some (Mat4Value (modelView exact_glm (Vec3 2 1 1) 90 0 90 (Vec3 0 0 5)))"
    "transform_point (modelView exact_glm (Vec3 2 1 1) 90 0 90 (Vec3 0 0 5)) (Vec3 1 0 0) =
       translate_point (Vec3 0 0 5)
         (rotate_x_point 90 (rotate_y_point 0 (rotate_z_point 90 (scale_point (Vec3 2 1 1) (Vec3 1 0 0)))))"
    by (auto simp: cur)
  have v: "translate_point (Vec3 0 0 5)
         (rotate_x_point 90 (rotate_y_point 0 (rotate_z_point 90 (scale_point (Vec3 2 1 1) (Vec3 1 0 0)))))
      = Vec3 0 0 7"
    by (simp add: translate_point_def rotate_x_point_def rotate_y_point_def rotate_z_point_def
        scale_point_def Let_def)
  from r(3) v have p: "transform_point (modelView exact_glm (Vec3 2 1 1) 90 0 90 (Vec3 0 0 5)) (Vec3 1 0 0)
      = Vec3 0 0 7" by simp
  show ?thesis
    by (intro conjI exI [of _ st'] h r(1) r(2) p)
qed

text \<open>
  C3 as stated fails: the claim has the rotations act in the order X, Y, Z. With unit
  scale, no translation and angles of 90, 90 and 0 degrees, the matrix that
  \<^verbatim>\<open>SetTransformations\<close> uploads sends the point \<open>(0, 0, 1)\<close> to \<open>(1, 0, 0)\<close>; scaling, rotating
  about X, then Y, then Z, and translating sends it to \<open>(0, -1, 0)\<close>.
\<close>

theorem model_matrix_rotates_Z_then_Y_then_X:
  "\<exists>st' M.
     SetTransformations exact_glm (Vec3 1 1 1) 90 90 0 (Vec3 0 0 0) example_scene_in_use = Inr st' \<and>
     uniforms (gl st') 1 ''model'' = Some (Mat4Value M) \<and>
     transform_point M (Vec3 0 0 1) = Vec3 1 0 0 \<and>
     translate_point (Vec3 0 0 0)
       (rotate_z_point 0 (rotate_y_point 90 (rotate_x_point 90
          (scale_point (Vec3 1 1 1) (Vec3 0 0 1))))) = Vec3 0 (- 1) 0 \<and>
     transform_point M (Vec3 0 0 1) \<noteq>
       translate_point (Vec3 0 0 0)
         (rotate_z_point 0 (rotate_y_point 90 (rotate_x_point 90
            (scale_point (Vec3 1 1 1) (Vec3 0 0 1)))))"
proof -
  let ?M = "modelView exact_glm (Vec3 1 1 1) 90 90 0 (Vec3 0 0 0)"
  let ?st' = "(example_scene_in_use :: (real, mat4) state)
      \<lparr>gl := setUniform \<lparr>m_programID = 1\<rparr> ''model'' (Mat4Value ?M) (gl example_scene_in_use)\<rparr>"
  have h: "m_pShaderManager (example_scene_in_use :: (real, mat4) state) = Some \<lparr>m_programID = 1\<rparr>"
    by (simp add: example_scene_in_use_def example_scene_def SceneManager_init_def)
  have a: "SetTransformations exact_glm (Vec3 1 1 1) 90 90 0 (Vec3 0 0 0) example_scene_in_use = Inr ?st'"
    by (rule SetTransformations_upload [OF h])
  have b: "uniforms (gl ?st') 1 ''model'' = Some (Mat4Value ?M)"
    by (simp add: setUniform_def gl_log_def example_scene_in_use_def use_def glUseProgram_def)
  have c: "transform_point ?M (Vec3 0 0 1) = Vec3 1 0 0"
    by (simp add: modelView_def exact_glm_def float_literal_one_zero rotate_matrix_axes
        point_defs Let_def)
  have d: "translate_point (Vec3 0 0 0)
       (rotate_z_point 0 (rotate_y_point 90 (rotate_x_point 90
          (scale_point (Vec3 1 1 1) (Vec3 0 0 1))))) = Vec3 0 (- 1) 0"
    by (simp add: point_defs Let_def)
  have e: "transform_point ?M (Vec3 0 0 1) \<noteq>
       translate_point (Vec3 0 0 0)
         (rotate_z_point 0 (rotate_y_point 90 (rotate_x_point 90
            (scale_point (Vec3 1 1 1) (Vec3 0 0 1)))))"
    by (simp only: c d) simp
  show ?thesis
    by (intro exI [of _ ?st'] exI [of _ ?M] conjI a b c d e)
qed

section \<open>Texture registry: effect of a load and of the two scans\<close>

lemma store_texture_effect:
  "store_texture h tag st =
     (if 0 \<le> m_loadedTextures st \<and> m_loadedTextures st < int (length (m_textureIDs st))
      then Inr (True, st\<lparr>gl := glBindTexture 0 (gl_log GenerateMipmap (gl st)),
                         m_textureIDs := (m_textureIDs st)[nat (m_loadedTextures st) := \<lparr>tex_tag = tag, ID = h\<rparr>],
                         m_loadedTextures := m_loadedTextures st + 1\<rparr>)
      else Inl OutOfBounds)"
  by (simp add: store_texture_def Let_def)

lemma CreateGLTexture_fail:
  "\<not> loadable stbi_load filename \<Longrightarrow>
   \<exists>st'. CreateGLTexture stbi_load filename tag st = Inr (False, st') \<and>
         m_textureIDs st' = m_textureIDs st \<and> m_loadedTextures st' = m_loadedTextures st"
  by (auto simp: CreateGLTexture_def loadable_def Let_def gl_gen_def split: option.splits prod.splits)

lemma CreateGLTexture_ok:
  "loadable stbi_load filename \<Longrightarrow> 0 \<le> m_loadedTextures st \<Longrightarrow>
   m_loadedTextures st < int (length (m_textureIDs st)) \<Longrightarrow>
   \<exists>st'. CreateGLTexture stbi_load filename tag st = Inr (True, st') \<and>
         m_textureIDs st' = (m_textureIDs st)[nat (m_loadedTextures st) :=
            \<lparr>tex_tag = tag, ID = names (gl st) (issued (gl st))\<rparr>] \<and>
         m_loadedTextures st' = m_loadedTextures st + 1"
  by (auto simp: CreateGLTexture_def loadable_def Let_def gl_gen_def store_texture_effect
      split: option.splits prod.splits)

lemma CreateGLTexture_full:
  "loadable stbi_load filename \<Longrightarrow>
   \<not> (0 \<le> m_loadedTextures st \<and> m_loadedTextures st < int (length (m_textureIDs st))) \<Longrightarrow>
   CreateGLTexture stbi_load filename tag st = Inl OutOfBounds"
  by (auto simp: CreateGLTexture_def loadable_def Let_def gl_gen_def store_texture_effect
      split: option.splits prod.splits)

lemma FindTextureSlot_loop_found:
  "n \<le> int (length tbl) \<Longrightarrow> 0 \<le> i \<Longrightarrow> i \<le> k \<Longrightarrow> k < n \<Longrightarrow> tex_tag (tbl ! nat k) = tag \<Longrightarrow>
   (\<forall>j. i \<le> j \<and> j < k \<longrightarrow> tex_tag (tbl ! nat j) \<noteq> tag) \<Longrightarrow>
   FindTextureSlot_loop tbl n tag i = Inr k"
proof (induction tbl n tag i rule: FindTextureSlot_loop.induct)
  case (1 tbl n tag index)
  show ?case
  proof (cases "index = k")
    case True
    with "1.prems" show ?thesis by simp
  next
    case False
    with "1.prems" have ne: "tex_tag (tbl ! nat index) \<noteq> tag" and lt: "index < k" by auto
    have "FindTextureSlot_loop tbl n tag (index + 1) = Inr k"
      using "1.prems" ne lt by (intro "1.IH") auto
    with "1.prems" ne lt show ?thesis by simp
  qed
qed

lemma FindTextureSlot_loop_missing:
  "n \<le> int (length tbl) \<Longrightarrow> 0 \<le> i \<Longrightarrow>
   (\<forall>j. i \<le> j \<and> j < n \<longrightarrow> tex_tag (tbl ! nat j) \<noteq> tag) \<Longrightarrow>
   FindTextureSlot_loop tbl n tag i = Inr (- 1)"
proof (induction tbl n tag i rule: FindTextureSlot_loop.induct)
  case (1 tbl n tag index)
  show ?case
  proof (cases "index < n")
    case True
    with "1.prems" have ne: "tex_tag (tbl ! nat index) \<noteq> tag" by auto
    have "FindTextureSlot_loop tbl n tag (index + 1) = Inr (- 1)"
      using "1.prems" ne True by (intro "1.IH") auto
    with "1.prems" ne True show ?thesis by simp
  next
    case False
    then show ?thesis by simp
  qed
qed

lemma FindTextureID_loop_found:
  "n \<le> int (length tbl) \<Longrightarrow> 0 \<le> i \<Longrightarrow> i \<le> k \<Longrightarrow> k < n \<Longrightarrow> tex_tag (tbl ! nat k) = tag \<Longrightarrow>
   (\<forall>j. i \<le> j \<and> j < k \<longrightarrow> tex_tag (tbl ! nat j) \<noteq> tag) \<Longrightarrow>
   FindTextureID_loop tbl n tag i = Inr (sint (ID (tbl ! nat k)))"
proof (induction tbl n tag i rule: FindTextureID_loop.induct)
  case (1 tbl n tag index)
  show ?case
  proof (cases "index = k")
    case True
    with "1.prems" show ?thesis by simp
  next
    case False
    with "1.prems" have ne: "tex_tag (tbl ! nat index) \<noteq> tag" and lt: "index < k" by auto
    have "FindTextureID_loop tbl n tag (index + 1) = Inr (sint (ID (tbl ! nat k)))"
      using "1.prems" ne lt by (intro "1.IH") auto
    with "1.prems" ne lt show ?thesis by simp
  qed
qed

lemma FindTextureID_loop_missing:
  "n \<le> int (length tbl) \<Longrightarrow> 0 \<le> i \<Longrightarrow>
   (\<forall>j. i \<le> j \<and> j < n \<longrightarrow> tex_tag (tbl ! nat j) \<noteq> tag) \<Longrightarrow>
   FindTextureID_loop tbl n tag i = Inr (- 1)"
proof (induction tbl n tag i rule: FindTextureID_loop.induct)
  case (1 tbl n tag index)
  show ?case
  proof (cases "index < n")
    case True
    with "1.prems" have ne: "tex_tag (tbl ! nat index) \<noteq> tag" by auto
    have "FindTextureID_loop tbl n tag (index + 1) = Inr (- 1)"
      using "1.prems" ne True by (intro "1.IH") auto
    with "1.prems" ne True show ?thesis by simp
  next
    case False
    then show ?thesis by simp
  qed
qed
section \<open>Texture selection with an unknown tag\<close>

lemma FindTextureSlot_missing:
  assumes "m_loadedTextures st \<le> int (length (m_textureIDs st))"
      and "tag \<notin> tex_tag ` set (take (nat (m_loadedTextures st)) (m_textureIDs st))"
  shows "FindTextureSlot st tag = Inr (- 1)"
proof -
  have "\<forall>j. 0 \<le> j \<and> j < m_loadedTextures st \<longrightarrow> tex_tag (m_textureIDs st ! nat j) \<noteq> tag"
  proof (intro allI impI)
    fix j assume j: "0 \<le> j \<and> j < m_loadedTextures st"
    then have "nat j < length (take (nat (m_loadedTextures st)) (m_textureIDs st))"
      using assms(1) by simp
    then have "take (nat (m_loadedTextures st)) (m_textureIDs st) ! nat j
        \<in> set (take (nat (m_loadedTextures st)) (m_textureIDs st))"
      by (rule nth_mem)
    moreover have "take (nat (m_loadedTextures st)) (m_textureIDs st) ! nat j = m_textureIDs st ! nat j"
      using j by simp
    ultimately show "tex_tag (m_textureIDs st ! nat j) \<noteq> tag"
      using assms(2) by auto
  qed
  then show ?thesis
    unfolding FindTextureSlot_def
    using assms(1) by (intro FindTextureSlot_loop_missing) auto
qed

text \<open>
  C5, as amended. For a tag that no loaded slot holds, \<^verbatim>\<open>SetShaderTexture\<close> leaves the active
  texture unit, every texture binding, the sampler uniform and every other uniform as
  they were, except for \<^verbatim>\<open>bUseTexture\<close> of the program in use, which it sets to 1 before
  it looks the tag up; with no shader manager it does nothing at all.
\<close>

theorem SetShaderTexture_unknown_tag:
  assumes "m_loadedTextures st \<le> int (length (m_textureIDs st))"
      and "textureTag \<notin> tex_tag ` set (take (nat (m_loadedTextures st)) (m_textureIDs st))"
  shows "\<exists>st'. SetShaderTexture textureTag st = Inr st' \<and>
     activeTexture (gl st') = activeTexture (gl st) \<and>
     boundTexture (gl st') = boundTexture (gl st) \<and>
     (case m_pShaderManager st of
        None \<Rightarrow> st' = st
      | Some sh \<Rightarrow>
          calls (gl st') =
            calls (gl st) @ [Uniform (currentProgram (gl st)) ''bUseTexture'' (IntValue 1)] \<and>
          currentProgram (gl st') = currentProgram (gl st) \<and>
          uniforms (gl st') =
            (uniforms (gl st))(currentProgram (gl st) :=
               (uniforms (gl st) (currentProgram (gl st)))(''bUseTexture'' \<mapsto> IntValue 1)))"
proof (cases "m_pShaderManager st")
  case None
  then show ?thesis by (simp add: SetShaderTexture_def)
next
  case (Some sh)
  let ?st1 = "st\<lparr>gl := setUniform sh ''bUseTexture'' (IntValue 1) (gl st)\<rparr>"
  have "FindTextureSlot ?st1 textureTag = Inr (- 1)"
    using assms by (intro FindTextureSlot_missing) simp_all
  then have "SetShaderTexture textureTag st = Inr ?st1"
    using Some by (simp add: SetShaderTexture_def on_gl_def)
  then show ?thesis
    using Some by (simp add: setUniform_def gl_log_def)
qed

theorem SetShaderTexture_unknown_tag_witness:
  "m_loadedTextures (example_scene_in_use :: (fexp, mexp) state)
     \<le> int (length (m_textureIDs (example_scene_in_use :: (fexp, mexp) state))) \<and>
   (\<exists>st'. SetShaderTexture ''deskTexture'' (example_scene_in_use :: (fexp, mexp) state) = Inr st' \<and>
      activeTexture (gl st') = 0 \<and>
      uniforms (gl st') 1 ''objectTexture'' = None \<and>
      uniforms (gl st') 1 ''bUseTexture'' = Some (IntValue 1))"
proof -
  let ?st = "example_scene_in_use :: (fexp, mexp) state"
  have h1: "m_loadedTextures ?st \<le> int (length (m_textureIDs ?st))"
    by (simp add: example_scene_in_use_def example_scene_def SceneManager_init_def)
  have h2: "''deskTexture'' \<notin> tex_tag ` set (take (nat (m_loadedTextures ?st)) (m_textureIDs ?st))"
    by (simp add: example_scene_in_use_def example_scene_def SceneManager_init_def)
  show ?thesis
    using h1 SetShaderTexture_unknown_tag [OF h1 h2]
    by (auto simp: example_scene_in_use_def example_scene_def SceneManager_init_def example_gl_def
        use_def glUseProgram_def gl_log_def)
qed

text \<open>
  C5 as stated fails: with the main program (name 1) in use, after \<^verbatim>\<open>SetShaderColor\<close> has
  set \<^verbatim>\<open>bUseTexture\<close> to 0, a call of
  \<^verbatim>\<open>SetShaderTexture\<close> with a tag that is not in the registry sets it to 1.
\<close>

theorem SetShaderTexture_unknown_tag_changes_uniform:
  "\<exists>st1 st2.
     SetShaderColor (FLit ''0.15f'') (FLit ''0.15f'') (FLit ''0.15f'') (FLit ''1.0f'')
       (example_scene_in_use :: (fexp, mexp) state) = Inr st1 \<and>
     FindTextureSlot st1 ''missing'' = Inr (- 1) \<and>
     SetShaderTexture ''missing'' st1 = Inr st2 \<and>
     uniforms (gl st1) 1 ''bUseTexture'' = Some (IntValue 0) \<and>
     uniforms (gl st2) 1 ''bUseTexture'' = Some (IntValue 1)"
  by (simp add: SetShaderColor_def SetShaderTexture_def FindTextureSlot_def example_scene_in_use_def
      example_scene_def SceneManager_init_def example_gl_def on_gl_def setUniform_def gl_log_def
      use_def glUseProgram_def)

section \<open>Runs of loads\<close>

lemma loaded_Cons [simp]:
  "loaded ((t, b, h) # lg) = (if b then (t, h) # loaded lg else loaded lg)"
  by (simp add: loaded_def)

lemma loaded_Nil [simp]: "loaded [] = []"
  by (simp add: loaded_def)

lemma take_Suc_update:
  "n < length xs \<Longrightarrow> take (Suc n) (xs[n := x]) = take n xs @ [x]"
  by (simp add: take_Suc_conv_app_nth)

lemma load_all_registry:
  "0 \<le> m_loadedTextures st \<Longrightarrow>
   m_loadedTextures st + int (length (filter (loadable stbi_load) (map fst cs)))
     \<le> int (length (m_textureIDs st)) \<Longrightarrow>
   \<exists>lg st'. load_all stbi_load cs st = Inr (lg, st') \<and>
     map fst lg = map snd cs \<and>
     map (\<lambda>(t, b, h). b) lg = map (\<lambda>(f, t). loadable stbi_load f) cs \<and>
     length (m_textureIDs st') = length (m_textureIDs st) \<and>
     m_loadedTextures st' = m_loadedTextures st + int (length (loaded lg)) \<and>
     take (nat (m_loadedTextures st')) (m_textureIDs st') =
       take (nat (m_loadedTextures st)) (m_textureIDs st) @
       map (\<lambda>(t, h). \<lparr>tex_tag = t, ID = h\<rparr>) (loaded lg)"
proof (induction cs arbitrary: st)
  case Nil
  then show ?case by simp
next
  case (Cons c cs)
  obtain f t where c: "c = (f, t)" by (cases c)
  let ?n = "m_loadedTextures st"
  show ?case
  proof (cases "loadable stbi_load f")
    case True
    with Cons.prems c have lt: "?n < int (length (m_textureIDs st))" by simp
    from CreateGLTexture_ok [OF True Cons.prems(1) lt, of t]
    obtain st1 where st1: "CreateGLTexture stbi_load f t st = Inr (True, st1)"
      "m_textureIDs st1 = (m_textureIDs st)[nat ?n := \<lparr>tex_tag = t, ID = names (gl st) (issued (gl st))\<rparr>]"
      "m_loadedTextures st1 = ?n + 1" by blast
    have p1: "0 \<le> m_loadedTextures st1" using st1 Cons.prems by simp
    have p2: "m_loadedTextures st1 + int (length (filter (loadable stbi_load) (map fst cs)))
        \<le> int (length (m_textureIDs st1))"
      using st1 Cons.prems True c by simp
    from Cons.IH [OF p1 p2]
    obtain lg st' where r: "load_all stbi_load cs st1 = Inr (lg, st')"
      "map fst lg = map snd cs"
      "map (\<lambda>(t, b, h). b) lg = map (\<lambda>(f, t). loadable stbi_load f) cs"
      "length (m_textureIDs st') = length (m_textureIDs st1)"
      "m_loadedTextures st' = m_loadedTextures st1 + int (length (loaded lg))"
      "take (nat (m_loadedTextures st')) (m_textureIDs st') =
         take (nat (m_loadedTextures st1)) (m_textureIDs st1) @
         map (\<lambda>(t, h). \<lparr>tex_tag = t, ID = h\<rparr>) (loaded lg)" by blast
    have tk: "take (nat (m_loadedTextures st1)) (m_textureIDs st1) =
        take (nat ?n) (m_textureIDs st) @ [\<lparr>tex_tag = t, ID = names (gl st) (issued (gl st))\<rparr>]"
    proof -
      have "nat (?n + 1) = Suc (nat ?n)" using Cons.prems(1) by simp
      moreover have "nat ?n < length (m_textureIDs st)" using lt Cons.prems(1) by simp
      ultimately show ?thesis using st1 by (simp add: take_Suc_update)
    qed
    show ?thesis
      using st1 r tk c True by simp
  next
    case False
    from CreateGLTexture_fail [OF False, of t st]
    obtain st1 where st1: "CreateGLTexture stbi_load f t st = Inr (False, st1)"
      "m_textureIDs st1 = m_textureIDs st" "m_loadedTextures st1 = ?n" by blast
    have p1: "0 \<le> m_loadedTextures st1" using st1 Cons.prems by simp
    have p2: "m_loadedTextures st1 + int (length (filter (loadable stbi_load) (map fst cs)))
        \<le> int (length (m_textureIDs st1))"
      using st1 Cons.prems False c by simp
    from Cons.IH [OF p1 p2]
    obtain lg st' where r: "load_all stbi_load cs st1 = Inr (lg, st')"
      "map fst lg = map snd cs"
      "map (\<lambda>(t, b, h). b) lg = map (\<lambda>(f, t). loadable stbi_load f) cs"
      "length (m_textureIDs st') = length (m_textureIDs st1)"
      "m_loadedTextures st' = m_loadedTextures st1 + int (length (loaded lg))"
      "take (nat (m_loadedTextures st')) (m_textureIDs st') =
         take (nat (m_loadedTextures st1)) (m_textureIDs st1) @
         map (\<lambda>(t, h). \<lparr>tex_tag = t, ID = h\<rparr>) (loaded lg)" by blast
    show ?thesis
      using st1 r c False by simp
  qed
qed

section \<open>Loading a texture\<close>

lemma not_loadable_iff:
  "\<not> loadable stbi_load filename \<longleftrightarrow>
     (stbi_load filename = None \<or>
      (\<exists>img. stbi_load filename = Some img \<and> colorChannels img \<noteq> 3 \<and> colorChannels img \<noteq> 4))"
  by (auto simp: loadable_def split: option.splits)

text \<open>
  C6, as amended. On a registry of sixteen slots: when the file is unreadable or its
  channel count is neither 3 nor 4, \<^verbatim>\<open>CreateGLTexture\<close> returns \<^verbatim>\<open>false\<close> and leaves the slot
  table and the count unchanged, however many slots are in use; otherwise, while fewer
  than sixteen slots are in use, it returns \<^verbatim>\<open>true\<close>, the slot at the old count holds the
  given tag and the generated texture name, every other slot is unchanged and the count
  is one more. Whenever it returns, the result is \<^verbatim>\<open>false\<close> exactly in the first case.
\<close>

theorem CreateGLTexture_within_capacity:
  assumes len: "length (m_textureIDs st) = 16"
      and n: "0 \<le> m_loadedTextures st" "m_loadedTextures st \<le> 16"
  shows
    "(stbi_load filename = None \<or>
      (\<exists>img. stbi_load filename = Some img \<and> colorChannels img \<noteq> 3 \<and> colorChannels img \<noteq> 4) \<longrightarrow>
        (\<exists>st'. CreateGLTexture stbi_load filename tag st = Inr (False, st') \<and>
           m_textureIDs st' = m_textureIDs st \<and> m_loadedTextures st' = m_loadedTextures st)) \<and>
     (\<not> (stbi_load filename = None \<or>
         (\<exists>img. stbi_load filename = Some img \<and> colorChannels img \<noteq> 3 \<and> colorChannels img \<noteq> 4)) \<and>
      m_loadedTextures st < 16 \<longrightarrow>
        (\<exists>st'. CreateGLTexture stbi_load filename tag st = Inr (True, st') \<and>
           length (m_textureIDs st') = 16 \<and>
           m_loadedTextures st' = m_loadedTextures st + 1 \<and>
           m_textureIDs st' = (m_textureIDs st)[nat (m_loadedTextures st) :=
              \<lparr>tex_tag = tag, ID = names (gl st) (issued (gl st))\<rparr>] \<and>
           tex_tag (m_textureIDs st' ! nat (m_loadedTextures st)) = tag)) \<and>
     (\<forall>b st'. CreateGLTexture stbi_load filename tag st = Inr (b, st') \<longrightarrow>
        (b = False \<longleftrightarrow>
           (stbi_load filename = None \<or>
            (\<exists>img. stbi_load filename = Some img \<and> colorChannels img \<noteq> 3 \<and> colorChannels img \<noteq> 4))))"
proof (cases "loadable stbi_load filename")
  case False
  from CreateGLTexture_fail [OF False, of tag st]
  obtain st' where r: "CreateGLTexture stbi_load filename tag st = Inr (False, st')"
    "m_textureIDs st' = m_textureIDs st" "m_loadedTextures st' = m_loadedTextures st" by blast
  from False have nl: "stbi_load filename = None \<or>
      (\<exists>img. stbi_load filename = Some img \<and> colorChannels img \<noteq> 3 \<and> colorChannels img \<noteq> 4)"
    by (simp add: not_loadable_iff)
  from r nl show ?thesis by auto
next
  case True
  then have l: "\<not> (stbi_load filename = None \<or>
      (\<exists>img. stbi_load filename = Some img \<and> colorChannels img \<noteq> 3 \<and> colorChannels img \<noteq> 4))"
    using not_loadable_iff [of stbi_load filename] by blast
  show ?thesis
  proof (cases "m_loadedTextures st < 16")
    case lt: True
    then have lt': "m_loadedTextures st < int (length (m_textureIDs st))" using len by simp
    from CreateGLTexture_ok [OF True n(1) lt', of tag]
    obtain st' where r: "CreateGLTexture stbi_load filename tag st = Inr (True, st')"
      "m_textureIDs st' = (m_textureIDs st)[nat (m_loadedTextures st) :=
            \<lparr>tex_tag = tag, ID = names (gl st) (issued (gl st))\<rparr>]"
      "m_loadedTextures st' = m_loadedTextures st + 1" by blast
    have "nat (m_loadedTextures st) < length (m_textureIDs st)" using lt' n(1) by simp
    with r l len show ?thesis by auto
  next
    case ge: False
    then have "CreateGLTexture stbi_load filename tag st = Inl OutOfBounds"
      using True len by (intro CreateGLTexture_full) simp_all
    with l ge show ?thesis by simp
  qed
qed

theorem CreateGLTexture_within_capacity_witness:
  "length (m_textureIDs (example_scene None :: (fexp, mexp) state)) = 16 \<and>
   0 \<le> m_loadedTextures (example_scene None :: (fexp, mexp) state) \<and>
   m_loadedTextures (example_scene None :: (fexp, mexp) state) \<le> 16 \<and>
   (\<exists>st'. CreateGLTexture example_stbi_load ''3desk.jpg'' ''deskTexture''
            (example_scene None :: (fexp, mexp) state) = Inr (True, st') \<and>
      m_loadedTextures st' = 1 \<and>
      m_textureIDs st' ! 0 = \<lparr>tex_tag = ''deskTexture'', ID = 1\<rparr>) \<and>
   (\<exists>st'. CreateGLTexture example_stbi_load ''missing.jpg'' ''deskTexture''
            (example_scene None :: (fexp, mexp) state) = Inr (False, st') \<and>
      m_loadedTextures st' = 0) \<and>
   (\<exists>st'. CreateGLTexture example_stbi_load ''1gray.jpg'' ''deskTexture''
            (example_scene None :: (fexp, mexp) state) = Inr (False, st') \<and>
      m_loadedTextures st' = 0)"
proof -
  let ?st = "example_scene None :: (fexp, mexp) state"
  have h1: "length (m_textureIDs ?st) = 16"
    by (simp add: example_scene_def SceneManager_init_def)
  have h2: "0 \<le> m_loadedTextures ?st"
    by (simp add: example_scene_def SceneManager_init_def)
  have h3: "m_loadedTextures ?st \<le> 16"
    by (simp add: example_scene_def SceneManager_init_def)
  have n: "m_loadedTextures ?st = 0" "names (gl ?st) (issued (gl ?st)) = 1"
    by (simp_all add: example_scene_def SceneManager_init_def example_gl_def)
  have f1: "example_stbi_load ''3desk.jpg'' = Some \<lparr>width = 64, height = 64, colorChannels = 3\<rparr>"
    by (simp add: example_stbi_load_def)
  have f2: "example_stbi_load ''missing.jpg'' = None"
    by (simp add: example_stbi_load_def)
  have f3: "example_stbi_load ''1gray.jpg'' = Some \<lparr>width = 64, height = 64, colorChannels = 1\<rparr>"
    by (simp add: example_stbi_load_def)
  from CreateGLTexture_within_capacity [OF h1 h2 h3, of example_stbi_load "''3desk.jpg''" "''deskTexture''"]
  have a: "\<exists>st'. CreateGLTexture example_stbi_load ''3desk.jpg'' ''deskTexture'' ?st = Inr (True, st') \<and>
      m_loadedTextures st' = 1 \<and> m_textureIDs st' ! 0 = \<lparr>tex_tag = ''deskTexture'', ID = 1\<rparr>"
    using h1 by (auto simp: f1 n)
  from CreateGLTexture_within_capacity [OF h1 h2 h3, of example_stbi_load "''missing.jpg''" "''deskTexture''"]
  have b: "\<exists>st'. CreateGLTexture example_stbi_load ''missing.jpg'' ''deskTexture'' ?st = Inr (False, st') \<and>
      m_loadedTextures st' = 0"
    by (auto simp: f2 n)
  from CreateGLTexture_within_capacity [OF h1 h2 h3, of example_stbi_load "''1gray.jpg''" "''deskTexture''"]
  have c: "\<exists>st'. CreateGLTexture example_stbi_load ''1gray.jpg'' ''deskTexture'' ?st = Inr (False, st') \<and>
      m_loadedTextures st' = 0"
    by (auto simp: f3 n)
  show ?thesis
    by (intro conjI h1 h2 h3 a b c)
qed

text \<open>
  C6 as stated fails: the claim has \<^verbatim>\<open>CreateGLTexture\<close> return normally on every input.
  After sixteen successful loads on a fresh scene, one more call with a readable
  three-channel image stores past the end of the table.
\<close>

theorem sixteen_loads_then_overflow:
  "\<exists>lg st. load_all example_stbi_load (replicate 16 (''3desk.jpg'', ''deskTexture''))
       (example_scene None :: (fexp, mexp) state) = Inr (lg, st) \<and>
     m_loadedTextures st = 16 \<and>
     CreateGLTexture example_stbi_load ''3desk.jpg'' ''deskTexture'' st = Inl OutOfBounds"
proof -
  let ?st = "example_scene None :: (fexp, mexp) state"
  have l: "loadable example_stbi_load ''3desk.jpg''"
    by (simp add: loadable_def example_stbi_load_def)
  have p1: "0 \<le> m_loadedTextures ?st"
    by (simp add: example_scene_def SceneManager_init_def)
  have p2: "m_loadedTextures ?st
      + int (length (filter (loadable example_stbi_load) (map fst (replicate 16 (''3desk.jpg'', ''deskTexture'')))))
      \<le> int (length (m_textureIDs ?st))"
    using l by (simp add: example_scene_def SceneManager_init_def)
  from load_all_registry [OF p1 p2]
  obtain lg st where r: "load_all example_stbi_load (replicate 16 (''3desk.jpg'', ''deskTexture'')) ?st = Inr (lg, st)"
    "map (\<lambda>(t, b, h). b) lg = map (\<lambda>(f, t). loadable example_stbi_load f) (replicate 16 (''3desk.jpg'', ''deskTexture''))"
    "length (m_textureIDs st) = length (m_textureIDs ?st)"
    "m_loadedTextures st = m_loadedTextures ?st + int (length (loaded lg))" by blast
  have eq: "map (\<lambda>(t, b, h). b) lg = replicate 16 True"
    using r(2) l by simp
  from arg_cong [OF eq, of length] have len: "length lg = 16" by simp
  from arg_cong [OF eq, of set] have "(\<lambda>(t, b, h). b) ` set lg = {True}" by simp
  then have "\<forall>e \<in> set lg. (\<lambda>(t, b, h). b) e" by blast
  then have "filter (\<lambda>(t, b, h). b) lg = lg" by (simp add: filter_id_conv)
  then have "length (loaded lg) = 16" using len by (simp add: loaded_def)
  with r have n: "m_loadedTextures st = 16" "length (m_textureIDs st) = 16"
    by (simp_all add: example_scene_def SceneManager_init_def)
  have "CreateGLTexture example_stbi_load ''3desk.jpg'' ''deskTexture'' st = Inl OutOfBounds"
    using l n by (intro CreateGLTexture_full) simp_all
  with r(1) n(1) show ?thesis
    by (intro exI [of _ lg] exI [of _ st] conjI)
qed

section \<open>Lookup after a run of loads\<close>

lemma loaded_tags_subset: "fst ` set (loaded lg) \<subseteq> fst ` set lg"
proof (induction lg)
  case Nil
  then show ?case by simp
next
  case (Cons e lg)
  obtain t b h where e: "e = (t, b, h)" by (cases e)
  from Cons show ?case unfolding e by (cases b) auto
qed

lemma loaded_tags_distinct:
  "distinct (map fst lg) \<Longrightarrow> distinct (map fst (loaded lg))"
proof (induction lg)
  case Nil
  then show ?case by simp
next
  case (Cons e lg)
  obtain t b h where e: "e = (t, b, h)" by (cases e)
  from Cons.prems e have t: "t \<notin> fst ` set lg" and d: "distinct (map fst lg)" by simp_all
  from t loaded_tags_subset [of lg] have t': "t \<notin> fst ` set (loaded lg)" by blast
  from Cons.IH [OF d] t' show ?case unfolding e by (cases b) simp_all
qed

text \<open>Lookups in a registry whose loaded prefix is a given list of (tag, name) pairs with distinct tags.\<close>

lemma lookup_in_prefix:
  assumes n: "m_loadedTextures st = int (length es)"
      and le: "m_loadedTextures st \<le> int (length (m_textureIDs st))"
      and tk: "take (nat (m_loadedTextures st)) (m_textureIDs st) = map (\<lambda>(t, h). \<lparr>tex_tag = t, ID = h\<rparr>) es"
      and d: "distinct (map fst es)"
  shows "\<forall>k < length es. FindTextureSlot st (fst (es ! k)) = Inr (int k) \<and>
                         FindTextureID st (fst (es ! k)) = Inr (sint (snd (es ! k)))"
    and "\<forall>t. t \<notin> fst ` set es \<longrightarrow> FindTextureSlot st t = Inr (- 1) \<and> FindTextureID st t = Inr (- 1)"
proof -
  have nth: "\<And>j. j < length es \<Longrightarrow> m_textureIDs st ! j = \<lparr>tex_tag = fst (es ! j), ID = snd (es ! j)\<rparr>"
  proof -
    fix j assume j: "j < length es"
    have "m_textureIDs st ! j = take (nat (m_loadedTextures st)) (m_textureIDs st) ! j"
      using j n by simp
    also have "\<dots> = \<lparr>tex_tag = fst (es ! j), ID = snd (es ! j)\<rparr>"
      using j by (simp add: tk case_prod_beta)
    finally show "m_textureIDs st ! j = \<lparr>tex_tag = fst (es ! j), ID = snd (es ! j)\<rparr>" .
  qed
  show "\<forall>k < length es. FindTextureSlot st (fst (es ! k)) = Inr (int k) \<and>
                         FindTextureID st (fst (es ! k)) = Inr (sint (snd (es ! k)))"
  proof (intro allI impI)
    fix k assume k: "k < length es"
    have other: "\<forall>j. 0 \<le> j \<and> j < int k \<longrightarrow> tex_tag (m_textureIDs st ! nat j) \<noteq> fst (es ! k)"
    proof (intro allI impI)
      fix j :: int assume j: "0 \<le> j \<and> j < int k"
      then have jk: "nat j < k" by linarith
      with k have "nat j < length es" by simp
      moreover have "fst (es ! nat j) \<noteq> fst (es ! k)"
        using nth_eq_iff_index_eq [OF d, of "nat j" k] jk k by simp
      ultimately show "tex_tag (m_textureIDs st ! nat j) \<noteq> fst (es ! k)"
        by (simp add: nth)
    qed
    have here: "tex_tag (m_textureIDs st ! nat (int k)) = fst (es ! k)"
      using k by (simp add: nth)
    have kn: "int k < m_loadedTextures st" using k n by simp
    have a: "FindTextureSlot st (fst (es ! k)) = Inr (int k)"
      unfolding FindTextureSlot_def
      by (rule FindTextureSlot_loop_found [OF le _ _ kn here other]) simp_all
    have "FindTextureID st (fst (es ! k)) = Inr (sint (ID (m_textureIDs st ! nat (int k))))"
      unfolding FindTextureID_def
      by (rule FindTextureID_loop_found [OF le _ _ kn here other]) simp_all
    then have b: "FindTextureID st (fst (es ! k)) = Inr (sint (snd (es ! k)))"
      using k by (simp add: nth)
    from a b show "FindTextureSlot st (fst (es ! k)) = Inr (int k) \<and>
                   FindTextureID st (fst (es ! k)) = Inr (sint (snd (es ! k)))" by simp
  qed
  show "\<forall>t. t \<notin> fst ` set es \<longrightarrow> FindTextureSlot st t = Inr (- 1) \<and> FindTextureID st t = Inr (- 1)"
  proof (intro allI impI)
    fix t assume t: "t \<notin> fst ` set es"
    have none: "\<forall>j. 0 \<le> j \<and> j < m_loadedTextures st \<longrightarrow> tex_tag (m_textureIDs st ! nat j) \<noteq> t"
    proof (intro allI impI)
      fix j :: int assume j: "0 \<le> j \<and> j < m_loadedTextures st"
      then have lt: "nat j < length es" using n by linarith
      then have "es ! nat j \<in> set es" by (rule nth_mem)
      then have "fst (es ! nat j) \<in> fst ` set es" by (rule imageI)
      with t have "fst (es ! nat j) \<noteq> t" by blast
      with lt show "tex_tag (m_textureIDs st ! nat j) \<noteq> t" by (simp add: nth)
    qed
    have a: "FindTextureSlot st t = Inr (- 1)"
      unfolding FindTextureSlot_def
      by (rule FindTextureSlot_loop_missing [OF le _ none]) simp
    have b: "FindTextureID st t = Inr (- 1)"
      unfolding FindTextureID_def
      by (rule FindTextureID_loop_missing [OF le _ none]) simp
    from a b show "FindTextureSlot st t = Inr (- 1) \<and> FindTextureID st t = Inr (- 1)" by simp
  qed
qed

lemma load_all_registry_partial:
  "load_all stbi_load cs st = Inr (lg, st') \<Longrightarrow>
   0 \<le> m_loadedTextures st \<Longrightarrow> m_loadedTextures st \<le> int (length (m_textureIDs st)) \<Longrightarrow>
     map fst lg = map snd cs \<and>
     map (\<lambda>(t, b, h). b) lg = map (\<lambda>(f, t). loadable stbi_load f) cs \<and>
     m_loadedTextures st' \<le> int (length (m_textureIDs st')) \<and>
     m_loadedTextures st' = m_loadedTextures st + int (length (loaded lg)) \<and>
     take (nat (m_loadedTextures st')) (m_textureIDs st') =
       take (nat (m_loadedTextures st)) (m_textureIDs st) @
       map (\<lambda>(t, h). \<lparr>tex_tag = t, ID = h\<rparr>) (loaded lg)"
proof (induction cs arbitrary: st lg)
  case Nil
  then show ?case by simp
next
  case (Cons c cs)
  obtain f t where c: "c = (f, t)" by (cases c)
  let ?n = "m_loadedTextures st"
  from Cons.prems(1) c obtain b st1 log1 where
    step: "CreateGLTexture stbi_load f t st = Inr (b, st1)"
    and rest: "load_all stbi_load cs st1 = Inr (log1, st')"
    and lg: "lg = (t, b, names (gl st) (issued (gl st))) # log1"
    by (auto split: sum.splits prod.splits)
  show ?case
  proof (cases "loadable stbi_load f")
    case True
    have lt: "?n < int (length (m_textureIDs st))"
    proof (rule ccontr)
      assume "\<not> ?n < int (length (m_textureIDs st))"
      then have "CreateGLTexture stbi_load f t st = Inl OutOfBounds"
        using True by (intro CreateGLTexture_full) simp_all
      with step show False by simp
    qed
    from CreateGLTexture_ok [OF True Cons.prems(2) lt, of t] step
    have st1: "b = True"
      "m_textureIDs st1 = (m_textureIDs st)[nat ?n := \<lparr>tex_tag = t, ID = names (gl st) (issued (gl st))\<rparr>]"
      "m_loadedTextures st1 = ?n + 1" by auto
    have p1: "0 \<le> m_loadedTextures st1" using st1 Cons.prems(2) by simp
    have p2: "m_loadedTextures st1 \<le> int (length (m_textureIDs st1))"
      using st1 lt by simp
    from Cons.IH [OF rest p1 p2] have r:
      "map fst log1 = map snd cs"
      "map (\<lambda>(t, b, h). b) log1 = map (\<lambda>(f, t). loadable stbi_load f) cs"
      "m_loadedTextures st' \<le> int (length (m_textureIDs st'))"
      "m_loadedTextures st' = m_loadedTextures st1 + int (length (loaded log1))"
      "take (nat (m_loadedTextures st')) (m_textureIDs st') =
         take (nat (m_loadedTextures st1)) (m_textureIDs st1) @
         map (\<lambda>(t, h). \<lparr>tex_tag = t, ID = h\<rparr>) (loaded log1)" by blast+
    have tk: "take (nat (m_loadedTextures st1)) (m_textureIDs st1) =
        take (nat ?n) (m_textureIDs st) @ [\<lparr>tex_tag = t, ID = names (gl st) (issued (gl st))\<rparr>]"
    proof -
      have "nat (?n + 1) = Suc (nat ?n)" using Cons.prems(2) by simp
      moreover have "nat ?n < length (m_textureIDs st)" using lt Cons.prems(2) by simp
      ultimately show ?thesis using st1 by (simp add: take_Suc_update)
    qed
    show ?thesis
      using r st1 tk c True lg by simp
  next
    case False
    from CreateGLTexture_fail [OF False, of t st] step
    have st1: "b = False" "m_textureIDs st1 = m_textureIDs st" "m_loadedTextures st1 = ?n"
      by auto
    have p1: "0 \<le> m_loadedTextures st1" using st1 Cons.prems(2) by simp
    have p2: "m_loadedTextures st1 \<le> int (length (m_textureIDs st1))"
      using st1 Cons.prems(3) by simp
    from Cons.IH [OF rest p1 p2] have r:
      "map fst log1 = map snd cs"
      "map (\<lambda>(t, b, h). b) log1 = map (\<lambda>(f, t). loadable stbi_load f) cs"
      "m_loadedTextures st' \<le> int (length (m_textureIDs st'))"
      "m_loadedTextures st' = m_loadedTextures st1 + int (length (loaded log1))"
      "take (nat (m_loadedTextures st')) (m_textureIDs st') =
         take (nat (m_loadedTextures st1)) (m_textureIDs st1) @
         map (\<lambda>(t, h). \<lparr>tex_tag = t, ID = h\<rparr>) (loaded log1)" by blast+
    show ?thesis
      using r st1 c False lg by simp
  qed
qed

text \<open>A run with more successful loads than the table has free slots stores past the end
  of the table.\<close>

lemma load_all_overflow:
  "0 \<le> m_loadedTextures st \<Longrightarrow> m_loadedTextures st \<le> int (length (m_textureIDs st)) \<Longrightarrow>
   int (length (m_textureIDs st))
     < m_loadedTextures st + int (length (filter (loadable stbi_load) (map fst cs))) \<Longrightarrow>
   load_all stbi_load cs st = Inl OutOfBounds"
proof (induction cs arbitrary: st)
  case Nil
  then show ?case by simp
next
  case (Cons c cs)
  obtain f t where c: "c = (f, t)" by (cases c)
  let ?n = "m_loadedTextures st"
  show ?case
  proof (cases "loadable stbi_load f")
    case True
    show ?thesis
    proof (cases "?n < int (length (m_textureIDs st))")
      case lt: True
      from CreateGLTexture_ok [OF True Cons.prems(1) lt, of t]
      obtain st1 where st1: "CreateGLTexture stbi_load f t st = Inr (True, st1)"
        "m_textureIDs st1 = (m_textureIDs st)[nat ?n := \<lparr>tex_tag = t, ID = names (gl st) (issued (gl st))\<rparr>]"
        "m_loadedTextures st1 = ?n + 1" by blast
      have p1: "0 \<le> m_loadedTextures st1" using st1 Cons.prems(1) by simp
      have p2: "m_loadedTextures st1 \<le> int (length (m_textureIDs st1))" using st1 lt by simp
      have p3: "int (length (m_textureIDs st1))
          < m_loadedTextures st1 + int (length (filter (loadable stbi_load) (map fst cs)))"
        using st1 Cons.prems(3) True c by simp
      from Cons.IH [OF p1 p2 p3] st1(1) c show ?thesis by simp
    next
      case False
      then have "CreateGLTexture stbi_load f t st = Inl OutOfBounds"
        using True by (intro CreateGLTexture_full) simp_all
      with c show ?thesis by simp
    qed
  next
    case False
    from CreateGLTexture_fail [OF False, of t st]
    obtain st1 where st1: "CreateGLTexture stbi_load f t st = Inr (False, st1)"
      "m_textureIDs st1 = m_textureIDs st" "m_loadedTextures st1 = ?n" by blast
    have p1: "0 \<le> m_loadedTextures st1" using st1 Cons.prems(1) by simp
    have p2: "m_loadedTextures st1 \<le> int (length (m_textureIDs st1))" using st1 Cons.prems(2) by simp
    have p3: "int (length (m_textureIDs st1))
        < m_loadedTextures st1 + int (length (filter (loadable stbi_load) (map fst cs)))"
      using st1 Cons.prems(3) False c by simp
    from Cons.IH [OF p1 p2 p3] st1(1) c show ?thesis by simp
  qed
qed

text \<open>The conversion of a texture name to \<^verbatim>\<open>int\<close> keeps a name below \<open>2 ^ 31\<close>.\<close>

lemma name_as_int:
  fixes h :: GLuint
  shows "h < 2 ^ 31 \<Longrightarrow> sint h = uint h"
  apply (simp add: word_less_alt sint_uint)
  apply (rule signed_take_bit_int_eq_self)
   apply simp_all
  apply (rule order_trans [of _ 0])
   apply simp_all
  done

text \<open>
  C7, as amended. Take any run of \<^verbatim>\<open>CreateGLTexture\<close> calls with pairwise distinct tags on a
  registry with no texture loaded. When no more of its calls succeed than the table has
  slots (sixteen), the run ends normally; then the tag of the \<open>k\<close>-th successful call (from
  0, failed calls not counted) is found by \<^verbatim>\<open>FindTextureSlot\<close> at \<open>k\<close> and by \<^verbatim>\<open>FindTextureID\<close>
  with the texture name generated in that call converted to \<^verbatim>\<open>int\<close>, which is the name
  itself when the name is below \<open>2 ^ 31\<close>, and for any other tag both return \<^verbatim>\<open>-1\<close>. When more
  calls would succeed than the table has slots, the run does not end normally: a store
  goes past the end of the table.
\<close>

theorem lookup_follows_load_order:
  assumes fresh: "m_loadedTextures st0 = 0"
      and dist: "distinct (map snd cs)"
  shows "(\<forall>lg st. load_all stbi_load cs st0 = Inr (lg, st) \<longrightarrow>
            map fst lg = map snd cs \<and>
            map (\<lambda>(t, b, h). b) lg = map (\<lambda>(f, t). loadable stbi_load f) cs \<and>
            (\<forall>k < length (loaded lg).
               FindTextureSlot st (fst (loaded lg ! k)) = Inr (int k) \<and>
               FindTextureID st (fst (loaded lg ! k)) = Inr (sint (snd (loaded lg ! k))) \<and>
               (snd (loaded lg ! k) < 2 ^ 31 \<longrightarrow>
                  FindTextureID st (fst (loaded lg ! k)) = Inr (uint (snd (loaded lg ! k))))) \<and>
            (\<forall>t. t \<notin> fst ` set (loaded lg) \<longrightarrow>
               FindTextureSlot st t = Inr (- 1) \<and> FindTextureID st t = Inr (- 1))) \<and>
         (length (filter (loadable stbi_load) (map fst cs)) \<le> length (m_textureIDs st0) \<longrightarrow>
            (\<exists>lg st. load_all stbi_load cs st0 = Inr (lg, st))) \<and>
         (length (m_textureIDs st0) < length (filter (loadable stbi_load) (map fst cs)) \<longrightarrow>
            load_all stbi_load cs st0 = Inl OutOfBounds)"
proof (intro conjI allI impI)
  fix lg st
  assume run: "load_all stbi_load cs st0 = Inr (lg, st)"
  have p1: "0 \<le> m_loadedTextures st0" and p2: "m_loadedTextures st0 \<le> int (length (m_textureIDs st0))"
    using fresh by simp_all
  from load_all_registry_partial [OF run p1 p2] have r:
    "map fst lg = map snd cs"
    "map (\<lambda>(t, b, h). b) lg = map (\<lambda>(f, t). loadable stbi_load f) cs"
    "m_loadedTextures st \<le> int (length (m_textureIDs st))"
    "m_loadedTextures st = m_loadedTextures st0 + int (length (loaded lg))"
    "take (nat (m_loadedTextures st)) (m_textureIDs st) =
       take (nat (m_loadedTextures st0)) (m_textureIDs st0) @
       map (\<lambda>(t, h). \<lparr>tex_tag = t, ID = h\<rparr>) (loaded lg)" by blast+
  from r(1) show tags: "map fst lg = map snd cs" .
  from r(2) show "map (\<lambda>(t, b, h). b) lg = map (\<lambda>(f, t). loadable stbi_load f) cs" .
  have n: "m_loadedTextures st = int (length (loaded lg))" using r(4) fresh by simp
  note le = r(3)
  have tk: "take (nat (m_loadedTextures st)) (m_textureIDs st) =
      map (\<lambda>(t, h). \<lparr>tex_tag = t, ID = h\<rparr>) (loaded lg)"
    using r(5) fresh by simp
  have d: "distinct (map fst (loaded lg))"
    using dist tags by (intro loaded_tags_distinct) simp
  note A = lookup_in_prefix(1) [OF n le tk d] and B = lookup_in_prefix(2) [OF n le tk d]
  {
    fix k assume "k < length (loaded lg)"
    with A show "FindTextureSlot st (fst (loaded lg ! k)) = Inr (int k)" by simp
  }
  {
    fix k assume "k < length (loaded lg)"
    with A show "FindTextureID st (fst (loaded lg ! k)) = Inr (sint (snd (loaded lg ! k)))" by simp
  }
  {
    fix k assume k: "k < length (loaded lg)" and small: "snd (loaded lg ! k) < 2 ^ 31"
    from k A have "FindTextureID st (fst (loaded lg ! k)) = Inr (sint (snd (loaded lg ! k)))" by simp
    with name_as_int [OF small]
    show "FindTextureID st (fst (loaded lg ! k)) = Inr (uint (snd (loaded lg ! k)))" by simp
  }
  {
    fix t assume "t \<notin> fst ` set (loaded lg)"
    with B show "FindTextureSlot st t = Inr (- 1)" by simp
  }
  {
    fix t assume "t \<notin> fst ` set (loaded lg)"
    with B show "FindTextureID st t = Inr (- 1)" by simp
  }
next
  assume cap: "length (filter (loadable stbi_load) (map fst cs)) \<le> length (m_textureIDs st0)"
  have p1: "0 \<le> m_loadedTextures st0" using fresh by simp
  have p2: "m_loadedTextures st0 + int (length (filter (loadable stbi_load) (map fst cs)))
      \<le> int (length (m_textureIDs st0))" using fresh cap by simp
  from load_all_registry [OF p1 p2]
  show "\<exists>lg st. load_all stbi_load cs st0 = Inr (lg, st)" by blast
next
  assume over: "length (m_textureIDs st0) < length (filter (loadable stbi_load) (map fst cs))"
  have p1: "0 \<le> m_loadedTextures st0" and p2: "m_loadedTextures st0 \<le> int (length (m_textureIDs st0))"
    using fresh by simp_all
  have p3: "int (length (m_textureIDs st0))
      < m_loadedTextures st0 + int (length (filter (loadable stbi_load) (map fst cs)))"
    using fresh over by simp
  from load_all_overflow [OF p1 p2 p3]
  show "load_all stbi_load cs st0 = Inl OutOfBounds" .
qed

theorem lookup_follows_load_order_witness:
  "m_loadedTextures (example_scene None :: (fexp, mexp) state) = 0 \<and>
   distinct (map snd [(''3desk.jpg'', ''deskTexture''), (''missing.jpg'', ''laptopTex''),
                      (''1gray.jpg'', ''screenTex''), (''4mug.png'', ''mugTex'')]) \<and>
   (\<exists>lg st. load_all example_stbi_load
        [(''3desk.jpg'', ''deskTexture''), (''missing.jpg'', ''laptopTex''),
         (''1gray.jpg'', ''screenTex''), (''4mug.png'', ''mugTex'')]
        (example_scene None :: (fexp, mexp) state) = Inr (lg, st) \<and>
      map fst (loaded lg) = [''deskTexture'', ''mugTex''] \<and>
      FindTextureSlot st ''deskTexture'' = Inr 0 \<and>
      FindTextureSlot st ''mugTex'' = Inr 1 \<and>
      FindTextureSlot st ''laptopTex'' = Inr (- 1) \<and>
      FindTextureID st ''screenTex'' = Inr (- 1))"
proof -
  let ?st = "example_scene None :: (fexp, mexp) state"
  let ?cs = "[(''3desk.jpg'', ''deskTexture''), (''missing.jpg'', ''laptopTex''),
              (''1gray.jpg'', ''screenTex''), (''4mug.png'', ''mugTex'')]"
  have h1: "m_loadedTextures ?st = 0"
    by (simp add: example_scene_def SceneManager_init_def)
  have h2: "length (filter (loadable example_stbi_load) (map fst ?cs)) \<le> length (m_textureIDs ?st)"
    by (simp add: example_scene_def SceneManager_init_def)
  have h3: "distinct (map snd ?cs)" by simp
  have fl: "map (\<lambda>(f, t). loadable example_stbi_load f) ?cs = [True, False, False, True]"
    by (simp add: loadable_def example_stbi_load_def)
  note th = lookup_follows_load_order [OF h1 h3, of example_stbi_load]
  from th h2 obtain lg st where run: "load_all example_stbi_load ?cs ?st = Inr (lg, st)"
    by blast
  from th run have r:
    "map fst lg = map snd ?cs"
    "map (\<lambda>(t, b, h). b) lg = map (\<lambda>(f, t). loadable example_stbi_load f) ?cs"
    "\<forall>k < length (loaded lg). FindTextureSlot st (fst (loaded lg ! k)) = Inr (int k)"
    "\<forall>t. t \<notin> fst ` set (loaded lg) \<longrightarrow>
        FindTextureSlot st t = Inr (- 1) \<and> FindTextureID st t = Inr (- 1)" by blast+
  from r(1) r(2) fl obtain ha hb hc hd where
    lg: "lg = [(''deskTexture'', True, ha), (''laptopTex'', False, hb),
                 (''screenTex'', False, hc), (''mugTex'', True, hd)]"
    by (auto simp: map_eq_Cons_conv)
  have ld: "loaded lg = [(''deskTexture'', ha), (''mugTex'', hd)]"
    by (simp add: lg loaded_def)
  from r(3) have s0: "FindTextureSlot st ''deskTexture'' = Inr 0"
    by (auto simp: ld dest: spec [of _ 0])
  from r(3) have s1: "FindTextureSlot st ''mugTex'' = Inr 1"
    by (auto simp: ld dest: spec [of _ 1])
  from r(4) have s2: "FindTextureSlot st ''laptopTex'' = Inr (- 1)"
    by (auto simp: ld dest: spec [of _ "''laptopTex''"])
  from r(4) have s3: "FindTextureID st ''screenTex'' = Inr (- 1)"
    by (auto simp: ld dest: spec [of _ "''screenTex''"])
  have tags: "map fst (loaded lg) = [''deskTexture'', ''mugTex'']" by (simp add: ld)
  show ?thesis
    by (intro conjI exI [of _ lg] exI [of _ st] h1 h3 run tags s0 s1 s2 s3)
qed

text \<open>
  C7 as stated fails, in two ways. Seventeen loads of readable three-channel images under
  pairwise distinct tags do not end normally, so no lookup follows them. And when the
  driver hands out the texture name \<^verbatim>\<open>0xFFFFFFFF\<close>, \<^verbatim>\<open>FindTextureID\<close> returns \<^verbatim>\<open>-1\<close> for the tag
  loaded under that name: not the handle, and the value it returns for a tag that was
  never loaded.
\<close>

theorem lookup_after_loads_fails:
  "distinct (map snd seventeen_textures) \<and>
   load_all example_stbi_load seventeen_textures (example_scene None :: (fexp, mexp) state)
     = Inl OutOfBounds \<and>
   (\<exists>lg st.
      load_all example_stbi_load [(''3desk.jpg'', ''deskTexture'')]
        ((example_scene None :: (fexp, mexp) state)\<lparr>gl := example_gl\<lparr>names := (\<lambda>n. 0xFFFFFFFF)\<rparr>\<rparr>)
        = Inr (lg, st) \<and>
      loaded lg = [(''deskTexture'', 0xFFFFFFFF)] \<and>
      FindTextureSlot st ''deskTexture'' = Inr 0 \<and>
      FindTextureID st ''deskTexture'' = Inr (- 1) \<and>
      FindTextureID st ''laptopTex'' = Inr (- 1))"
proof -
  let ?st = "example_scene None :: (fexp, mexp) state"
  have a: "distinct (map snd seventeen_textures)"
    by (simp add: seventeen_textures_def)
  have p1: "0 \<le> m_loadedTextures ?st" and p2: "m_loadedTextures ?st \<le> int (length (m_textureIDs ?st))"
    by (simp_all add: example_scene_def SceneManager_init_def)
  have p3: "int (length (m_textureIDs ?st))
      < m_loadedTextures ?st
        + int (length (filter (loadable example_stbi_load) (map fst seventeen_textures)))"
    by (simp add: example_scene_def SceneManager_init_def seventeen_textures_def loadable_def
        example_stbi_load_def)
  have b: "load_all example_stbi_load seventeen_textures ?st = Inl OutOfBounds"
    by (rule load_all_overflow [OF p1 p2 p3])
  have c: "\<exists>lg st.
      load_all example_stbi_load [(''3desk.jpg'', ''deskTexture'')]
        (?st\<lparr>gl := example_gl\<lparr>names := (\<lambda>n. 0xFFFFFFFF)\<rparr>\<rparr>) = Inr (lg, st) \<and>
      loaded lg = [(''deskTexture'', 0xFFFFFFFF)] \<and>
      FindTextureSlot st ''deskTexture'' = Inr 0 \<and>
      FindTextureID st ''deskTexture'' = Inr (- 1) \<and>
      FindTextureID st ''laptopTex'' = Inr (- 1)"
    by (simp add: CreateGLTexture_def store_texture_def gl_gen_def example_stbi_load_def
        example_scene_def SceneManager_init_def example_gl_def Let_def loaded_def
        FindTextureSlot_def FindTextureID_def glBindTexture_def gl_log_def)
  from a b c show ?thesis by (intro conjI)
qed

section \<open>Framebuffer check in scene preparation\<close>

text \<open>What the check reads: \<^verbatim>\<open>glBindFramebuffer(GL_FRAMEBUFFER, 0)\<close> comes before
  \<^verbatim>\<open>glCheckFramebufferStatus\<close>, so the diagnostic depends on the default framebuffer alone.\<close>

lemma PrepareScene_shadow_map_check:
  "cerr (PrepareScene_shadow_map st) =
     (if framebufferComplete (gl st) 0 then cerr st
      else cerr st @ [''ERROR: Shadow map framebuffer is not complete!'']) \<and>
   m_shadowMapFBO (PrepareScene_shadow_map st) = names (gl st) (issued (gl st)) \<and>
   framebufferComplete (gl (PrepareScene_shadow_map st)) = framebufferComplete (gl st)"
  by (simp add: PrepareScene_shadow_map_def gl_gen_def gl_log_def glBindTexture_def
      glBindFramebuffer_def glCheckFramebufferStatus_def Let_def split: prod.splits)

text \<open>
  C8. The claim is that the completeness of the shadow map framebuffer itself is checked
  and reported. In a context whose default framebuffer is complete and whose other
  framebuffers are not, scene preparation creates the shadow framebuffer (name 1), that
  framebuffer is incomplete, and nothing is written to \<^verbatim>\<open>std::cerr\<close>.
\<close>

theorem incomplete_shadow_framebuffer_not_reported:
  "m_shadowMapFBO (PrepareScene_shadow_map
      ((example_scene None :: (fexp, mexp) state)
         \<lparr>gl := example_gl\<lparr>framebufferComplete := (\<lambda>fb. fb = 0)\<rparr>\<rparr>)) = 1 \<and>
   framebufferComplete (gl (PrepareScene_shadow_map
      ((example_scene None :: (fexp, mexp) state)
         \<lparr>gl := example_gl\<lparr>framebufferComplete := (\<lambda>fb. fb = 0)\<rparr>\<rparr>))) 1 = False \<and>
   cerr (PrepareScene_shadow_map
      ((example_scene None :: (fexp, mexp) state)
         \<lparr>gl := example_gl\<lparr>framebufferComplete := (\<lambda>fb. fb = 0)\<rparr>\<rparr>)) = []"
  by (simp add: PrepareScene_shadow_map_check example_scene_def SceneManager_init_def example_gl_def)

section \<open>Shader files that cannot be opened\<close>

text \<open>
  C9. \<^verbatim>\<open>LoadShaders\<close> returns 0 without creating a program when the vertex shader file
  cannot be opened. When that file opens, it creates, links and returns a program whether
  or not the fragment shader file opens; with the fragment file missing the fragment
  shader is compiled from the empty string. With a driver that hands out a non-zero
  program name, the result is 0 exactly when the vertex file cannot be opened.
\<close>

theorem LoadShaders_open_failures:
  fixes g :: "('f, 'm) gl_state"
  shows
  "(files vertex_file_path = None \<longrightarrow>
      fst (LoadShaders files vertex_file_path fragment_file_path this g err) = 0 \<and>
      fst (snd (LoadShaders files vertex_file_path fragment_file_path this g err)) = this \<and>
      calls (fst (snd (snd (LoadShaders files vertex_file_path fragment_file_path this g err)))) =
        calls g @ [CreateShader ''GL_VERTEX_SHADER'' (names g (issued g)),
                   CreateShader ''GL_FRAGMENT_SHADER'' (names g (issued g + 1))]) \<and>
   (files vertex_file_path \<noteq> None \<longrightarrow>
      fst (LoadShaders files vertex_file_path fragment_file_path this g err) = names g (issued g + 2) \<and>
      m_programID (fst (snd (LoadShaders files vertex_file_path fragment_file_path this g err)))
        = names g (issued g + 2) \<and>
      CreateProgram (names g (issued g + 2))
        \<in> set (calls (fst (snd (snd (LoadShaders files vertex_file_path fragment_file_path this g err))))) \<and>
      LinkProgram (names g (issued g + 2))
        \<in> set (calls (fst (snd (snd (LoadShaders files vertex_file_path fragment_file_path this g err)))))) \<and>
   (files vertex_file_path \<noteq> None \<and> files fragment_file_path = None \<longrightarrow>
      ShaderSource (names g (issued g + 1)) ''''
        \<in> set (calls (fst (snd (snd (LoadShaders files vertex_file_path fragment_file_path this g err)))))) \<and>
   (names g (issued g + 2) \<noteq> 0 \<longrightarrow>
      (fst (LoadShaders files vertex_file_path fragment_file_path this g err) = 0
         \<longleftrightarrow> files vertex_file_path = None))"
  by (auto simp: LoadShaders_def gl_gen_def gl_log_def glUseProgram_def setUniform_def Let_def
      split: prod.splits option.splits)

theorem LoadShaders_open_failures_witness:
  "fst (LoadShaders (\<lambda>p. if p = ''vertexShader.glsl'' then Some ''void main() {}'' else None)
          ''vertexShader.glsl'' ''fragmentShader.glsl'' \<lparr>m_programID = 0\<rparr>
          (example_gl :: (fexp, mexp) gl_state) []) = 3 \<and>
   fst (LoadShaders (\<lambda>p. if p = ''fragmentShader.glsl'' then Some ''void main() {}'' else None)
          ''vertexShader.glsl'' ''fragmentShader.glsl'' \<lparr>m_programID = 0\<rparr>
          (example_gl :: (fexp, mexp) gl_state) []) = 0"
  using LoadShaders_open_failures [of "\<lambda>p. if p = ''vertexShader.glsl'' then Some ''void main() {}'' else None"
      "''vertexShader.glsl''" "''fragmentShader.glsl''" "\<lparr>m_programID = 0\<rparr>"
      "example_gl :: (fexp, mexp) gl_state" "[]"]
    LoadShaders_open_failures [of "\<lambda>p. if p = ''fragmentShader.glsl'' then Some ''void main() {}'' else None"
      "''vertexShader.glsl''" "''fragmentShader.glsl''" "\<lparr>m_programID = 0\<rparr>"
      "example_gl :: (fexp, mexp) gl_state" "[]"]
  by (simp add: example_gl_def)

section \<open>Fragment colour\<close>

text \<open>
  C4. With lighting enabled and at least one active light, the output colour is the base
  colour (the texture sample at the scaled coordinate when \<^verbatim>\<open>bUseTexture\<close>, else
  \<^verbatim>\<open>objectColor\<close>) with red, green and blue multiplied by \<open>intensity\<close>,
  \<open>intensity * 0.9\<close> and \<open>intensity * 0.1\<close>, where \<open>intensity\<close> is the maximum of 0 and the
  dot product of the normalised normal with the normalised direction from the fragment
  to \<^verbatim>\<open>lightSources[0].position\<close>; alpha is the base alpha. Otherwise the output is the
  base colour. The output is the same for any other contents of \<^verbatim>\<open>lightSources[1..7]\<close>,
  of the other fields of \<^verbatim>\<open>lightSources[0]\<close>, of \<^verbatim>\<open>material\<close> and of \<^verbatim>\<open>viewPosition\<close>.
\<close>

theorem fragment_color_formula:
  "frag_main G u i =
     (if bUseLighting u \<and> 0 < numActiveLights u then
        Vec4
          (g_mul G
             (g_max G (g_dot G (g_normalize G (fragmentVertexNormal i))
                (g_normalize G (sub3 G (position (lightSources u 0)) (fragmentPosition i)))) (g_lit G ''0.0''))
             (cr (if bUseTexture u
                  then g_texture G (objectTexture u) (mul2 G (fragmentTextureCoordinate i) (UVscale u))
                  else objectColor u)))
          (g_mul G
             (g_mul G
               (g_max G (g_dot G (g_normalize G (fragmentVertexNormal i))
                  (g_normalize G (sub3 G (position (lightSources u 0)) (fragmentPosition i)))) (g_lit G ''0.0''))
               (g_lit G ''0.9''))
             (cg (if bUseTexture u
                  then g_texture G (objectTexture u) (mul2 G (fragmentTextureCoordinate i) (UVscale u))
                  else objectColor u)))
          (g_mul G
             (g_mul G
               (g_max G (g_dot G (g_normalize G (fragmentVertexNormal i))
                  (g_normalize G (sub3 G (position (lightSources u 0)) (fragmentPosition i)))) (g_lit G ''0.0''))
               (g_lit G ''0.1''))
             (cb (if bUseTexture u
                  then g_texture G (objectTexture u) (mul2 G (fragmentTextureCoordinate i) (UVscale u))
                  else objectColor u)))
          (ca (if bUseTexture u
               then g_texture G (objectTexture u) (mul2 G (fragmentTextureCoordinate i) (UVscale u))
               else objectColor u))
      else (if bUseTexture u
            then g_texture G (objectTexture u) (mul2 G (fragmentTextureCoordinate i) (UVscale u))
            else objectColor u)) \<and>
   frag_main G
     (u\<lparr>lightSources := (\<lambda>k. if k = 0 then (ls 0)\<lparr>position := position (lightSources u 0)\<rparr> else ls k),
        material := m, viewPosition := v\<rparr>) i
     = frag_main G u i"
  by (simp add: frag_main_def Let_def vec4_of_def mul3_def rgb_def)

section \<open>The two render passes\<close>

text \<open>Rules for \<open>draws_of\<close>: sequencing, loops, and one rule for each statement of the
  passes.\<close>

lemma draws_ofI:
  "(\<And>st. P st \<Longrightarrow> \<exists>st'. f st = Inr st' \<and> Q st' \<and> draws (gl st') = draws (gl st) @ ds)
     \<Longrightarrow> draws_of P f Q ds"
  by (simp add: draws_of_def)

lemma draws_ofD:
  "draws_of P f Q ds \<Longrightarrow> P st \<Longrightarrow> \<exists>st'. f st = Inr st' \<and> Q st' \<and> draws (gl st') = draws (gl st) @ ds"
  by (simp add: draws_of_def)

lemma draws_of_steps_Nil: "draws_of P (steps []) P []"
  by (simp add: draws_of_def)

lemma draws_of_steps_Cons:
  assumes f: "draws_of P f Q ds" and fs: "draws_of Q (steps fs) R es" and xs: "xs = ds @ es"
  shows "draws_of P (steps (f # fs)) R xs"
proof (rule draws_ofI)
  fix st assume "P st"
  from draws_ofD [OF f this] obtain st1 where
    1: "f st = Inr st1" "Q st1" "draws (gl st1) = draws (gl st) @ ds" by blast
  from draws_ofD [OF fs 1(2)] obtain st2 where
    2: "steps fs st1 = Inr st2" "R st2" "draws (gl st2) = draws (gl st1) @ es" by blast
  from 1 2 xs show "\<exists>st'. steps (f # fs) st = Inr st' \<and> R st' \<and> draws (gl st') = draws (gl st) @ xs"
    by simp
qed

declare steps.simps [simp del]

lemma draws_of_any_model:
  "(\<And>M. draws_of (pass_inv sh dsh cur M) f Q ds)
     \<Longrightarrow> draws_of (\<lambda>st. \<exists>M. pass_inv sh dsh cur M st) f Q ds"
  by (simp add: draws_of_def) blast

lemma draws_of_steps_map:
  assumes "\<And>x M. draws_of (pass_inv sh dsh cur M) (f x) (pass_inv sh dsh cur (g x M)) (d x)"
  shows "draws_of (pass_inv sh dsh cur M) (steps (map f xs))
           (pass_inv sh dsh cur (foldl (\<lambda>m x. g x m) M xs)) (concat (map d xs))"
proof (induction xs arbitrary: M)
  case Nil
  show ?case by (simp add: draws_of_def steps.simps)
next
  case (Cons x xs)
  have "draws_of (pass_inv sh dsh cur M) (steps (f x # map f xs))
          (pass_inv sh dsh cur (foldl (\<lambda>m x. g x m) (g x M) xs)) (d x @ concat (map d xs))"
    by (rule draws_of_steps_Cons [OF assms Cons.IH]) simp
  then show ?case by simp
qed

lemma draws_of_for_range:
  assumes "\<And>i M. draws_of (pass_inv sh dsh cur M) (body i) (pass_inv sh dsh cur (g i M)) (d i)"
  shows "draws_of (pass_inv sh dsh cur M) (for_range n body)
           (pass_inv sh dsh cur (foldl (\<lambda>m i. g (int i) m) M [0 ..< nat n]))
           (concat (map (\<lambda>i. d (int i)) [0 ..< nat n]))"
  unfolding for_range_def
  by (rule draws_of_steps_map [where f = "\<lambda>i. body (int i)" and g = "\<lambda>i. g (int i)" and d = "\<lambda>i. d (int i)"])
     (rule assms)

lemma FindTextureSlot_loop_total:
  "n \<le> int (length tbl) \<Longrightarrow> 0 \<le> i \<Longrightarrow>
   \<exists>r. FindTextureSlot_loop tbl n tag i = Inr r \<and> (r = - 1 \<or> 0 \<le> r)"
proof (induction tbl n tag i rule: FindTextureSlot_loop.induct)
  case (1 tbl n tag index)
  show ?case
  proof (cases "index < n \<and> tex_tag (tbl ! nat index) \<noteq> tag")
    case True
    then have "\<exists>r. FindTextureSlot_loop tbl n tag (index + 1) = Inr r \<and> (r = - 1 \<or> 0 \<le> r)"
      using "1.prems" by (intro "1.IH") auto
    with True "1.prems" show ?thesis by simp
  next
    case False
    with "1.prems" show ?thesis by auto
  qed
qed

lemma model_kept [simp]:
  "name \<noteq> ''model'' \<Longrightarrow> uniforms (setUniform s name v g) cur ''model'' = uniforms g cur ''model''"
  by (simp add: setUniform_def gl_log_def)

lemma model_set [simp]:
  "currentProgram g = cur \<Longrightarrow> uniforms (setUniform s ''model'' v g) cur ''model'' = Some v"
  by (auto simp: setUniform_def gl_log_def)

lemma setUniform_frame [simp]:
  "currentProgram (setUniform s name v g) = currentProgram g"
  "draws (setUniform s name v g) = draws g"
  by (simp_all add: setUniform_def gl_log_def)

lemma gl_log_frame [simp]:
  "currentProgram (gl_log c g) = currentProgram g"
  "draws (gl_log c g) = draws g"
  "uniforms (gl_log c g) = uniforms g"
  by (simp_all add: gl_log_def)

lemma gl_bind_frame [simp]:
  "currentProgram (glActiveTexture n g) = currentProgram g"
  "draws (glActiveTexture n g) = draws g"
  "uniforms (glActiveTexture n g) = uniforms g"
  "currentProgram (glBindTexture t g) = currentProgram g"
  "draws (glBindTexture t g) = draws g"
  "uniforms (glBindTexture t g) = uniforms g"
  "currentProgram (glBindFramebuffer fb g) = currentProgram g"
  "draws (glBindFramebuffer fb g) = draws g"
  "uniforms (glBindFramebuffer fb g) = uniforms g"
  by (simp_all add: glActiveTexture_def glBindTexture_def glBindFramebuffer_def gl_log_def)

lemma on_gl_pass:
  assumes "\<And>g. currentProgram (f g) = currentProgram g"
      and "\<And>g. draws (f g) = draws g"
      and "\<And>g. uniforms (f g) cur ''model'' = uniforms g cur ''model''"
  shows "draws_of (pass_inv sh dsh cur M) (on_gl f) (pass_inv sh dsh cur M) []"
  by (rule draws_ofI) (simp add: on_gl_def pass_inv_def assms)

lemma gl_log_pass:
  "draws_of (pass_inv sh dsh cur M) (on_gl (gl_log c)) (pass_inv sh dsh cur M) []"
  by (rule on_gl_pass) simp_all

lemma glActiveTexture_pass:
  "draws_of (pass_inv sh dsh cur M) (on_gl (glActiveTexture n)) (pass_inv sh dsh cur M) []"
  by (rule on_gl_pass) simp_all

lemma glBindFramebuffer_pass:
  "draws_of (pass_inv sh dsh cur M) (on_gl (glBindFramebuffer fb)) (pass_inv sh dsh cur M) []"
  by (rule on_gl_pass) simp_all

lemma bind_shadow_fbo_pass:
  "draws_of (pass_inv sh dsh cur M) (\<lambda>st. on_gl (glBindFramebuffer (m_shadowMapFBO st)) st)
     (pass_inv sh dsh cur M) []"
  by (rule draws_ofI) (simp add: on_gl_def pass_inv_def)

lemma bind_shadow_map_pass:
  "draws_of (pass_inv sh dsh cur M) (\<lambda>st. on_gl (glBindTexture (m_shadowMap st)) st)
     (pass_inv sh dsh cur M) []"
  by (rule draws_ofI) (simp add: on_gl_def pass_inv_def)

lemma main_uniform_pass:
  "name \<noteq> ''model'' \<Longrightarrow>
   draws_of (pass_inv sh dsh cur M) (deref_main (\<lambda>s. setUniform s name v)) (pass_inv sh dsh cur M) []"
  by (rule draws_ofI) (simp add: deref_main_def on_gl_def pass_inv_def)

lemma depth_uniform_pass:
  "name \<noteq> ''model'' \<Longrightarrow>
   draws_of (pass_inv sh dsh cur M) (deref_depth (\<lambda>s. setUniform s name v)) (pass_inv sh dsh cur M) []"
  by (rule draws_ofI) (simp add: deref_depth_def on_gl_def pass_inv_def)

lemma main_use_pass:
  "draws_of (pass_inv sh dsh cur M) (deref_main use)
     (\<lambda>st. \<exists>M'. pass_inv sh dsh (m_programID sh) M' st) []"
  by (rule draws_ofI)
     (simp add: deref_main_def on_gl_def pass_inv_def use_def glUseProgram_def gl_log_def)

lemma depth_use_pass:
  "draws_of (pass_inv sh dsh cur M) (deref_depth use)
     (\<lambda>st. \<exists>M'. pass_inv sh dsh (m_programID dsh) M' st) []"
  by (rule draws_ofI)
     (simp add: deref_depth_def on_gl_def pass_inv_def use_def glUseProgram_def gl_log_def)

lemma DrawBoxMesh_pass:
  "draws_of (pass_inv sh dsh cur M) DrawBoxMesh (pass_inv sh dsh cur M) [drawn cur (BoxMesh, M)]"
  by (rule draws_ofI)
     (auto simp: DrawBoxMesh_def on_gl_def pass_inv_def DrawMesh_gl_def gl_log_def drawn_def)

lemma DrawCylinderMesh_pass:
  "draws_of (pass_inv sh dsh cur M) DrawCylinderMesh (pass_inv sh dsh cur M) [drawn cur (CylinderMesh, M)]"
  by (rule draws_ofI)
     (auto simp: DrawCylinderMesh_def on_gl_def pass_inv_def DrawMesh_gl_def gl_log_def drawn_def)

lemma DrawTorusMesh_pass:
  "draws_of (pass_inv sh dsh cur M) DrawTorusMesh (pass_inv sh dsh cur M) [drawn cur (TorusMesh, M)]"
  by (rule draws_ofI)
     (auto simp: DrawTorusMesh_def on_gl_def pass_inv_def DrawMesh_gl_def gl_log_def drawn_def)

lemma DrawConeMesh_pass:
  "draws_of (pass_inv sh dsh cur M) DrawConeMesh (pass_inv sh dsh cur M) [drawn cur (ConeMesh, M)]"
  by (rule draws_ofI)
     (auto simp: DrawConeMesh_def on_gl_def pass_inv_def DrawMesh_gl_def gl_log_def drawn_def)

lemma SetTransformations_pass:
  "draws_of (pass_inv sh dsh cur M) (SetTransformations ops S rx ry rz T)
     (pass_inv sh dsh cur (Some (Mat4Value (modelView ops S rx ry rz T)))) []"
  by (rule draws_ofI) (auto simp: SetTransformations_def on_gl_def pass_inv_def)

lemma SetModelMatrix_pass:
  "draws_of (pass_inv sh dsh cur M) (SetModelMatrix ops S rx ry rz T)
     (pass_inv sh dsh cur (Some (Mat4Value (modelView ops S rx ry rz T)))) []"
  by (rule draws_ofI) (auto simp: SetModelMatrix_def on_gl_def pass_inv_def Let_def steps.simps)

lemma SetTextureUVScale_pass:
  "draws_of (pass_inv sh dsh cur M) (SetTextureUVScale u v) (pass_inv sh dsh cur M) []"
  by (rule draws_ofI) (auto simp: SetTextureUVScale_def on_gl_def pass_inv_def)

lemma SetShaderColor_pass:
  "draws_of (pass_inv sh dsh cur M) (SetShaderColor r g b a) (pass_inv sh dsh cur M) []"
  by (rule draws_ofI) (auto simp: SetShaderColor_def on_gl_def pass_inv_def steps.simps)

lemma material_uniforms_pass:
  "draws_of (pass_inv sh dsh cur M) (material_uniforms a s d sp shn) (pass_inv sh dsh cur M) []"
  unfolding material_uniforms_def
  by (rule draws_of_steps_Cons draws_of_steps_Nil main_uniform_pass | simp)+

lemma SetShaderMaterial_pass:
  "draws_of (pass_inv sh dsh cur M) (SetShaderMaterial ops materialTag) (pass_inv sh dsh cur M) []"
  by (simp add: SetShaderMaterial_def material_uniforms_pass)

lemma FindTextureSlot_total:
  fixes st1 :: "('a, 'b) state"
  assumes "m_loadedTextures st1 \<le> int (length (m_textureIDs st1))"
  shows "\<exists>slot. FindTextureSlot st1 textureTag = Inr slot"
proof -
  have "\<exists>r. FindTextureSlot_loop (m_textureIDs st1) (m_loadedTextures st1) textureTag 0 = Inr r \<and> (r = - 1 \<or> 0 \<le> r)"
    by (rule FindTextureSlot_loop_total [OF assms]) simp
  then show ?thesis unfolding FindTextureSlot_def by blast
qed

lemma glBindTexture_pass:
  "draws_of (pass_inv sh dsh cur M) (on_gl (glBindTexture t)) (pass_inv sh dsh cur M) []"
  by (rule on_gl_pass) simp_all

lemma on_gl_uniform_pass:
  "name \<noteq> ''model'' \<Longrightarrow>
   draws_of (pass_inv sh dsh cur M) (on_gl (setUniform s name v)) (pass_inv sh dsh cur M) []"
  by (rule on_gl_pass) simp_all

lemma bind_slot_pass:
  "draws_of (pass_inv sh dsh cur M)
     (steps [on_gl (glActiveTexture slot), on_gl (glBindTexture t),
             on_gl (setUniform s ''objectTexture'' (Sampler2DValue slot))])
     (pass_inv sh dsh cur M) []"
  by (rule draws_of_steps_Cons draws_of_steps_Nil glActiveTexture_pass glBindTexture_pass
        on_gl_uniform_pass | simp)+

lemma lookup_and_bind_pass:
  "draws_of (pass_inv sh dsh cur M)
     (\<lambda>st1. case FindTextureSlot st1 textureTag of
        Inl e \<Rightarrow> Inl e
      | Inr slot \<Rightarrow>
          if slot \<ge> 0 then
            steps [on_gl (glActiveTexture slot),
                   on_gl (glBindTexture (ID (m_textureIDs st1 ! nat slot))),
                   on_gl (setUniform s ''objectTexture'' (Sampler2DValue slot))] st1
          else Inr st1)
     (pass_inv sh dsh cur M) []"
proof (rule draws_ofI)
  fix st1 :: "('a, 'b) state"
  assume inv1: "pass_inv sh dsh cur M st1"
  then have "m_loadedTextures st1 \<le> int (length (m_textureIDs st1))"
    by (simp add: pass_inv_def)
  from FindTextureSlot_total [OF this]
  obtain slot where slot: "FindTextureSlot st1 textureTag = Inr slot" by blast
  from draws_ofD [OF bind_slot_pass inv1]
  obtain st2 where st2:
    "steps [on_gl (glActiveTexture slot), on_gl (glBindTexture (ID (m_textureIDs st1 ! nat slot))),
            on_gl (setUniform s ''objectTexture'' (Sampler2DValue slot))] st1 = Inr st2"
    "pass_inv sh dsh cur M st2" "draws (gl st2) = draws (gl st1) @ []" by blast
  show "\<exists>st'. (case FindTextureSlot st1 textureTag of
        Inl e \<Rightarrow> Inl e
      | Inr slot \<Rightarrow>
          if slot \<ge> 0 then
            steps [on_gl (glActiveTexture slot),
                   on_gl (glBindTexture (ID (m_textureIDs st1 ! nat slot))),
                   on_gl (setUniform s ''objectTexture'' (Sampler2DValue slot))] st1
          else Inr st1) = Inr st' \<and> pass_inv sh dsh cur M st' \<and> draws (gl st') = draws (gl st1) @ []"
  proof (cases "slot \<ge> 0")
    case True
    with slot st2 show ?thesis by simp
  next
    case False
    with slot inv1 show ?thesis by simp
  qed
qed

lemma SetShaderTexture_pass:
  "draws_of (pass_inv sh dsh cur M) (SetShaderTexture textureTag) (pass_inv sh dsh cur M) []"
proof (rule draws_ofI)
  fix st :: "('a, 'b) state"
  assume inv: "pass_inv sh dsh cur M st"
  then have main: "m_pShaderManager st = Some sh" by (simp add: pass_inv_def)
  have "draws_of (pass_inv sh dsh cur M)
     (steps [on_gl (setUniform sh ''bUseTexture'' (IntValue 1)),
        (\<lambda>st1. case FindTextureSlot st1 textureTag of
            Inl e \<Rightarrow> Inl e
          | Inr slot \<Rightarrow>
              if slot \<ge> 0 then
                steps [on_gl (glActiveTexture slot),
                       on_gl (glBindTexture (ID (m_textureIDs st1 ! nat slot))),
                       on_gl (setUniform sh ''objectTexture'' (Sampler2DValue slot))] st1
              else Inr st1)])
     (pass_inv sh dsh cur M) []"
    by (rule draws_of_steps_Cons draws_of_steps_Nil on_gl_uniform_pass lookup_and_bind_pass | simp)+
  from draws_ofD [OF this inv] main
  show "\<exists>st'. SetShaderTexture textureTag st = Inr st' \<and> pass_inv sh dsh cur M st' \<and>
          draws (gl st') = draws (gl st) @ []"
    by (simp add: SetShaderTexture_def)
qed

lemma draws_of_steps_Cons':
  assumes f: "draws_of P f Q ds" and fs: "draws_of Q (steps fs) R es"
  shows "draws_of P (steps (f # fs)) R (ds @ es)"
  by (rule draws_of_steps_Cons [OF f fs]) simp

lemma draws_of_weaken:
  "draws_of P f Q ds \<Longrightarrow> (\<And>st. Q st \<Longrightarrow> Q' st) \<Longrightarrow> ds = ds' \<Longrightarrow> draws_of P f Q' ds'"
  by (simp add: draws_of_def) blast

lemma pass_inv_any: "pass_inv sh dsh cur M st \<Longrightarrow> \<exists>M'. pass_inv sh dsh cur M' st"
  by blast

lemma draws_of_steps_Nil_any:
  "draws_of (pass_inv sh dsh cur M) (steps []) (\<lambda>st. \<exists>M'. pass_inv sh dsh cur M' st) []"
  by (rule draws_of_weaken [OF draws_of_steps_Nil]) (erule pass_inv_any, simp)

lemmas pass_rules =
  draws_of_any_model draws_of_steps_Cons' draws_of_steps_Nil draws_of_steps_Nil_any
  draws_of_for_range
  gl_log_pass glActiveTexture_pass glBindFramebuffer_pass bind_shadow_fbo_pass bind_shadow_map_pass
  main_uniform_pass depth_uniform_pass main_use_pass depth_use_pass
  DrawBoxMesh_pass DrawCylinderMesh_pass DrawTorusMesh_pass DrawConeMesh_pass
  SetTransformations_pass SetModelMatrix_pass SetTextureUVScale_pass SetShaderColor_pass
  SetShaderTexture_pass SetShaderMaterial_pass

lemma DrawDeskSurface_pass:
  "draws_of (pass_inv sh dsh (m_programID sh) M) (DrawDeskSurface ops)
     (\<lambda>st. \<exists>M'. pass_inv sh dsh (m_programID sh) M' st)
     (map (drawn (m_programID sh)) (desk_objects ops))"
  unfolding DrawDeskSurface_def
  apply (rule draws_of_weaken)
    apply (rule pass_rules | (simp; fail))+
   apply (erule pass_inv_any)
  apply (simp add: desk_objects_def object_def)
  done

lemma DrawCoffeeMug_pass:
  "draws_of (pass_inv sh dsh (m_programID sh) M) (DrawCoffeeMug ops)
     (\<lambda>st. \<exists>M'. pass_inv sh dsh (m_programID sh) M' st)
     (map (drawn (m_programID sh)) (mug_objects ops))"
  unfolding DrawCoffeeMug_def
  apply (rule draws_of_weaken)
    apply (rule pass_rules | (simp; fail))+
   apply (erule pass_inv_any)
  apply (simp add: mug_objects_def object_def)
  done

lemma DrawLaptop_pass:
  "draws_of (pass_inv sh dsh (m_programID sh) M) (DrawLaptop ops)
     (\<lambda>st. \<exists>M'. pass_inv sh dsh (m_programID sh) M' st)
     (map (drawn (m_programID sh)) (laptop_objects ops))"
  unfolding DrawLaptop_def
  apply (rule draws_of_weaken)
    apply (rule pass_rules | (simp; fail))+
   apply (erule pass_inv_any)
  apply (simp add: laptop_objects_def key_objects_def object_def map_concat comp_def)
  done

lemma DrawDeskLamp_pass:
  "draws_of (pass_inv sh dsh (m_programID sh) M) (DrawDeskLamp ops)
     (\<lambda>st. \<exists>M'. pass_inv sh dsh (m_programID sh) M' st)
     (map (drawn (m_programID sh)) (lamp_objects ops))"
  unfolding DrawDeskLamp_def
  apply (rule draws_of_weaken)
    apply (rule pass_rules | (simp; fail))+
   apply (erule pass_inv_any)
  apply (simp add: lamp_objects_def object_def)
  done

lemma DrawFloor_pass:
  "draws_of (pass_inv sh dsh (m_programID sh) M) (DrawFloor ops)
     (\<lambda>st. \<exists>M'. pass_inv sh dsh (m_programID sh) M' st)
     (map (drawn (m_programID sh)) (floor_objects ops))"
  unfolding DrawFloor_def
  apply (rule draws_of_weaken)
    apply (rule pass_rules | (simp; fail))+
   apply (erule pass_inv_any)
  apply (simp add: floor_objects_def object_def)
  done

lemma DrawBackground_pass:
  "draws_of (pass_inv sh dsh (m_programID sh) M) (DrawBackground ops)
     (\<lambda>st. \<exists>M'. pass_inv sh dsh (m_programID sh) M' st)
     (map (drawn (m_programID sh)) (wall_objects ops))"
  unfolding DrawBackground_def Let_def
  apply (rule draws_of_weaken)
    apply (rule pass_rules | (simp; fail))+
   apply (erule pass_inv_any)
  apply (simp add: wall_objects_def object_def vec3_lit_def WALL_ROTATION_def FLOOR_Y_def FLOOR_HEIGHT_def)
  done

lemmas draw_rules =
  DrawDeskSurface_pass DrawCoffeeMug_pass DrawLaptop_pass DrawDeskLamp_pass DrawFloor_pass
  DrawBackground_pass

lemma RenderScene_pass:
  "draws_of (pass_inv sh dsh cur M) (RenderScene ops lightSpaceMatrix)
     (\<lambda>st. \<exists>M'. pass_inv sh dsh (m_programID sh) M' st)
     (map (drawn (m_programID sh))
        (desk_objects ops @ mug_objects ops @ laptop_objects ops @ lamp_objects ops @
         floor_objects ops @ wall_objects ops))"
  unfolding RenderScene_def
  apply (rule draws_of_weaken)
    apply (rule pass_rules draw_rules | (simp; fail))+
  done

lemma RenderDepthPass_pass:
  "draws_of (pass_inv sh dsh cur M) (RenderDepthPass ops lightSpaceMatrix)
     (\<lambda>st. \<exists>M'. pass_inv sh dsh (m_programID dsh) M' st)
     (map (drawn (m_programID dsh))
        (desk_objects ops @ mug_objects ops @ lamp_objects ops @ laptop_objects ops @
         floor_objects ops @ wall_objects ops))"
  unfolding RenderDepthPass_def Let_def
  apply (rule draws_of_weaken)
    apply (rule pass_rules | (simp; fail))+
   apply (erule pass_inv_any)
  apply (simp add: desk_objects_def mug_objects_def lamp_objects_def laptop_objects_def
      key_objects_def floor_objects_def wall_objects_def object_def map_concat comp_def
      vec3_lit_def WALL_ROTATION_def WALL_SCALE_def WALL_POSITION_OFFSET_def FLOOR_Y_def FLOOR_HEIGHT_def)
  done

lemma objects_of_drawn [simp]:
  "map (\<lambda>d. (mesh d, model d)) (map (drawn p) objs) = objs"
  by (induction objs) (simp_all add: drawn_def)

lemma pass_objects_append:
  "draws (gl after) = draws (gl before) @ map (drawn p) objs \<Longrightarrow> pass_objects before after = objs"
  by (simp add: pass_objects_def del: map_map)

lemma key_objects_length: "length (key_objects ops) = 60"
  by (simp add: key_objects_def KEY_ROWS_def KEY_COLS_def length_concat comp_def sum_list_triv)

lemma laptop_objects_length: "length (laptop_objects ops) = 63"
  by (simp add: laptop_objects_def key_objects_length)

lemma objects_length:
  "length (desk_objects ops) = 1" "length (mug_objects ops) = 2" "length (lamp_objects ops) = 3"
  "length (floor_objects ops) = 1" "length (wall_objects ops) = 1"
  by (simp_all add: desk_objects_def mug_objects_def lamp_objects_def floor_objects_def
      wall_objects_def)

text \<open>
  C2, as amended. Within one frame (depth pass, then lit pass), with both shader managers
  present, the depth pass draws with the depth program and the lit pass with the main
  program; the \<^verbatim>\<open>model\<close> matrix a program holds at each draw is the product
  \<open>Translate * RotateX * RotateY * RotateZ * Scale\<close> of the object's scene constants; the
  (mesh, matrix) pairs of the two passes are the same objects, each as often in one pass
  as in the other. The order differs: the depth pass draws the lamp before the laptop,
  the lit pass after it.
\<close>

theorem depth_and_lit_pass_same_objects:
  fixes st :: "('f, 'm) state" and ops :: "('f, 'm) glm"
  assumes main: "m_pShaderManager st = Some sh"
      and depth: "m_pDepthShaderManager st = Some dsh"
      and wf: "m_loadedTextures st \<le> int (length (m_textureIDs st))"
  shows "\<exists>st1 st2.
     RenderDepthPass ops lightSpaceMatrix st = Inr st1 \<and>
     RenderScene ops lightSpaceMatrix st1 = Inr st2 \<and>
     RenderFrame ops lightSpaceMatrix st = Inr st2 \<and>
     draws (gl st1) = draws (gl st) @ map (drawn (m_programID dsh)) (pass_objects st st1) \<and>
     draws (gl st2) = draws (gl st1) @ map (drawn (m_programID sh)) (pass_objects st1 st2) \<and>
     pass_objects st st1 =
       desk_objects ops @ mug_objects ops @ lamp_objects ops @ laptop_objects ops @
       floor_objects ops @ wall_objects ops \<and>
     pass_objects st1 st2 =
       desk_objects ops @ mug_objects ops @ laptop_objects ops @ lamp_objects ops @
       floor_objects ops @ wall_objects ops \<and>
     mset (pass_objects st st1) = mset (pass_objects st1 st2)"
proof -
  have inv: "pass_inv sh dsh (currentProgram (gl st)) (uniforms (gl st) (currentProgram (gl st)) ''model'') st"
    using main depth wf by (simp add: pass_inv_def)
  from draws_ofD [OF RenderDepthPass_pass inv, of ops lightSpaceMatrix]
  obtain st1 M1 where 1: "RenderDepthPass ops lightSpaceMatrix st = Inr st1"
    "pass_inv sh dsh (m_programID dsh) M1 st1"
    "draws (gl st1) = draws (gl st) @ map (drawn (m_programID dsh))
       (desk_objects ops @ mug_objects ops @ lamp_objects ops @ laptop_objects ops @
        floor_objects ops @ wall_objects ops)" by blast
  from draws_ofD [OF RenderScene_pass 1(2), of ops lightSpaceMatrix]
  obtain st2 where 2: "RenderScene ops lightSpaceMatrix st1 = Inr st2"
    "draws (gl st2) = draws (gl st1) @ map (drawn (m_programID sh))
       (desk_objects ops @ mug_objects ops @ laptop_objects ops @ lamp_objects ops @
        floor_objects ops @ wall_objects ops)" by blast
  note p1 = pass_objects_append [OF 1(3)] and p2 = pass_objects_append [OF 2(2)]
  have frame: "RenderFrame ops lightSpaceMatrix st = Inr st2"
    using 1(1) 2(1) by (simp add: RenderFrame_def steps.simps)
  have d1: "draws (gl st1) = draws (gl st) @ map (drawn (m_programID dsh)) (pass_objects st st1)"
    using 1(3) by (simp only: p1)
  have d2: "draws (gl st2) = draws (gl st1) @ map (drawn (m_programID sh)) (pass_objects st1 st2)"
    using 2(2) by (simp only: p2)
  have m: "mset (pass_objects st st1) = mset (pass_objects st1 st2)"
    by (simp add: p1 p2)
  show ?thesis
    by (intro exI [of _ st1] exI [of _ st2] conjI 1(1) 2(1) frame d1 d2 p1 p2 m)
qed

lemma example_frame_scene_ready:
  "m_pShaderManager example_frame_scene = Some \<lparr>m_programID = 1\<rparr>"
  "m_pDepthShaderManager example_frame_scene = Some \<lparr>m_programID = 2\<rparr>"
  "m_loadedTextures example_frame_scene \<le> int (length (m_textureIDs example_frame_scene))"
  by (simp_all add: example_frame_scene_def example_scene_def SceneManager_init_def)

theorem depth_and_lit_pass_same_objects_witness:
  "m_pShaderManager example_frame_scene = Some \<lparr>m_programID = 1\<rparr> \<and>
   m_pDepthShaderManager example_frame_scene = Some \<lparr>m_programID = 2\<rparr> \<and>
   m_loadedTextures example_frame_scene \<le> int (length (m_textureIDs example_frame_scene)) \<and>
   (\<exists>st1 st2.
      RenderDepthPass symbolic MLightSpace example_frame_scene = Inr st1 \<and>
      RenderScene symbolic MLightSpace st1 = Inr st2 \<and>
      mset (pass_objects example_frame_scene st1) = mset (pass_objects st1 st2) \<and>
      length (pass_objects example_frame_scene st1) = 71 \<and>
      length (pass_objects st1 st2) = 71)"
proof -
  from depth_and_lit_pass_same_objects [OF example_frame_scene_ready, of symbolic MLightSpace]
  obtain st1 st2 where r:
    "RenderDepthPass symbolic MLightSpace example_frame_scene = Inr st1"
    "RenderScene symbolic MLightSpace st1 = Inr st2"
    "pass_objects example_frame_scene st1 =
       desk_objects symbolic @ mug_objects symbolic @ lamp_objects symbolic @ laptop_objects symbolic @
       floor_objects symbolic @ wall_objects symbolic"
    "pass_objects st1 st2 =
       desk_objects symbolic @ mug_objects symbolic @ laptop_objects symbolic @ lamp_objects symbolic @
       floor_objects symbolic @ wall_objects symbolic"
    "mset (pass_objects example_frame_scene st1) = mset (pass_objects st1 st2)" by blast
  note len = objects_length laptop_objects_length
  have l1: "length (pass_objects example_frame_scene st1) = 71" by (simp add: r(3) len)
  have l2: "length (pass_objects st1 st2) = 71" by (simp add: r(4) len)
  show ?thesis
    by (intro conjI exI [of _ st1] exI [of _ st2] example_frame_scene_ready r(1) r(2) r(5) l1 l2)
qed

text \<open>The fourth object is the lamp base (a cylinder) in one order and the laptop base (a
  box) in the other, whatever the float operations are.\<close>

lemma pass_order_differs:
  "(desk_objects ops @ mug_objects ops @ lamp_objects ops @ laptop_objects ops @
      floor_objects ops @ wall_objects ops) ! 3 \<noteq>
   (desk_objects ops @ mug_objects ops @ laptop_objects ops @ lamp_objects ops @
      floor_objects ops @ wall_objects ops) ! 3"
  by (simp add: desk_objects_def mug_objects_def lamp_objects_def laptop_objects_def object_def
      nth_append)

text \<open>
  C2 as stated fails: the two passes do not enumerate the same list. In the example
  frame the fourth object of the depth pass is a cylinder (the lamp base) and the fourth
  object of the lit pass is a box (the laptop base).
\<close>

theorem depth_and_lit_pass_order_differs:
  "\<exists>st1 st2.
     RenderDepthPass symbolic MLightSpace example_frame_scene = Inr st1 \<and>
     RenderScene symbolic MLightSpace st1 = Inr st2 \<and>
     fst (pass_objects example_frame_scene st1 ! 3) = CylinderMesh \<and>
     fst (pass_objects st1 st2 ! 3) = BoxMesh \<and>
     pass_objects example_frame_scene st1 \<noteq> pass_objects st1 st2"
proof -
  have inv: "pass_inv \<lparr>m_programID = 1\<rparr> \<lparr>m_programID = 2\<rparr>
      (currentProgram (gl example_frame_scene))
      (uniforms (gl example_frame_scene) (currentProgram (gl example_frame_scene)) ''model'')
      example_frame_scene"
    using example_frame_scene_ready by (simp add: pass_inv_def)
  from draws_ofD [OF RenderDepthPass_pass inv, of symbolic MLightSpace]
  obtain st1 M1 where 1: "RenderDepthPass symbolic MLightSpace example_frame_scene = Inr st1"
    "pass_inv \<lparr>m_programID = 1\<rparr> \<lparr>m_programID = 2\<rparr> (m_programID \<lparr>m_programID = 2\<rparr>) M1 st1"
    "draws (gl st1) = draws (gl example_frame_scene) @ map (drawn (m_programID \<lparr>m_programID = 2\<rparr>))
       (desk_objects symbolic @ mug_objects symbolic @ lamp_objects symbolic @ laptop_objects symbolic @
        floor_objects symbolic @ wall_objects symbolic)" by blast
  from draws_ofD [OF RenderScene_pass 1(2), of symbolic MLightSpace]
  obtain st2 where 2: "RenderScene symbolic MLightSpace st1 = Inr st2"
    "draws (gl st2) = draws (gl st1) @ map (drawn (m_programID \<lparr>m_programID = 1\<rparr>))
       (desk_objects symbolic @ mug_objects symbolic @ laptop_objects symbolic @ lamp_objects symbolic @
        floor_objects symbolic @ wall_objects symbolic)" by blast
  note p1 = pass_objects_append [OF 1(3)] and p2 = pass_objects_append [OF 2(2)]
  have a: "fst (pass_objects example_frame_scene st1 ! 3) = CylinderMesh"
    by (simp add: p1 desk_objects_def mug_objects_def lamp_objects_def object_def nth_append)
  have b: "fst (pass_objects st1 st2 ! 3) = BoxMesh"
    by (simp add: p2 desk_objects_def mug_objects_def laptop_objects_def object_def nth_append)
  from a b have c: "pass_objects example_frame_scene st1 \<noteq> pass_objects st1 st2"
    by auto
  show ?thesis
    by (intro exI [of _ st1] exI [of _ st2] conjI 1(1) 2(1) a b c)
qed


end
